theory Spec2Isabelle
  imports Main "HOL-Library.Monad_Syntax"
begin

section \<open>Python values, parameters and exceptions\<close>

text \<open>
  The fake cursor of \<^verbatim>\<open>fakesnow/fakes.py\<close> parses a statement of the warehouse dialect,
  checks the session context, rewrites the syntax tree, hands the emitted SQL to the
  embedded engine and afterwards writes the metadata the engine cannot hold into
  extension tables. Python objects are modelled by records, \<^verbatim>\<open>raise\<close> by a returned
  exception value, and the mutation of the cursor, of the connection and of the engine by
  explicit state passing: a method returns the exception it raised, if any, together with
  the state it leaves behind.

  Strings are lists of characters. The digit class covers the ASCII range, which is what
  the engine's type names and SQL's numbers use. \<^verbatim>\<open>str.upper\<close> is Python's own and is a
  function of the environment.
\<close>

datatype pyval = PyNone | PyBool bool | PyInt int | PyStr string

text \<open>\<^verbatim>\<open>params: Sequence[Any] | dict[Any, Any] | None\<close>\<close>

datatype params = NoParams | SeqParams "pyval list" | DictParams "(pyval \<times> pyval) list"

text \<open>\<^verbatim>\<open>seqparams: Sequence[Any] | dict[str, Any]\<close>, each element handed to \<^verbatim>\<open>execute\<close> as its parameters.\<close>

datatype seqparams = ManySeq "params list" | ManyDict "(string \<times> pyval) list"

text \<open>The exception classes of the engine; the argument is \<^verbatim>\<open>e.args[0]\<close>, the raw message.\<close>

datatype duck_exception =
    BinderException string
  | CatalogException string
  | ConversionException string
  | InvalidInputException string
  | ParserException string
  | OtherDuckException string

text \<open>
  What a method of the cursor can raise: the connector's \<^verbatim>\<open>ProgrammingError\<close> with the
  arguments \<^verbatim>\<open>msg\<close>, \<^verbatim>\<open>errno\<close> and \<^verbatim>\<open>sqlstate\<close> the cursor gives it, Python's
  \<^verbatim>\<open>NotImplementedError\<close>, the parser's error, or an exception of the engine that is
  passed on as it is.
\<close>

datatype exception =
    ProgrammingError (msg: string) (errno: int) (sqlstate: string)
  | NotImplementedError string
  | ParseError string
  | DuckDBError duck_exception

section \<open>Result metadata\<close>

record ResultMetadata =
  name :: string
  type_code :: int
  display_size :: "int option"
  internal_size :: "int option"
  precision :: "int option"
  scale :: "int option"
  is_nullable :: bool

text \<open>\<^verbatim>\<open>str.startswith\<close>\<close>

fun startswith :: "string \<Rightarrow> string \<Rightarrow> bool" where
  "startswith s [] = True"
| "startswith [] (p # ps) = False"
| "startswith (c # cs) (p # ps) = (c = p \<and> startswith cs ps)"

text \<open>The class \<^verbatim>\<open>\d\<close> and \<^verbatim>\<open>int\<close> of a string of digits.\<close>

definition is_digit :: "char \<Rightarrow> bool" where
  "is_digit c = (c \<in> set ''0123456789'')"

definition digit_value :: "char \<Rightarrow> int" where
  "digit_value c = int (of_char c) - 48"

definition int_of_digits :: "string \<Rightarrow> int" where
  "int_of_digits ds = foldl (\<lambda>n c. 10 * n + digit_value c) 0 ds"

text \<open>
  \<^verbatim>\<open>re.search(r'\((\d+),(\d+)\)', column_type)\<close>. A match at the head of the string is an
  opening bracket, a run of digits, a comma, a run of digits and a closing bracket. Each
  \<^verbatim>\<open>\d+\<close> is greedy and is followed by a character that is no digit, so a match takes the
  whole run of digits: \<open>takeWhile\<close> and \<open>dropWhile\<close>. The search returns the
  leftmost match, as the two groups.
\<close>

definition match_here :: "string \<Rightarrow> (string \<times> string) option" where
  "match_here s =
     (case s of
        [] \<Rightarrow> None
      | c # r0 \<Rightarrow>
          if c \<noteq> CHR ''('' then None
          else let g1 = takeWhile is_digit r0; r1 = dropWhile is_digit r0 in
            if g1 = [] then None
            else (case r1 of
                [] \<Rightarrow> None
              | c1 # r2 \<Rightarrow>
                  if c1 \<noteq> CHR '','' then None
                  else let g2 = takeWhile is_digit r2; r3 = dropWhile is_digit r2 in
                    if g2 = [] then None
                    else (case r3 of
                        [] \<Rightarrow> None
                      | c2 # r4 \<Rightarrow> if c2 = CHR '')'' then Some (g1, g2) else None)))"

fun re_search :: "string \<Rightarrow> (string \<times> string) option" where
  "re_search [] = match_here []"
| "re_search (c # cs) =
     (case match_here (c # cs) of Some m \<Rightarrow> Some m | None \<Rightarrow> re_search cs)"

text \<open>The inner function \<^verbatim>\<open>as_result_metadata(column_name, column_type, _)\<close>.\<close>

definition as_result_metadata :: "string \<Rightarrow> string \<Rightarrow> exception + ResultMetadata" where
  "as_result_metadata column_name column_type =
     (if column_type = ''BIGINT'' then
        Inr \<lparr>name = column_name, type_code = 0, display_size = None, internal_size = None,
             precision = Some 38, scale = Some 0, is_nullable = True\<rparr>
      else if startswith column_type ''DECIMAL'' then
        (case re_search column_type of
           Some (g1, g2) \<Rightarrow>
             Inr \<lparr>name = column_name, type_code = 0, display_size = None, internal_size = None,
                  precision = Some (int_of_digits g1), scale = Some (int_of_digits g2),
                  is_nullable = True\<rparr>
         | None \<Rightarrow>
             Inr \<lparr>name = column_name, type_code = 0, display_size = None, internal_size = None,
                  precision = None, scale = None, is_nullable = True\<rparr>)
      else if column_type = ''VARCHAR'' then
        Inr \<lparr>name = column_name, type_code = 2, display_size = None,
             internal_size = Some 16777216, precision = None, scale = None, is_nullable = True\<rparr>
      else if column_type = ''DOUBLE'' then
        Inr \<lparr>name = column_name, type_code = 1, display_size = None, internal_size = None,
             precision = None, scale = None, is_nullable = True\<rparr>
      else if column_type = ''BOOLEAN'' then
        Inr \<lparr>name = column_name, type_code = 13, display_size = None, internal_size = None,
             precision = None, scale = None, is_nullable = True\<rparr>
      else if column_type = ''DATE'' then
        Inr \<lparr>name = column_name, type_code = 3, display_size = None, internal_size = None,
             precision = None, scale = None, is_nullable = True\<rparr>
      else if column_type \<in> {''TIMESTAMP'', ''TIMESTAMP_NS''} then
        Inr \<lparr>name = column_name, type_code = 8, display_size = None, internal_size = None,
             precision = Some 0, scale = Some 9, is_nullable = True\<rparr>
      else Inl (NotImplementedError (''for column type '' @ column_type)))"

text \<open>
  \<^verbatim>\<open>_describe_as_result_metadata(describe_results)\<close>: the list comprehension over the rows
  \<^verbatim>\<open>(column_name, column_type, null, _, _, _)\<close> of the engine's describe output. The first
  row whose type is not mapped ends it with the exception.
\<close>

type_synonym describe_row = "string \<times> string \<times> pyval \<times> pyval \<times> pyval \<times> pyval"

fun describe_as_result_metadata :: "describe_row list \<Rightarrow> exception + ResultMetadata list" where
  "describe_as_result_metadata [] = Inr []"
| "describe_as_result_metadata ((column_name, column_type, null, k, d, x) # rows) =
     (case as_result_metadata column_name column_type of
        Inl err \<Rightarrow> Inl err
      | Inr m \<Rightarrow>
          (case describe_as_result_metadata rows of
             Inl err \<Rightarrow> Inl err
           | Inr ms \<Rightarrow> Inr (m # ms)))"

section \<open>The syntax tree and the session context\<close>

text \<open>
  The parser and the SQL generator are a library, and the modules \<^verbatim>\<open>fakesnow.checks\<close>,
  \<^verbatim>\<open>fakesnow.expr\<close> and \<^verbatim>\<open>fakesnow.transforms\<close> are not in \<^verbatim>\<open>fakes.py\<close>. The cursor
  uses them through the functions below, over a type \<open>'e\<close> of syntax trees; they are
  collected in the record \<open>env\<close> further down, with the engine.

  \<^verbatim>\<open>expression.find(exp.Identifier)\<close> gives an identifier whose \<^verbatim>\<open>this\<close> is a string or
  another node; \<^verbatim>\<open>find(exp.Table)\<close> gives a table with its \<^verbatim>\<open>catalog\<close>, \<^verbatim>\<open>db\<close> and
  \<^verbatim>\<open>name\<close>, each the empty string when the reference does not have the part.
\<close>

datatype identifier_this = ThisStr string | ThisNode

record table =
  catalog :: string
  db :: string
  tbl_name :: string

datatype 'e command = CommandStr string | CommandExpr 'e

text \<open>The fields \<^verbatim>\<open>FakeSnowflakeConnection.__init__\<close> sets.\<close>

record connection =
  database :: "string option"
  schema :: "string option"
  database_set :: bool
  schema_set :: bool
  paramstyle :: string

section \<open>The embedded engine\<close>

text \<open>
  The cursor sends the engine one statement at a time. The statement emitted for the
  user's command is text whose meaning is the engine's own: \<open>Statement sql params\<close>,
  run by the function \<open>run_statement\<close> of the environment, which may change the engine
  in any way and may raise. The five statements the extension store is made of are fixed
  texts of \<^verbatim>\<open>fakes.py\<close> with a catalog name and, in the two inserts, the text of the
  values put in; each has a constructor that carries what is put in:

  \<^item> \<open>CreateTablesExt catalog\<close>:
    \<^verbatim>\<open>create table ${catalog}.information_schema.tables_ext (ext_table_catalog varchar, ext_table_schema varchar, ext_table_name varchar, comment varchar, PRIMARY KEY(ext_table_catalog, ext_table_schema, ext_table_name))\<close>
  \<^item> \<open>CreateColumnsExt catalog\<close>:
    \<^verbatim>\<open>create table ${catalog}.information_schema.columns_ext (ext_table_catalog varchar, ext_table_schema varchar, ext_table_name varchar, ext_column_name varchar, ext_character_maximum_length integer, ext_character_octet_length integer, PRIMARY KEY(ext_table_catalog, ext_table_schema, ext_table_name, ext_column_name))\<close>
  \<^item> \<open>CreateColumnsView catalog\<close>:
    \<^verbatim>\<open>create view ${catalog}.information_schema.columns_snowflake AS select ... from ${catalog}.information_schema.columns left join ${catalog}.information_schema.columns_ext ext on ...\<close>
  \<^item> \<open>InsertTablesExt catalog values\<close>:
    \<^verbatim>\<open>INSERT INTO {catalog}.information_schema.tables_ext values {values} ON CONFLICT (ext_table_catalog, ext_table_schema, ext_table_name) DO UPDATE SET comment = excluded.comment\<close>
  \<^item> \<open>InsertColumnsExt catalog values\<close>:
    \<^verbatim>\<open>INSERT INTO {catalog}.information_schema.columns_ext values {values} ON CONFLICT (ext_table_catalog, ext_table_schema, ext_table_name, ext_column_name) DO UPDATE SET ext_character_maximum_length = excluded.ext_character_maximum_length, ext_character_octet_length = excluded.ext_character_octet_length\<close>

  The values of an insert are text, character for character what the f-string of the
  cursor writes: nothing in it is escaped, and it is the engine that reads rows from it.

  The engine itself is a library. What it does with these five statements is written
  below as SQL has it: a \<^verbatim>\<open>create\<close> without \<^verbatim>\<open>if not exists\<close> raises a catalog error when
  the name is taken; an \<^verbatim>\<open>insert\<close> needs its table, checks the two \<^verbatim>\<open>integer\<close> columns,
  and under \<^verbatim>\<open>on conflict ... do update\<close> overwrites the row that has the key; a statement
  that raises changes nothing. Names are compared as they are written (the passes have
  upper-cased them), and the texts of the engine's messages are abridged.
\<close>

type_synonym tables_ext_key = "string \<times> string \<times> string"

type_synonym columns_ext_key = "string \<times> string \<times> string \<times> string"

type_synonym tables_ext_row = "tables_ext_key \<times> string"

type_synonym columns_ext_row = "columns_ext_key \<times> int \<times> int"

datatype statement =
    Statement string params
  | CreateTablesExt string
  | CreateColumnsExt string
  | CreateColumnsView string
  | InsertTablesExt string string
  | InsertColumnsExt string string

text \<open>
  The two inserts as the whole text the cursor sends, line breaks and indentation of the
  f-string included.
\<close>

definition tables_ext_insert :: "string \<Rightarrow> string \<Rightarrow> string" where
  "tables_ext_insert catalog' values =
     ''\<newline>                INSERT INTO '' @ catalog' @ ''.information_schema.tables_ext'' @
     ''\<newline>                values '' @ values @
     ''\<newline>                ON CONFLICT (ext_table_catalog, ext_table_schema, ext_table_name)'' @
     ''\<newline>                DO UPDATE SET comment = excluded.comment'' @
     ''\<newline>                ''"

definition columns_ext_insert :: "string \<Rightarrow> string \<Rightarrow> string" where
  "columns_ext_insert catalog' values =
     ''\<newline>                INSERT INTO '' @ catalog' @ ''.information_schema.columns_ext'' @
     ''\<newline>                values '' @ values @
     ''\<newline>                ON CONFLICT (ext_table_catalog, ext_table_schema, ext_table_name, ext_column_name)'' @
     ''\<newline>                DO UPDATE SET ext_character_maximum_length = excluded.ext_character_maximum_length,'' @
     ''\<newline>                                ext_character_octet_length = excluded.ext_character_octet_length'' @
     ''\<newline>                ''"

subsection \<open>Reading the values of an insert\<close>

text \<open>
  A string literal of SQL starts and ends with a single quote, and two single quotes
  inside it stand for one. \<open>read_string\<close> reads the text after the opening quote up to
  the quote that closes the literal, and gives the string the literal stands for and the
  text that follows; there is no result when the literal is not closed.
\<close>

definition quote :: char where
  "quote = CHR 0x27"

fun read_string :: "string \<Rightarrow> (string \<times> string) option" where
  "read_string [] = None"
| "read_string [c] = (if c = quote then Some ([], []) else None)"
| "read_string (c # d # cs) =
     (if c \<noteq> quote then map_option (\<lambda>(v, r). (c # v, r)) (read_string (d # cs))
      else if d = quote then map_option (\<lambda>(v, r). (quote # v, r)) (read_string cs)
      else Some ([], d # cs))"

definition read_literal :: "string \<Rightarrow> (string \<times> string) option" where
  "read_literal s =
     (case s of
        [] \<Rightarrow> None
      | c # cs \<Rightarrow> if c = quote then read_string cs else None)"

text \<open>A whole number: a run of digits, with a minus sign before it or without.\<close>

definition read_digits :: "string \<Rightarrow> (int \<times> string) option" where
  "read_digits s =
     (if takeWhile is_digit s = [] then None
      else Some (int_of_digits (takeWhile is_digit s), dropWhile is_digit s))"

definition read_integer :: "string \<Rightarrow> (int \<times> string) option" where
  "read_integer s =
     (case s of
        [] \<Rightarrow> None
      | c # cs \<Rightarrow>
          if c = CHR ''-'' then map_option (\<lambda>(n, r). (- n, r)) (read_digits cs)
          else read_digits s)"

text \<open>The text \<open>p\<close> at the head of \<open>s\<close>, and what follows it.\<close>

definition expect :: "string \<Rightarrow> string \<Rightarrow> string option" where
  "expect p s = (if startswith s p then Some (drop (length p) s) else None)"

text \<open>
  A row of \<^verbatim>\<open>tables_ext\<close> is four string literals between brackets, a row of
  \<^verbatim>\<open>columns_ext\<close> four string literals and two whole numbers, with a comma and a blank
  between two values.
\<close>

definition read_tables_ext_row :: "string \<Rightarrow> (tables_ext_row \<times> string) option" where
  "read_tables_ext_row s0 = do {
     s1 \<leftarrow> expect ''('' s0;
     (a, s2) \<leftarrow> read_literal s1;
     s3 \<leftarrow> expect '', '' s2;
     (b, s4) \<leftarrow> read_literal s3;
     s5 \<leftarrow> expect '', '' s4;
     (c, s6) \<leftarrow> read_literal s5;
     s7 \<leftarrow> expect '', '' s6;
     (d, s8) \<leftarrow> read_literal s7;
     s9 \<leftarrow> expect '')'' s8;
     Some (((a, b, c), d), s9)
   }"

definition read_columns_ext_row :: "string \<Rightarrow> (columns_ext_row \<times> string) option" where
  "read_columns_ext_row s0 = do {
     s1 \<leftarrow> expect ''('' s0;
     (a, s2) \<leftarrow> read_literal s1;
     s3 \<leftarrow> expect '', '' s2;
     (b, s4) \<leftarrow> read_literal s3;
     s5 \<leftarrow> expect '', '' s4;
     (c, s6) \<leftarrow> read_literal s5;
     s7 \<leftarrow> expect '', '' s6;
     (d, s8) \<leftarrow> read_literal s7;
     s9 \<leftarrow> expect '', '' s8;
     (m, s10) \<leftarrow> read_integer s9;
     s11 \<leftarrow> expect '', '' s10;
     (n, s12) \<leftarrow> read_integer s11;
     s13 \<leftarrow> expect '')'' s12;
     Some (((a, b, c, d), m, n), s13)
   }"

text \<open>
  The values of an insert are rows with a comma and a blank between two of them, up to
  the end of the text. The number bounds the rows that are read; a row takes at least
  one character, so the length of the text is never too small.
\<close>

fun read_rows :: "(string \<Rightarrow> ('r \<times> string) option) \<Rightarrow> nat \<Rightarrow> string \<Rightarrow> 'r list option" where
  "read_rows read_row 0 s = None"
| "read_rows read_row (Suc fuel) s =
     (case read_row s of
        None \<Rightarrow> None
      | Some (row, r) \<Rightarrow>
          if r = [] then Some [row]
          else (case expect '', '' r of
              None \<Rightarrow> None
            | Some r' \<Rightarrow> map_option ((#) row) (read_rows read_row fuel r')))"

definition tables_ext_values :: "string \<Rightarrow> tables_ext_row list option" where
  "tables_ext_values values = read_rows read_tables_ext_row (length values) values"

definition columns_ext_values :: "string \<Rightarrow> columns_ext_row list option" where
  "columns_ext_values values = read_rows read_columns_ext_row (length values) values"

subsection \<open>Catalogs and their relations\<close>

text \<open>
  The engine holds its attached catalogs. Of a catalog the model keeps the relations the
  extension creates in its \<^verbatim>\<open>information_schema\<close>, by name and in the order of creation;
  a table is the list of its rows, a row its key columns, in the order of the primary
  key, and its other columns. Everything else the engine holds is \<open>rest\<close>.
\<close>

datatype relation =
    TablesExt "tables_ext_row list"
  | ColumnsExt "columns_ext_row list"
  | ColumnsView

record 'db engine =
  catalogs :: "string \<Rightarrow> (string \<times> relation) list option"
  rest :: 'db

text \<open>
  \<^verbatim>\<open>create table\<close> and \<^verbatim>\<open>create view\<close>, written without \<^verbatim>\<open>if not exists\<close> or
  \<^verbatim>\<open>or replace\<close>: the engine refuses a catalog that is not attached and a name that is
  taken.
\<close>

definition create_relation :: "string \<Rightarrow> string \<Rightarrow> relation \<Rightarrow> 'db engine \<Rightarrow> duck_exception + 'db engine" where
  "create_relation catalog' nm rel eng =
     (case catalogs eng catalog' of
        None \<Rightarrow> Inl (BinderException (''Catalog '' @ catalog' @ '' does not exist!''))
      | Some objs \<Rightarrow>
          if nm \<in> set (map fst objs)
          then Inl (CatalogException (''Table with name '' @ nm @ '' already exists!''))
          else Inr (eng\<lparr>catalogs := (catalogs eng)(catalog' \<mapsto> objs @ [(nm, rel)])\<rparr>))"

text \<open>
  \<^verbatim>\<open>INSERT ... ON CONFLICT (key) DO UPDATE SET\<close> every other column to the new row's: a row
  whose key is in the table takes the new values, a row whose key is not is added.
\<close>

fun on_conflict_do_update :: "'k \<Rightarrow> 'v \<Rightarrow> ('k \<times> 'v) list \<Rightarrow> ('k \<times> 'v) list" where
  "on_conflict_do_update k v [] = [(k, v)]"
| "on_conflict_do_update k v ((k', v') # rows) =
     (if k' = k then (k', v) # rows else (k', v') # on_conflict_do_update k v rows)"

text \<open>
  One statement may bring several rows. The engine refuses to update a row twice in one
  statement, so the new rows must differ in their keys; then they are put in one by one.
\<close>

definition insert_on_conflict :: "('k \<times> 'v) list \<Rightarrow> ('k \<times> 'v) list \<Rightarrow> duck_exception + ('k \<times> 'v) list" where
  "insert_on_conflict new rows =
     (if distinct (map fst new)
      then Inr (foldl (\<lambda>t (k, v). on_conflict_do_update k v t) rows new)
      else Inl (InvalidInputException
        ''ON CONFLICT DO UPDATE can not update the same row twice in the same command''))"

text \<open>The columns declared \<^verbatim>\<open>integer\<close> hold 32 bits.\<close>

definition is_integer :: "int \<Rightarrow> bool" where
  "is_integer n = (- 2147483648 \<le> n \<and> n \<le> 2147483647)"

definition replace_relation :: "string \<Rightarrow> relation \<Rightarrow> (string \<times> relation) list \<Rightarrow> (string \<times> relation) list" where
  "replace_relation nm rel objs = map (\<lambda>(n, r). if n = nm then (n, rel) else (n, r)) objs"

text \<open>The two inserts, on the rows that were read from the values.\<close>

definition insert_tables_ext :: "string \<Rightarrow> tables_ext_row list \<Rightarrow> 'db engine \<Rightarrow> duck_exception + 'db engine" where
  "insert_tables_ext catalog' new eng =
     (case catalogs eng catalog' of
        None \<Rightarrow> Inl (BinderException (''Catalog '' @ catalog' @ '' does not exist!''))
      | Some objs \<Rightarrow>
          (case map_of objs ''tables_ext'' of
             Some (TablesExt rows) \<Rightarrow>
               (case insert_on_conflict new rows of
                  Inl err \<Rightarrow> Inl err
                | Inr rows' \<Rightarrow>
                    Inr (eng\<lparr>catalogs := (catalogs eng)
                          (catalog' \<mapsto> replace_relation ''tables_ext'' (TablesExt rows') objs)\<rparr>))
           | _ \<Rightarrow> Inl (CatalogException ''Table with name tables_ext does not exist!'')))"

definition insert_columns_ext :: "string \<Rightarrow> columns_ext_row list \<Rightarrow> 'db engine \<Rightarrow> duck_exception + 'db engine" where
  "insert_columns_ext catalog' new eng =
     (case catalogs eng catalog' of
        None \<Rightarrow> Inl (BinderException (''Catalog '' @ catalog' @ '' does not exist!''))
      | Some objs \<Rightarrow>
          (case map_of objs ''columns_ext'' of
             Some (ColumnsExt rows) \<Rightarrow>
               if list_ex (\<lambda>(k, a, b). \<not> is_integer a \<or> \<not> is_integer b) new
               then Inl (ConversionException ''value is out of range for the destination type INT32'')
               else
                 (case insert_on_conflict new rows of
                    Inl err \<Rightarrow> Inl err
                  | Inr rows' \<Rightarrow>
                      Inr (eng\<lparr>catalogs := (catalogs eng)
                            (catalog' \<mapsto> replace_relation ''columns_ext'' (ColumnsExt rows') objs)\<rparr>))
           | _ \<Rightarrow> Inl (CatalogException ''Table with name columns_ext does not exist!'')))"

subsection \<open>The environment and the engine's connection\<close>

text \<open>
  The environment of a cursor: Python's \<^verbatim>\<open>str.upper\<close>, the parser (\<open>Inl\<close> its error
  message), the helpers of \<^verbatim>\<open>fakesnow.expr\<close> and \<^verbatim>\<open>fakesnow.checks\<close>, the transformation
  passes by name (\<^verbatim>\<open>set_schema\<close> alone is given the current database), the SQL generator,
  the searches in a tree, the annotations a pass leaves in \<^verbatim>\<open>transformed.args\<close>, and the
  engine's execution of SQL text.
\<close>

record ('e, 'db) env =
  upper :: "string \<Rightarrow> string"
  parse_one :: "string \<Rightarrow> string + 'e"
  key_command :: "'e \<Rightarrow> string"
  is_unqualified_table_expression :: "'e \<Rightarrow> bool \<times> bool"
  transform :: "string \<Rightarrow> 'e \<Rightarrow> 'e"
  set_schema :: "string option \<Rightarrow> 'e \<Rightarrow> 'e"
  to_sql :: "'e \<Rightarrow> string"
  find_identifier :: "'e \<Rightarrow> identifier_this option"
  find_table :: "'e \<Rightarrow> table option"
  create_db_name :: "'e \<Rightarrow> string option"
  table_comment :: "'e \<Rightarrow> (table \<times> string) option"
  text_lengths :: "'e \<Rightarrow> (string \<times> int) list option"
  run_statement :: "'db engine \<Rightarrow> string \<Rightarrow> params \<Rightarrow> duck_exception option \<times> 'db engine"

text \<open>
  The engine's connection: the engine, and the statements it has been sent, in order.
  \<^verbatim>\<open>_duck_conn.execute\<close> returns the exception it raised, if any, and the connection.

  An insert whose values are rows of literals, as \<open>tables_ext_values\<close> and
  \<open>columns_ext_values\<close> read them, is the insert of these rows. An insert with other
  values (a quote that is not closed, an expression, a row of another width) is SQL text
  like the emitted statement, and what the engine does with it is the engine's own.
\<close>

record 'db duck_connection =
  engine :: "'db engine"
  received :: "statement list"

definition duck_execute :: "('e, 'db) env \<Rightarrow> 'db duck_connection \<Rightarrow> statement \<Rightarrow> duck_exception option \<times> 'db duck_connection" where
  "duck_execute env dc st =
     (let dc1 = dc\<lparr>received := received dc @ [st]\<rparr>;
          outcome = (\<lambda>r. case r of Inl err \<Rightarrow> (Some err, dc1) | Inr eng \<Rightarrow> (None, dc1\<lparr>engine := eng\<rparr>));
          run = (\<lambda>sql ps. case run_statement env (engine dc) sql ps of (r, eng) \<Rightarrow> (r, dc1\<lparr>engine := eng\<rparr>))
      in case st of
           Statement sql ps \<Rightarrow> run sql ps
         | CreateTablesExt c \<Rightarrow> outcome (create_relation c ''tables_ext'' (TablesExt []) (engine dc))
         | CreateColumnsExt c \<Rightarrow> outcome (create_relation c ''columns_ext'' (ColumnsExt []) (engine dc))
         | CreateColumnsView c \<Rightarrow> outcome (create_relation c ''columns_snowflake'' ColumnsView (engine dc))
         | InsertTablesExt c values \<Rightarrow>
             (case tables_ext_values values of
                Some rows \<Rightarrow> outcome (insert_tables_ext c rows (engine dc))
              | None \<Rightarrow> run (tables_ext_insert c values) NoParams)
         | InsertColumnsExt c values \<Rightarrow>
             (case columns_ext_values values of
                Some rows \<Rightarrow> outcome (insert_columns_ext c rows (engine dc))
              | None \<Rightarrow> run (columns_ext_insert c values) NoParams))"

section \<open>The cursor\<close>

text \<open>
  A cursor shares the connection's session context and the engine's connection with
  whoever else holds them, so they are one state: the \<^verbatim>\<open>FakeSnowflakeConnection\<close>, the
  engine's connection and the cursor's own fields.
\<close>

type_synonym arrow_table = "(string \<times> pyval) list list"

record 'db state =
  conn :: connection
  duck_conn :: "'db duck_connection"
  use_dict_result :: bool
  arrow_table :: "arrow_table option"
  last_sql :: "string option"
  last_params :: params

text \<open>
  The head of \<^verbatim>\<open>FakeSnowflakeConnection.__init__\<close>: \<^verbatim>\<open>database and database.upper()\<close>
  is the name upper-cased, or the name itself when it is \<^verbatim>\<open>None\<close> or empty, and neither
  name counts as set until the engine has been asked.
\<close>

definition and_upper :: "('e, 'db) env \<Rightarrow> string option \<Rightarrow> string option" where
  "and_upper env a =
     (case a of
        None \<Rightarrow> None
      | Some v \<Rightarrow> if v = [] then Some v else Some (upper env v))"

definition new_connection :: "('e, 'db) env \<Rightarrow> string option \<Rightarrow> string option \<Rightarrow> connection" where
  "new_connection env database' schema' =
     \<lparr>database = and_upper env database', schema = and_upper env schema',
      database_set = False, schema_set = False, paramstyle = ''pyformat''\<rparr>"

text \<open>\<^verbatim>\<open>FakeSnowflakeConnection.cursor\<close> and \<^verbatim>\<open>FakeSnowflakeCursor.__init__\<close>\<close>

definition cursor :: "connection \<Rightarrow> 'db duck_connection \<Rightarrow> bool \<Rightarrow> 'db state" where
  "cursor c dc dict_cursor =
     \<lparr>conn = c, duck_conn = dc, use_dict_result = dict_cursor, arrow_table = None,
      last_sql = None, last_params = NoParams\<rparr>"

text \<open>\<^verbatim>\<open>command.replace("%s", "?")\<close>\<close>

fun replace_percent_s :: "string \<Rightarrow> string" where
  "replace_percent_s (a # b # cs) =
     (if a = CHR ''%'' \<and> b = CHR ''s'' then CHR ''?'' # replace_percent_s cs
      else a # replace_percent_s (b # cs))"
| "replace_percent_s cs = cs"

text \<open>
  The truth value of \<^verbatim>\<open>params\<close>, and \<^verbatim>\<open>_rewrite_params\<close>, which reads the connection's
  \<^verbatim>\<open>_paramstyle\<close>.
\<close>

fun truthy :: "params \<Rightarrow> bool" where
  "truthy NoParams = False"
| "truthy (SeqParams xs) = (xs \<noteq> [])"
| "truthy (DictParams kvs) = (kvs \<noteq> [])"

definition rewrite_params :: "connection \<Rightarrow> string \<Rightarrow> params \<Rightarrow> exception + string" where
  "rewrite_params c command ps =
     (case ps of
        DictParams kvs \<Rightarrow> Inl (NotImplementedError ''dict params not supported yet'')
      | _ \<Rightarrow>
          if truthy ps \<and> paramstyle c \<in> {''pyformat'', ''format''}
          then Inr (replace_percent_s command)
          else Inr command)"

text \<open>
  The head of \<^verbatim>\<open>execute\<close>: a syntax tree is taken as it is, a string has its parameter
  markers rewritten and is parsed.
\<close>

definition expression_of :: "('e, 'db) env \<Rightarrow> connection \<Rightarrow> 'e command \<Rightarrow> params \<Rightarrow> exception + 'e" where
  "expression_of env c command ps =
     (case command of
        CommandExpr e \<Rightarrow> Inr e
      | CommandStr text \<Rightarrow>
          (case rewrite_params c text ps of
             Inl err \<Rightarrow> Inl err
           | Inr text' \<Rightarrow>
               (case parse_one env text' of
                  Inl m \<Rightarrow> Inl (ParseError m)
                | Inr e \<Rightarrow> Inr e)))"

text \<open>The two checks of the session context, on the pair \<^verbatim>\<open>(no_database, no_schema)\<close>.\<close>

definition session_check :: "connection \<Rightarrow> string \<Rightarrow> bool \<times> bool \<Rightarrow> exception option" where
  "session_check c cmd unqualified =
     (case unqualified of
        (no_database, no_schema) \<Rightarrow>
          if no_database \<and> \<not> database_set c then
            Some (ProgrammingError
              (''Cannot perform '' @ cmd @ ''. This session does not have a current database. Call 'USE DATABASE', or use a qualified name.'')
              90105 ''22000'')
          else if no_schema \<and> \<not> schema_set c then
            Some (ProgrammingError
              (''Cannot perform '' @ cmd @ ''. This session does not have a current schema. Call 'USE SCHEMA', or use a qualified name.'')
              90106 ''22000'')
          else None)"

text \<open>The chain of \<^verbatim>\<open>.transform(...)\<close> calls, first to last.\<close>

definition apply_transforms :: "('e, 'db) env \<Rightarrow> string option \<Rightarrow> 'e \<Rightarrow> 'e" where
  "apply_transforms env current_database expression =
     fold (\<lambda>pass e. pass e)
       [transform env ''upper_case_unquoted_identifiers'',
        set_schema env current_database,
        transform env ''create_database'',
        transform env ''extract_comment'',
        transform env ''information_schema_columns_snowflake'',
        transform env ''information_schema_tables_ext'',
        transform env ''drop_schema_cascade'',
        transform env ''tag'',
        transform env ''regex'',
        transform env ''semi_structured_types'',
        transform env ''parse_json'',
        transform env ''indices_to_array'',
        transform env ''indices_to_object'',
        transform env ''values_columns'',
        transform env ''to_date'',
        transform env ''object_construct'',
        transform env ''timestamp_ntz_ns'',
        transform env ''float_to_double'',
        transform env ''integer_precision'',
        transform env ''extract_text_length'']
       expression"

text \<open>
  The two \<^verbatim>\<open>except\<close> clauses around the engine's execution of the emitted SQL; an
  exception of another class is not caught. \<^verbatim>\<open>split("\n")[0]\<close> is the text before the
  first line break.
\<close>

definition first_line :: "string \<Rightarrow> string" where
  "first_line m = takeWhile (\<lambda>c. c \<noteq> CHR 0x0A) m"

fun translate :: "duck_exception \<Rightarrow> exception" where
  "translate (BinderException m) = ProgrammingError m 2043 ''02000''"
| "translate (CatalogException m) = ProgrammingError (first_line m) 2003 ''42S02''"
| "translate e = DuckDBError e"

text \<open>
  The two \<^verbatim>\<open>if cmd == "USE ..."\<close> blocks that follow a successful execution, on the tree
  as it was before the passes.
\<close>

definition use_statement :: "('e, 'db) env \<Rightarrow> 'e \<Rightarrow> connection \<Rightarrow> connection" where
  "use_statement env expression c =
     (let cmd = key_command env expression;
          c1 = (if cmd = ''USE DATABASE'' then
                  (case find_identifier env expression of
                     Some (ThisStr ident) \<Rightarrow> c\<lparr>database := Some (upper env ident), database_set := True\<rparr>
                   | _ \<Rightarrow> c)
                else c)
      in if cmd = ''USE SCHEMA'' then
           (case find_identifier env expression of
              Some (ThisStr ident) \<Rightarrow> c1\<lparr>schema := Some (upper env ident), schema_set := True\<rparr>
            | _ \<Rightarrow> c1)
         else c1)"

text \<open>
  \<^verbatim>\<open>FakeSnowflakeConnection._create_info_schema_ext\<close>: three statements, one after the
  other; an exception of the engine ends the method and goes to the caller as it is.
\<close>

definition create_info_schema_ext :: "('e, 'db) env \<Rightarrow> 'db duck_connection \<Rightarrow> string \<Rightarrow> exception option \<times> 'db duck_connection" where
  "create_info_schema_ext env dc catalog' =
     (case duck_execute env dc (CreateTablesExt catalog') of
        (Some err, dc1) \<Rightarrow> (Some (DuckDBError err), dc1)
      | (None, dc1) \<Rightarrow>
          (case duck_execute env dc1 (CreateColumnsExt catalog') of
             (Some err, dc2) \<Rightarrow> (Some (DuckDBError err), dc2)
           | (None, dc2) \<Rightarrow>
               (case duck_execute env dc2 (CreateColumnsView catalog') of
                  (Some err, dc3) \<Rightarrow> (Some (DuckDBError err), dc3)
                | (None, dc3) \<Rightarrow> (None, dc3))))"

text \<open>\<^verbatim>\<open>if create_db_name := transformed.args.get("create_db_name")\<close>\<close>

definition after_create_database :: "('e, 'db) env \<Rightarrow> 'e \<Rightarrow> 'db duck_connection \<Rightarrow> exception option \<times> 'db duck_connection" where
  "after_create_database env transformed dc =
     (case create_db_name env transformed of
        None \<Rightarrow> (None, dc)
      | Some n \<Rightarrow> if n = [] then (None, dc) else create_info_schema_ext env dc n)"

text \<open>
  \<^verbatim>\<open>table.catalog or self._conn.database\<close> takes the table's part unless it is empty, and
  the f-string writes \<^verbatim>\<open>None\<close> as the text \<^verbatim>\<open>None\<close>.
\<close>

definition py_or :: "string \<Rightarrow> string option \<Rightarrow> string option" where
  "py_or a b = (if a \<noteq> [] then Some a else b)"

fun format_str :: "string option \<Rightarrow> string" where
  "format_str None = ''None''"
| "format_str (Some a) = a"

text \<open>
  What an f-string writes: a value between single quotes as it is, a whole number in
  decimal digits, and \<^verbatim>\<open>", ".join\<close> of the parts.
\<close>

definition quoted :: "string \<Rightarrow> string" where
  "quoted v = quote # v @ [quote]"

definition digit_char :: "nat \<Rightarrow> char" where
  "digit_char d = ''0123456789'' ! d"

fun digits :: "nat \<Rightarrow> string" where
  "digits n = (if n < 10 then [digit_char n] else digits (n div 10) @ [digit_char (n mod 10)])"

definition format_int :: "int \<Rightarrow> string" where
  "format_int n = (if n < 0 then CHR ''-'' # digits (nat (- n)) else digits (nat n))"

fun join :: "string \<Rightarrow> string list \<Rightarrow> string" where
  "join sep [] = []"
| "join sep [x] = x"
| "join sep (x # y # xs) = x @ sep @ join sep (y # xs)"

text \<open>
  \<^verbatim>\<open>if table_comment := transformed.args.get("table_comment")\<close>: the comment is recorded,
  with the values \<^verbatim>\<open>('{catalog}', '{schema}', '{table.name}', '{comment}')\<close>.
\<close>

definition comment_values :: "string \<Rightarrow> string \<Rightarrow> table \<Rightarrow> string \<Rightarrow> string" where
  "comment_values catalog' schema' tbl comment =
     ''('' @ quoted catalog' @ '', '' @ quoted schema' @ '', '' @ quoted (tbl_name tbl) @ '', '' @
     quoted comment @ '')''"

definition record_table_comment :: "('e, 'db) env \<Rightarrow> 'e \<Rightarrow> connection \<Rightarrow> 'db duck_connection \<Rightarrow> exception option \<times> 'db duck_connection" where
  "record_table_comment env transformed c dc =
     (case table_comment env transformed of
        None \<Rightarrow> (None, dc)
      | Some (tbl, comment) \<Rightarrow>
          let catalog' = format_str (py_or (catalog tbl) (database c));
              schema' = format_str (py_or (db tbl) (schema c))
          in (case duck_execute env dc
                     (InsertTablesExt catalog' (comment_values catalog' schema' tbl comment)) of
                (Some err, dc1) \<Rightarrow> (Some (DuckDBError err), dc1)
              | (None, dc1) \<Rightarrow> (None, dc1)))"

text \<open>
  \<^verbatim>\<open>if (text_lengths := transformed.args.get("text_lengths")) and (table := transformed.find(exp.Table))\<close>:
  the values are one row
  \<^verbatim>\<open>('{catalog}', '{schema}', '{table.name}', '{col_name}', {size}, {min(size*4,16777216)})\<close>
  for each pair \<^verbatim>\<open>(col_name, size)\<close>, joined by a comma and a blank.
\<close>

definition length_values :: "string \<Rightarrow> string \<Rightarrow> table \<Rightarrow> (string \<times> int) list \<Rightarrow> string" where
  "length_values catalog' schema' tbl lengths =
     join '', ''
       (map (\<lambda>(col_name, size).
          ''('' @ quoted catalog' @ '', '' @ quoted schema' @ '', '' @ quoted (tbl_name tbl) @ '', '' @
          quoted col_name @ '', '' @ format_int size @ '', '' @ format_int (min (size * 4) 16777216) @
          '')'')
        lengths)"

definition record_text_lengths :: "('e, 'db) env \<Rightarrow> 'e \<Rightarrow> connection \<Rightarrow> 'db duck_connection \<Rightarrow> exception option \<times> 'db duck_connection" where
  "record_text_lengths env transformed c dc =
     (case text_lengths env transformed of
        None \<Rightarrow> (None, dc)
      | Some lengths \<Rightarrow>
          if lengths = [] then (None, dc)
          else (case find_table env transformed of
              None \<Rightarrow> (None, dc)
            | Some tbl \<Rightarrow>
                let catalog' = format_str (py_or (catalog tbl) (database c));
                    schema' = format_str (py_or (db tbl) (schema c))
                in (case duck_execute env dc
                           (InsertColumnsExt catalog' (length_values catalog' schema' tbl lengths)) of
                      (Some err, dc1) \<Rightarrow> (Some (DuckDBError err), dc1)
                    | (None, dc1) \<Rightarrow> (None, dc1))))"

text \<open>
  \<^verbatim>\<open>FakeSnowflakeCursor.execute\<close>. The result is the exception raised, or \<open>None\<close> when
  the cursor is returned, and the state left behind in either case. The writes to the
  extension tables read the session context \<open>c\<close> as the two \<^verbatim>\<open>USE\<close> blocks left it.
\<close>

definition execute :: "('e, 'db) env \<Rightarrow> 'db state \<Rightarrow> 'e command \<Rightarrow> params \<Rightarrow> exception option \<times> 'db state" where
  "execute env s0 command ps =
     (let s1 = s0\<lparr>arrow_table := None\<rparr> in
      case expression_of env (conn s1) command ps of
        Inl err \<Rightarrow> (Some err, s1)
      | Inr expression \<Rightarrow>
          let cmd = key_command env expression in
          (case session_check (conn s1) cmd (is_unqualified_table_expression env expression) of
             Some err \<Rightarrow> (Some err, s1)
           | None \<Rightarrow>
               let transformed = apply_transforms env (database (conn s1)) expression;
                   sql = to_sql env transformed;
                   s2 = s1\<lparr>last_sql := Some sql, last_params := ps\<rparr>
               in (case duck_execute env (duck_conn s2) (Statement sql ps) of
                     (Some err, dc) \<Rightarrow> (Some (translate err), s2\<lparr>duck_conn := dc\<rparr>)
                   | (None, dc) \<Rightarrow>
                       let c = use_statement env expression (conn s2);
                           s3 = s2\<lparr>conn := c\<rparr>
                       in (case after_create_database env transformed dc of
                             (Some err, dc1) \<Rightarrow> (Some err, s3\<lparr>duck_conn := dc1\<rparr>)
                           | (None, dc1) \<Rightarrow>
                               (case record_table_comment env transformed c dc1 of
                                  (Some err, dc2) \<Rightarrow> (Some err, s3\<lparr>duck_conn := dc2\<rparr>)
                                | (None, dc2) \<Rightarrow>
                                    (case record_text_lengths env transformed c dc2 of
                                       (r, dc3) \<Rightarrow> (r, s3\<lparr>duck_conn := dc3\<rparr>)))))))"

text \<open>
  \<^verbatim>\<open>FakeSnowflakeCursor.executemany\<close>: the loop \<^verbatim>\<open>for p in seqparams: self.execute(command, p)\<close>,
  left by the first exception.
\<close>

fun execute_each :: "('e, 'db) env \<Rightarrow> 'db state \<Rightarrow> string \<Rightarrow> params list \<Rightarrow> exception option \<times> 'db state" where
  "execute_each env s command [] = (None, s)"
| "execute_each env s command (p # rest_params) =
     (case execute env s (CommandStr command) p of
        (Some err, s1) \<Rightarrow> (Some err, s1)
      | (None, s1) \<Rightarrow> execute_each env s1 command rest_params)"

definition executemany :: "('e, 'db) env \<Rightarrow> 'db state \<Rightarrow> string \<Rightarrow> seqparams \<Rightarrow> exception option \<times> 'db state" where
  "executemany env s command sp =
     (case sp of
        ManyDict kvs \<Rightarrow> (Some (NotImplementedError ''dict params not supported yet''), s)
      | ManySeq param_sets \<Rightarrow> execute_each env s command param_sets)"

section \<open>Reading the extension store\<close>

text \<open>The rows of the two extension tables of a catalog, and how often a name is taken in it.\<close>

definition tables_ext_rows :: "'db engine \<Rightarrow> string \<Rightarrow> tables_ext_row list option" where
  "tables_ext_rows eng catalog' =
     (case catalogs eng catalog' of
        None \<Rightarrow> None
      | Some objs \<Rightarrow> (case map_of objs ''tables_ext'' of Some (TablesExt rows) \<Rightarrow> Some rows | _ \<Rightarrow> None))"

definition columns_ext_rows :: "'db engine \<Rightarrow> string \<Rightarrow> columns_ext_row list option" where
  "columns_ext_rows eng catalog' =
     (case catalogs eng catalog' of
        None \<Rightarrow> None
      | Some objs \<Rightarrow> (case map_of objs ''columns_ext'' of Some (ColumnsExt rows) \<Rightarrow> Some rows | _ \<Rightarrow> None))"

definition count_relations :: "'db engine \<Rightarrow> string \<Rightarrow> string \<Rightarrow> nat" where
  "count_relations eng catalog' nm =
     (case catalogs eng catalog' of
        None \<Rightarrow> 0
      | Some objs \<Rightarrow> length (filter (\<lambda>(n, r). n = nm) objs))"

text \<open>
  The view \<^verbatim>\<open>columns_snowflake\<close>: the engine's own \<^verbatim>\<open>information_schema.columns\<close>, left
  joined with \<^verbatim>\<open>columns_ext\<close> on catalog, schema, table and column. The two lengths come
  from the extension table, the precision and radix of a \<^verbatim>\<open>BIGINT\<close> column are 38 and 10,
  and the other columns are passed on (those the view does not change stay in the
  record's extension).
\<close>

record columns_row =
  table_catalog :: string
  table_schema :: string
  table_name :: string
  column_name :: string
  data_type :: string
  character_maximum_length :: "int option"
  character_octet_length :: "int option"
  numeric_precision :: "int option"
  numeric_precision_radix :: "int option"

definition columns_key :: "'a columns_row_scheme \<Rightarrow> columns_ext_key" where
  "columns_key r = (table_catalog r, table_schema r, table_name r, column_name r)"

definition columns_snowflake :: "'a columns_row_scheme list \<Rightarrow> columns_ext_row list \<Rightarrow> 'a columns_row_scheme list" where
  "columns_snowflake columns ext =
     concat (map (\<lambda>r.
       let r1 = r\<lparr>numeric_precision := (if data_type r = ''BIGINT'' then Some 38 else numeric_precision r),
                  numeric_precision_radix :=
                    (if data_type r = ''BIGINT'' then Some 10 else numeric_precision_radix r)\<rparr>;
           matches = filter (\<lambda>(k, a, b). k = columns_key r) ext
       in if matches = []
          then [r1\<lparr>character_maximum_length := None, character_octet_length := None\<rparr>]
          else map (\<lambda>(k, a, b). r1\<lparr>character_maximum_length := Some a,
                                     character_octet_length := Some b\<rparr>) matches)
       columns)"

section \<open>Sequences of calls\<close>

text \<open>
  The statement the engine is given for the tree \<open>e\<close> in the state \<open>s\<close>, and what the
  engine answers.
\<close>

definition engine_result :: "('e, 'db) env \<Rightarrow> 'db state \<Rightarrow> 'e \<Rightarrow> params \<Rightarrow> duck_exception option \<times> 'db engine" where
  "engine_result env s e ps =
     run_statement env (engine (duck_conn s)) (to_sql env (apply_transforms env (database (conn s)) e)) ps"

text \<open>
  What \<^verbatim>\<open>executemany\<close> is compared with, written as a caller would: one call of
  \<^verbatim>\<open>execute\<close> for each parameter set, in the order of the sequence, each from the state
  the call before it left, and no call after one that raised.
\<close>

definition sequential_executes :: "('e, 'db) env \<Rightarrow> 'db state \<Rightarrow> string \<Rightarrow> params list \<Rightarrow> exception option \<times> 'db state" where
  "sequential_executes env s command param_sets =
     foldl (\<lambda>(r, st) p. case r of None \<Rightarrow> execute env st (CommandStr command) p | Some err \<Rightarrow> (Some err, st))
       (None, s) param_sets"

text \<open>
  A sequence of calls of \<^verbatim>\<open>execute\<close>, each with its command and parameters and each from
  the state the call before it left, up to the first that raises.
\<close>

fun execute_all :: "('e, 'db) env \<Rightarrow> 'db state \<Rightarrow> ('e command \<times> params) list \<Rightarrow> exception option \<times> 'db state" where
  "execute_all env s [] = (None, s)"
| "execute_all env s ((command, ps) # calls) =
     (case execute env s command ps of
        (Some err, s1) \<Rightarrow> (Some err, s1)
      | (None, s1) \<Rightarrow> execute_all env s1 calls)"

text \<open>
  What a call of \<^verbatim>\<open>execute\<close> that returns has supplied to the extension store, as the
  values Python holds: for the annotation \<^verbatim>\<open>table_comment\<close> the key of the table with the comment, and for each
  pair of the annotation \<^verbatim>\<open>text_lengths\<close> the key of the column with the length and the
  length in octets. The catalog and the schema of a key are the table's, or those of the
  session context as the call leaves it.
\<close>

definition table_key :: "connection \<Rightarrow> table \<Rightarrow> tables_ext_key" where
  "table_key c tbl =
     (format_str (py_or (catalog tbl) (database c)), format_str (py_or (db tbl) (schema c)), tbl_name tbl)"

definition text_length_rows :: "connection \<Rightarrow> table \<Rightarrow> (string \<times> int) list \<Rightarrow> columns_ext_row list" where
  "text_length_rows c tbl lengths =
     map (\<lambda>(col_name, size).
       ((fst (table_key c tbl), fst (snd (table_key c tbl)), tbl_name tbl, col_name),
        size, min (size * 4) 16777216))
       lengths"

definition call_comment :: "('e, 'db) env \<Rightarrow> 'db state \<Rightarrow> 'e command \<Rightarrow> params \<Rightarrow> tables_ext_row list" where
  "call_comment env s command ps =
     (case expression_of env (conn s) command ps of
        Inl err \<Rightarrow> []
      | Inr e \<Rightarrow>
          (case table_comment env (apply_transforms env (database (conn s)) e) of
             None \<Rightarrow> []
           | Some (tbl, comment) \<Rightarrow> [(table_key (use_statement env e (conn s)) tbl, comment)]))"

definition call_lengths :: "('e, 'db) env \<Rightarrow> 'db state \<Rightarrow> 'e command \<Rightarrow> params \<Rightarrow> columns_ext_row list" where
  "call_lengths env s command ps =
     (case expression_of env (conn s) command ps of
        Inl err \<Rightarrow> []
      | Inr e \<Rightarrow>
          (case text_lengths env (apply_transforms env (database (conn s)) e) of
             None \<Rightarrow> []
           | Some lengths \<Rightarrow>
               (case find_table env (apply_transforms env (database (conn s)) e) of
                  None \<Rightarrow> []
                | Some tbl \<Rightarrow> text_length_rows (use_statement env e (conn s)) tbl lengths)))"

text \<open>The rows a sequence of calls supplies, in the order of the calls.\<close>

fun supplied_comments :: "('e, 'db) env \<Rightarrow> 'db state \<Rightarrow> ('e command \<times> params) list \<Rightarrow> tables_ext_row list" where
  "supplied_comments env s [] = []"
| "supplied_comments env s ((command, ps) # calls) =
     call_comment env s command ps @ supplied_comments env (snd (execute env s command ps)) calls"

fun supplied_lengths :: "('e, 'db) env \<Rightarrow> 'db state \<Rightarrow> ('e command \<times> params) list \<Rightarrow> columns_ext_row list" where
  "supplied_lengths env s [] = []"
| "supplied_lengths env s ((command, ps) # calls) =
     call_lengths env s command ps @ supplied_lengths env (snd (execute env s command ps)) calls"

text \<open>The rows whose key names the catalog, which is the catalog they are inserted in.\<close>

definition in_catalog :: "string \<Rightarrow> ((string \<times> 'k) \<times> 'v) list \<Rightarrow> ((string \<times> 'k) \<times> 'v) list" where
  "in_catalog catalog' rows = filter (\<lambda>row. fst (fst row) = catalog') rows"

text \<open>A row none of whose names and texts holds a single quote.\<close>

definition quote_free :: "string \<Rightarrow> bool" where
  "quote_free v = (quote \<notin> set v)"

fun comment_quote_free :: "tables_ext_row \<Rightarrow> bool" where
  "comment_quote_free ((a, b, c), d) = (quote_free a \<and> quote_free b \<and> quote_free c \<and> quote_free d)"

fun length_quote_free :: "columns_ext_row \<Rightarrow> bool" where
  "length_quote_free ((a, b, c, d), m, n) = (quote_free a \<and> quote_free b \<and> quote_free c \<and> quote_free d)"

text \<open>
  The statements emitted for a sequence of calls leave the relations of a catalog as they
  are: each, run by the engine in the state its call finds, gives back the catalog with
  the relations it had.
\<close>

definition statement_keeps :: "('e, 'db) env \<Rightarrow> string \<Rightarrow> 'db state \<Rightarrow> 'e command \<Rightarrow> params \<Rightarrow> bool" where
  "statement_keeps env catalog' s command ps =
     (case expression_of env (conn s) command ps of
        Inl err \<Rightarrow> True
      | Inr e \<Rightarrow> catalogs (snd (engine_result env s e ps)) catalog' = catalogs (engine (duck_conn s)) catalog')"

fun statements_keep :: "('e, 'db) env \<Rightarrow> string \<Rightarrow> 'db state \<Rightarrow> ('e command \<times> params) list \<Rightarrow> bool" where
  "statements_keep env catalog' s [] = True"
| "statements_keep env catalog' s ((command, ps) # calls) =
     (statement_keeps env catalog' s command ps
      \<and> statements_keep env catalog' (snd (execute env s command ps)) calls)"

section \<open>An environment for examples\<close>

text \<open>
  A small environment on which the definitions can be run: a tree carries what the
  helpers read from it, the parser knows a handful of statements, the passes change
  nothing, and the engine raises on two of the emitted statements and on every insert
  into the extension store whose values are not rows of literals.
\<close>

record example_tree =
  tree_command :: string
  tree_unqualified :: "bool \<times> bool"
  tree_sql :: string
  tree_identifier :: "identifier_this option"
  tree_table :: "table option"
  tree_create_db_name :: "string option"
  tree_table_comment :: "(table \<times> string) option"
  tree_text_lengths :: "(string \<times> int) list option"

definition select_people :: example_tree where
  "select_people =
     \<lparr>tree_command = ''SELECT'', tree_unqualified = (True, True),
      tree_sql = ''SELECT * FROM PEOPLE'', tree_identifier = Some (ThisStr ''people''),
      tree_table = Some \<lparr>catalog = [], db = [], tbl_name = ''PEOPLE''\<rparr>,
      tree_create_db_name = None, tree_table_comment = None, tree_text_lengths = None\<rparr>"

definition select_missing :: example_tree where
  "select_missing =
     \<lparr>tree_command = ''SELECT'', tree_unqualified = (True, True),
      tree_sql = ''SELECT * FROM MISSING'', tree_identifier = Some (ThisStr ''missing''),
      tree_table = Some \<lparr>catalog = [], db = [], tbl_name = ''MISSING''\<rparr>,
      tree_create_db_name = None, tree_table_comment = None, tree_text_lengths = None\<rparr>"

definition select_unknown_column :: example_tree where
  "select_unknown_column =
     \<lparr>tree_command = ''SELECT'', tree_unqualified = (True, True),
      tree_sql = ''SELECT AGE FROM PEOPLE'', tree_identifier = Some (ThisStr ''age''),
      tree_table = Some \<lparr>catalog = [], db = [], tbl_name = ''PEOPLE''\<rparr>,
      tree_create_db_name = None, tree_table_comment = None, tree_text_lengths = None\<rparr>"

definition use_database_db1 :: example_tree where
  "use_database_db1 =
     \<lparr>tree_command = ''USE DATABASE'', tree_unqualified = (False, False),
      tree_sql = ''SET schema = DB1.main'', tree_identifier = Some (ThisStr ''db1''),
      tree_table = None,
      tree_create_db_name = None, tree_table_comment = None, tree_text_lengths = None\<rparr>"

definition use_schema_jaffles :: example_tree where
  "use_schema_jaffles =
     \<lparr>tree_command = ''USE SCHEMA'', tree_unqualified = (False, False),
      tree_sql = ''SET schema = DB1.JAFFLES'', tree_identifier = Some (ThisStr ''jaffles''),
      tree_table = None,
      tree_create_db_name = None, tree_table_comment = None, tree_text_lengths = None\<rparr>"

definition create_people :: example_tree where
  "create_people =
     \<lparr>tree_command = ''CREATE TABLE'', tree_unqualified = (True, True),
      tree_sql = ''CREATE TABLE PEOPLE (NAME TEXT, AGE BIGINT)'',
      tree_identifier = Some (ThisStr ''people''),
      tree_table = Some \<lparr>catalog = [], db = [], tbl_name = ''PEOPLE''\<rparr>,
      tree_create_db_name = None,
      tree_table_comment = Some (\<lparr>catalog = [], db = [], tbl_name = ''PEOPLE''\<rparr>, ''the people''),
      tree_text_lengths = Some [(''NAME'', 50)]\<rparr>"

text \<open>\<^verbatim>\<open>comment on table people is $$all the people$$\<close>\<close>

definition comment_people :: example_tree where
  "comment_people =
     \<lparr>tree_command = ''COMMENT'', tree_unqualified = (True, True),
      tree_sql = ''COMMENT ON TABLE PEOPLE IS $$all the people$$'',
      tree_identifier = Some (ThisStr ''people''),
      tree_table = Some \<lparr>catalog = [], db = [], tbl_name = ''PEOPLE''\<rparr>,
      tree_create_db_name = None,
      tree_table_comment = Some (\<lparr>catalog = [], db = [], tbl_name = ''PEOPLE''\<rparr>, ''all the people''),
      tree_text_lengths = None\<rparr>"

text \<open>
  Two statements with a text that holds single quotes: a comment \<^verbatim>\<open>$$it''s$$\<close>, written
  between dollar signs, whose text has two single quotes, and a column \<^verbatim>\<open>"it''s"\<close> with the
  same text as its name.
\<close>

definition its :: string where
  "its = ''it'' @ [quote, quote] @ ''s''"

definition comment_its :: example_tree where
  "comment_its =
     \<lparr>tree_command = ''COMMENT'', tree_unqualified = (True, True),
      tree_sql = ''COMMENT ON TABLE PEOPLE IS $$'' @ its @ ''$$'',
      tree_identifier = Some (ThisStr ''people''),
      tree_table = Some \<lparr>catalog = [], db = [], tbl_name = ''PEOPLE''\<rparr>,
      tree_create_db_name = None,
      tree_table_comment = Some (\<lparr>catalog = [], db = [], tbl_name = ''PEOPLE''\<rparr>, its),
      tree_text_lengths = None\<rparr>"

text \<open>
  \<^verbatim>\<open>create table team (name varchar(50)) comment = 'it''s ours'\<close>: the comment is the text
  \<^verbatim>\<open>it's ours\<close>, with one single quote.
\<close>

definition create_team :: example_tree where
  "create_team =
     \<lparr>tree_command = ''CREATE TABLE'', tree_unqualified = (True, True),
      tree_sql = ''CREATE TABLE TEAM (NAME TEXT)'',
      tree_identifier = Some (ThisStr ''team''),
      tree_table = Some \<lparr>catalog = [], db = [], tbl_name = ''TEAM''\<rparr>,
      tree_create_db_name = None,
      tree_table_comment = Some (\<lparr>catalog = [], db = [], tbl_name = ''TEAM''\<rparr>, ''it's ours''),
      tree_text_lengths = Some [(''NAME'', 50)]\<rparr>"

definition create_notes :: example_tree where
  "create_notes =
     \<lparr>tree_command = ''CREATE TABLE'', tree_unqualified = (True, True),
      tree_sql = ''CREATE TABLE NOTES ('' @ [CHR 0x22] @ its @ [CHR 0x22] @ '' TEXT)'',
      tree_identifier = Some (ThisStr ''notes''),
      tree_table = Some \<lparr>catalog = [], db = [], tbl_name = ''NOTES''\<rparr>,
      tree_create_db_name = None, tree_table_comment = None,
      tree_text_lengths = Some [(its, 50)]\<rparr>"

definition insert_people :: example_tree where
  "insert_people =
     \<lparr>tree_command = ''INSERT'', tree_unqualified = (True, True),
      tree_sql = ''INSERT INTO PEOPLE VALUES (?, ?)'', tree_identifier = Some (ThisStr ''people''),
      tree_table = Some \<lparr>catalog = [], db = [], tbl_name = ''PEOPLE''\<rparr>,
      tree_create_db_name = None, tree_table_comment = None, tree_text_lengths = None\<rparr>"

definition example_parse :: "string \<Rightarrow> string + example_tree" where
  "example_parse text =
     (if text = ''select * from people'' then Inr select_people
      else if text = ''select * from missing'' then Inr select_missing
      else if text = ''select age from people'' then Inr select_unknown_column
      else if text = ''use database db1'' then Inr use_database_db1
      else if text = ''use schema jaffles'' then Inr use_schema_jaffles
      else if text = ''create table people (name varchar(50), age int) comment = $$the people$$''
        then Inr create_people
      else if text = ''insert into people values (?, ?)'' then Inr insert_people
      else if text = ''comment on table people is $$all the people$$'' then Inr comment_people
      else Inl ''Invalid expression / Unexpected token'')"

definition example_run :: "unit engine \<Rightarrow> string \<Rightarrow> params \<Rightarrow> duck_exception option \<times> unit engine" where
  "example_run eng sql ps =
     (if sql = ''SELECT * FROM MISSING'' then
        (Some (CatalogException
           ''Catalog Error: Table with name MISSING does not exist!\<newline>Did you mean PEOPLE?''), eng)
      else if sql = ''SELECT AGE FROM PEOPLE'' then
        (Some (BinderException
           ''Binder Error: Referenced column AGE not found in FROM clause!\<newline>Candidate bindings: PEOPLE.NAME''), eng)
      else if startswith sql ''\<newline>                INSERT INTO '' then
        (Some (ParserException ''Parser Error: syntax error''), eng)
      else (None, eng))"

text \<open>Upper case for the letters \<^verbatim>\<open>a\<close> to \<^verbatim>\<open>z\<close>, which is all the names of the examples have.\<close>

definition upper_char :: "char \<Rightarrow> char" where
  "upper_char c =
     (case map_of (zip ''abcdefghijklmnopqrstuvwxyz'' ''ABCDEFGHIJKLMNOPQRSTUVWXYZ'') c of
        Some u \<Rightarrow> u
      | None \<Rightarrow> c)"

definition example_upper :: "string \<Rightarrow> string" where
  "example_upper s = map upper_char s"

definition example_env :: "(example_tree, unit) env" where
  "example_env =
     \<lparr>upper = example_upper, parse_one = example_parse, key_command = tree_command,
      is_unqualified_table_expression = tree_unqualified,
      transform = (\<lambda>pass e. e), set_schema = (\<lambda>current_database e. e), to_sql = tree_sql,
      find_identifier = tree_identifier, find_table = tree_table,
      create_db_name = tree_create_db_name, table_comment = tree_table_comment,
      text_lengths = tree_text_lengths, run_statement = example_run\<rparr>"

text \<open>
  An engine with the catalog \<^verbatim>\<open>DB1\<close> attached and nothing of the extension in it; the
  same after \<^verbatim>\<open>_create_info_schema_ext\<close>; and three sessions on the latter: one opened
  without a database and a schema, one with the database \<^verbatim>\<open>DB1\<close> in use, one with the
  schema \<^verbatim>\<open>JAFFLES\<close> in use as well.
\<close>

definition fresh_duck :: "unit duck_connection" where
  "fresh_duck = \<lparr>engine = \<lparr>catalogs = (\<lambda>c. if c = ''DB1'' then Some [] else None), rest = ()\<rparr>,
                 received = []\<rparr>"

definition ready_duck :: "unit duck_connection" where
  "ready_duck =
     \<lparr>engine = \<lparr>catalogs = (\<lambda>c. if c = ''DB1''
                   then Some [(''tables_ext'', TablesExt []), (''columns_ext'', ColumnsExt []),
                              (''columns_snowflake'', ColumnsView)]
                   else None), rest = ()\<rparr>,
      received = []\<rparr>"

text \<open>
  The engine after the example's \<^verbatim>\<open>create table people\<close> has been executed and its comment
  and text length recorded.
\<close>

definition people_duck :: "unit duck_connection" where
  "people_duck =
     \<lparr>engine = \<lparr>catalogs = (\<lambda>c. if c = ''DB1''
                   then Some [(''tables_ext'', TablesExt [((''DB1'', ''JAFFLES'', ''PEOPLE''), ''the people'')]),
                              (''columns_ext'',
                                 ColumnsExt [((''DB1'', ''JAFFLES'', ''PEOPLE'', ''NAME''), 50, 200)]),
                              (''columns_snowflake'', ColumnsView)]
                   else None), rest = ()\<rparr>,
      received =
        [Statement ''CREATE TABLE PEOPLE (NAME TEXT, AGE BIGINT)'' NoParams,
         InsertTablesExt ''DB1'' ''('DB1', 'JAFFLES', 'PEOPLE', 'the people')'',
         InsertColumnsExt ''DB1'' ''('DB1', 'JAFFLES', 'PEOPLE', 'NAME', 50, 200)'']\<rparr>"

text \<open>The same after \<^verbatim>\<open>comment on table people is $$all the people$$\<close> as well.\<close>

definition commented_duck :: "unit duck_connection" where
  "commented_duck =
     \<lparr>engine = \<lparr>catalogs = (\<lambda>c. if c = ''DB1''
                   then Some [(''tables_ext'', TablesExt [((''DB1'', ''JAFFLES'', ''PEOPLE''), ''all the people'')]),
                              (''columns_ext'',
                                 ColumnsExt [((''DB1'', ''JAFFLES'', ''PEOPLE'', ''NAME''), 50, 200)]),
                              (''columns_snowflake'', ColumnsView)]
                   else None), rest = ()\<rparr>,
      received =
        [Statement ''CREATE TABLE PEOPLE (NAME TEXT, AGE BIGINT)'' NoParams,
         InsertTablesExt ''DB1'' ''('DB1', 'JAFFLES', 'PEOPLE', 'the people')'',
         InsertColumnsExt ''DB1'' ''('DB1', 'JAFFLES', 'PEOPLE', 'NAME', 50, 200)'',
         Statement ''COMMENT ON TABLE PEOPLE IS $$all the people$$'' NoParams,
         InsertTablesExt ''DB1'' ''('DB1', 'JAFFLES', 'PEOPLE', 'all the people')'']\<rparr>"

text \<open>
  Two calls, one after the other: the table is created with a comment and a text length,
  and then the comment is replaced.
\<close>

definition example_calls :: "(example_tree command \<times> params) list" where
  "example_calls =
     [(CommandStr ''create table people (name varchar(50), age int) comment = $$the people$$'', NoParams),
      (CommandStr ''comment on table people is $$all the people$$'', NoParams)]"

text \<open>The row of the engine's own \<^verbatim>\<open>information_schema.columns\<close> for the column \<^verbatim>\<open>NAME\<close>.\<close>

definition name_column :: columns_row where
  "name_column =
     \<lparr>table_catalog = ''DB1'', table_schema = ''JAFFLES'', table_name = ''PEOPLE'',
      column_name = ''NAME'', data_type = ''VARCHAR'', character_maximum_length = None,
      character_octet_length = None, numeric_precision = None, numeric_precision_radix = None\<rparr>"

definition session_unset :: "unit state" where
  "session_unset = cursor (new_connection example_env None None) ready_duck False"

definition session_database :: "unit state" where
  "session_database =
     cursor ((new_connection example_env (Some ''db1'') (Some ''jaffles''))\<lparr>database_set := True\<rparr>) ready_duck False"

definition session_ready :: "unit state" where
  "session_ready =
     cursor ((new_connection example_env (Some ''db1'') (Some ''jaffles''))\<lparr>database_set := True, schema_set := True\<rparr>)
       ready_duck False"

section \<open>Properties\<close>

subsection \<open>The steps of \<^verbatim>\<open>execute\<close>\<close>

text \<open>
  What \<^verbatim>\<open>execute\<close> does once the tree is there: a failed check of the session ends it
  before anything else; an exception of the engine on the emitted statement is
  translated; the session context is written after the engine has accepted the statement
  and nowhere else; and after that come the three writes of the extension store.
\<close>

lemma execute_session_check:
  assumes "expression_of env (conn s) command ps = Inr e"
    and "session_check (conn s) (key_command env e) (is_unqualified_table_expression env e) = Some err"
  shows "execute env s command ps = (Some err, s\<lparr>arrow_table := None\<rparr>)"
  using assms by (simp add: execute_def)

lemma conn_execute:
  "conn (snd (execute env s command ps)) =
     (case expression_of env (conn s) command ps of
        Inl err \<Rightarrow> conn s
      | Inr e \<Rightarrow>
          (case session_check (conn s) (key_command env e) (is_unqualified_table_expression env e) of
             Some err \<Rightarrow> conn s
           | None \<Rightarrow>
               (case fst (engine_result env s e ps) of
                  Some err \<Rightarrow> conn s
                | None \<Rightarrow> use_statement env e (conn s))))"
  by (simp add: execute_def engine_result_def duck_execute_def Let_def
      split: sum.splits option.splits prod.splits)

lemma fst_execute_engine_error:
  assumes "expression_of env (conn s) command ps = Inr e"
    and "session_check (conn s) (key_command env e) (is_unqualified_table_expression env e) = None"
    and "engine_result env s e ps = (Some err, eng)"
  shows "fst (execute env s command ps) = Some (translate err)"
  using assms
  by (simp add: execute_def engine_result_def duck_execute_def Let_def)


lemma execute_accepted:
  assumes "expression_of env (conn s) command ps = Inr e"
    and "session_check (conn s) (key_command env e) (is_unqualified_table_expression env e) = None"
    and "engine_result env s e ps = (None, eng)"
  shows "execute env s command ps =
     (let transformed = apply_transforms env (database (conn s)) e;
          c = use_statement env e (conn s);
          dc = (duck_conn s)\<lparr>received := received (duck_conn s) @ [Statement (to_sql env transformed) ps],
                             engine := eng\<rparr>;
          s3 = s\<lparr>arrow_table := None, last_sql := Some (to_sql env transformed), last_params := ps,
                 conn := c\<rparr>
      in case after_create_database env transformed dc of
           (Some err, dc1) \<Rightarrow> (Some err, s3\<lparr>duck_conn := dc1\<rparr>)
         | (None, dc1) \<Rightarrow>
             (case record_table_comment env transformed c dc1 of
                (Some err, dc2) \<Rightarrow> (Some err, s3\<lparr>duck_conn := dc2\<rparr>)
              | (None, dc2) \<Rightarrow>
                  (case record_text_lengths env transformed c dc2 of
                     (r, dc3) \<Rightarrow> (r, s3\<lparr>duck_conn := dc3\<rparr>))))"
  using assms
  by (simp add: execute_def engine_result_def duck_execute_def Let_def)


lemma first_line_prefix: "CHR 0x0A \<notin> set a \<Longrightarrow> first_line (a @ CHR 0x0A # b) = a"
  by (auto simp: first_line_def takeWhile_tail)

lemma first_line_whole: "CHR 0x0A \<notin> set a \<Longrightarrow> first_line a = a"
  by (auto simp: first_line_def)

lemma use_statement_other:
  "key_command env e \<notin> {''USE DATABASE'', ''USE SCHEMA''} \<Longrightarrow> use_statement env e c = c"
  by (simp add: use_statement_def)

lemma use_statement_database:
  "key_command env e = ''USE DATABASE'' \<Longrightarrow> find_identifier env e = Some (ThisStr ident) \<Longrightarrow>
   use_statement env e c = c\<lparr>database := Some (upper env ident), database_set := True\<rparr>"
  by (simp add: use_statement_def)

lemma use_statement_schema:
  "key_command env e = ''USE SCHEMA'' \<Longrightarrow> find_identifier env e = Some (ThisStr ident) \<Longrightarrow>
   use_statement env e c = c\<lparr>schema := Some (upper env ident), schema_set := True\<rparr>"
  by (simp add: use_statement_def)


text \<open>The example environment at work.\<close>

lemmas example_defs =
  example_env_def example_parse_def example_run_def select_people_def select_missing_def
  select_unknown_column_def use_database_db1_def use_schema_jaffles_def create_people_def
  insert_people_def fresh_duck_def ready_duck_def session_unset_def session_database_def
  session_ready_def cursor_def new_connection_def and_upper_def example_upper_def upper_char_def

lemma example_select_people:
  "expression_of example_env c (CommandStr ''select * from people'') NoParams = Inr select_people"
  by (simp add: expression_of_def rewrite_params_def example_env_def example_parse_def)

lemma conn_session_ready:
  "conn session_ready =
     \<lparr>database = Some ''DB1'', schema = Some ''JAFFLES'', database_set = True, schema_set = True,
      paramstyle = ''pyformat''\<rparr>"
  by (simp add: session_ready_def cursor_def new_connection_def and_upper_def example_env_def
      example_upper_def upper_char_def)

lemma duck_conn_session_ready: "duck_conn session_ready = ready_duck"
  by (simp add: session_ready_def cursor_def)

lemma example_insert_people:
  assumes "conn s = conn session_ready"
  shows "execute example_env s (CommandStr ''insert into people values (%s, %s)'') (SeqParams (v # vs)) =
      (None, s\<lparr>arrow_table := None, last_sql := Some ''INSERT INTO PEOPLE VALUES (?, ?)'',
               last_params := SeqParams (v # vs),
               duck_conn := (duck_conn s)\<lparr>received := received (duck_conn s) @
                 [Statement ''INSERT INTO PEOPLE VALUES (?, ?)'' (SeqParams (v # vs))]\<rparr>\<rparr>)"
proof -
  have h1: "expression_of example_env (conn s) (CommandStr ''insert into people values (%s, %s)'')
       (SeqParams (v # vs)) = Inr insert_people"
    by (simp add: assms conn_session_ready expression_of_def rewrite_params_def example_env_def
        example_parse_def)
  have h2: "session_check (conn s) (key_command example_env insert_people)
        (is_unqualified_table_expression example_env insert_people) = None"
    by (simp add: assms conn_session_ready session_check_def example_env_def insert_people_def)
  have t: "apply_transforms example_env d insert_people = insert_people" for d
    by (simp add: apply_transforms_def example_env_def)
  have h3: "engine_result example_env s insert_people (SeqParams (v # vs)) = (None, engine (duck_conn s))"
    by (simp add: engine_result_def t) (simp add: example_env_def example_run_def insert_people_def)
  have a: "after_create_database example_env insert_people dc = (None, dc)"
    "record_table_comment example_env insert_people c dc = (None, dc)"
    "record_text_lengths example_env insert_people c dc = (None, dc)" for c and dc :: "unit duck_connection"
    by (simp_all add: after_create_database_def record_table_comment_def record_text_lengths_def
        example_env_def insert_people_def)
  have u: "use_statement example_env insert_people c = c" for c
    by (simp add: use_statement_def example_env_def insert_people_def)
  have q: "to_sql example_env insert_people = ''INSERT INTO PEOPLE VALUES (?, ?)''"
    by (simp add: example_env_def insert_people_def)
  show ?thesis
    by (simp add: execute_accepted [OF h1 h2 h3] t a u q)
qed


subsection \<open>Reading what the cursor writes\<close>

text \<open>
  A value without a single quote, written between single quotes, is read back as it is,
  whatever follows the closing quote but another quote; a whole number written in digits
  is read back when no digit follows.
\<close>

lemma read_string_append:
  "quote \<notin> set a \<Longrightarrow>
   read_string (a @ c # r) = map_option (\<lambda>(v, r'). (a @ v, r')) (read_string (c # r))"
proof (induction a)
  case Nil
  show ?case by (simp add: option.map_ident case_prod_unfold)
next
  case (Cons x a)
  then show ?case
    by (cases a) (auto simp: option.map_comp comp_def case_prod_unfold)
qed

lemma read_string_close:
  "r = [] \<or> hd r \<noteq> quote \<Longrightarrow> read_string (quote # r) = Some ([], r)"
  by (cases r) auto

lemma read_literal_quoted:
  assumes "quote_free a" and "r = [] \<or> hd r \<noteq> quote"
  shows "read_literal (quoted a @ r) = Some (a, r)"
  using assms read_string_append [of a quote r]
  by (simp add: read_literal_def quoted_def quote_free_def read_string_close)

lemma startswith_append: "startswith (p @ r) p"
  by (induction p) simp_all

lemma expect_append: "expect p (p @ r) = Some r"
  by (simp add: expect_def startswith_append)

lemma digit_char_is_digit: "d < 10 \<Longrightarrow> is_digit (digit_char d) \<and> digit_value (digit_char d) = int d"
proof -
  assume "d < 10"
  then have "d \<in> {0, 1, 2, 3, 4, 5, 6, 7, 8, 9}" by auto
  then show ?thesis
    by (auto simp: is_digit_def digit_char_def digit_value_def)
qed

declare digits.simps [simp del]

lemma digits_digits: "list_all is_digit (digits n) \<and> digits n \<noteq> [] \<and> int_of_digits (digits n) = int n"
proof (induction n rule: digits.induct)
  case (1 n)
  show ?case
  proof (cases "n < 10")
    case True
    then show ?thesis
      using digit_char_is_digit [of n] by (simp add: digits.simps [of n] int_of_digits_def)
  next
    case False
    with 1 have ih: "list_all is_digit (digits (n div 10))" "int_of_digits (digits (n div 10)) = int (n div 10)"
      by simp_all
    have "n mod 10 < 10" by simp
    from digit_char_is_digit [OF this] ih False show ?thesis
      by (simp add: digits.simps [of n] int_of_digits_def zdiv_int zmod_int)
  qed
qed

lemma read_digits_digits:
  assumes "r = [] \<or> \<not> is_digit (hd r)"
  shows "read_digits (digits n @ r) = Some (int n, r)"
proof -
  have all: "\<forall>c \<in> set (digits n). is_digit c"
    using digits_digits [of n] by (simp add: list_all_iff)
  have t: "takeWhile is_digit (digits n @ r) = digits n"
    using assms all by (cases r) (simp_all add: takeWhile_append2)
  have d: "dropWhile is_digit (digits n @ r) = r"
    using assms all by (cases r) (simp_all add: dropWhile_append2)
  show ?thesis
    using digits_digits [of n] by (simp add: read_digits_def t d)
qed

lemma read_integer_format_int:
  assumes "r = [] \<or> \<not> is_digit (hd r)"
  shows "read_integer (format_int n @ r) = Some (n, r)"
proof (cases "n < 0")
  case True
  then show ?thesis
    using read_digits_digits [OF assms, of "nat (- n)"]
    by (simp add: read_integer_def format_int_def)
next
  case False
  obtain c cs where cs: "digits (nat n) = c # cs"
    using digits_digits [of "nat n"] by (cases "digits (nat n)") auto
  with digits_digits [of "nat n"] have "is_digit c" by simp
  then have "c \<noteq> CHR ''-''" by (auto simp: is_digit_def)
  with False cs show ?thesis
    using read_digits_digits [OF assms, of "nat n"]
    by (simp add: read_integer_def format_int_def)
qed

text \<open>So the rows the cursor writes are the rows the engine reads, when no value holds a quote.\<close>

lemma read_tables_ext_row_values:
  assumes "quote_free a" "quote_free b" "quote_free (tbl_name tbl)" "quote_free d"
  shows "read_tables_ext_row (comment_values a b tbl d @ r) = Some (((a, b, tbl_name tbl), d), r)"
proof -
  have 1: "read_literal (quoted v @ '', '' @ s) = Some (v, '', '' @ s)" if "quote_free v" for v s
    using that by (intro read_literal_quoted) (simp_all add: quote_def)
  have 2: "read_literal (quoted v @ '')'' @ s) = Some (v, '')'' @ s)" if "quote_free v" for v s
    using that by (intro read_literal_quoted) (simp_all add: quote_def)
  have e1: "expect ''('' (''('' @ s) = Some s" for s
    by (rule expect_append)
  have e2: "expect '', '' ('', '' @ s) = Some s" for s
    by (rule expect_append)
  have e3: "expect '')'' ('')'' @ s) = Some s" for s
    by (rule expect_append)
  show ?thesis
    unfolding read_tables_ext_row_def comment_values_def append_assoc
    by (simp only: e1 e2 e3 1 [OF assms(1)] 1 [OF assms(2)] 1 [OF assms(3)] 2 [OF assms(4)]
        bind.bind_lunit prod.case)
qed

lemma read_columns_ext_row_values:
  assumes "quote_free a" "quote_free b" "quote_free (tbl_name tbl)" "quote_free d"
  shows "read_columns_ext_row
     (''('' @ quoted a @ '', '' @ quoted b @ '', '' @ quoted (tbl_name tbl) @ '', '' @
          quoted d @ '', '' @ format_int m @ '', '' @ format_int n @ '')'' @ r) =
     Some (((a, b, tbl_name tbl, d), m, n), r)"
proof -
  have 1: "read_literal (quoted v @ '', '' @ s) = Some (v, '', '' @ s)" if "quote_free v" for v s
    using that by (intro read_literal_quoted) (simp_all add: quote_def)
  have 3: "read_integer (format_int k @ '', '' @ s) = Some (k, '', '' @ s)" for k s
    by (intro read_integer_format_int) (simp add: is_digit_def)
  have 4: "read_integer (format_int k @ '')'' @ s) = Some (k, '')'' @ s)" for k s
    by (intro read_integer_format_int) (simp add: is_digit_def)
  have e1: "expect ''('' (''('' @ s) = Some s" for s
    by (rule expect_append)
  have e2: "expect '', '' ('', '' @ s) = Some s" for s
    by (rule expect_append)
  have e3: "expect '')'' ('')'' @ s) = Some s" for s
    by (rule expect_append)
  show ?thesis
    unfolding read_columns_ext_row_def append_assoc
    by (simp only: e1 e2 e3 1 [OF assms(1)] 1 [OF assms(2)] 1 [OF assms(3)] 1 [OF assms(4)] 3 4
        bind.bind_lunit prod.case)
qed

lemma join_Cons: "xs \<noteq> [] \<Longrightarrow> join sep (x # xs) = x @ sep @ join sep xs"
  by (cases xs) simp_all

lemma length_join: "length xs \<le> length (join sep xs)" if "\<And>x. x \<in> set xs \<Longrightarrow> x \<noteq> []"
  using that
proof (induction sep xs rule: join.induct)
  case (2 sep x)
  then show ?case by (cases x) simp_all
next
  case (3 sep x y xs)
  then have "x \<noteq> []" by simp
  then have "1 \<le> length x" by (cases x) simp_all
  with 3 show ?case by simp
qed simp

lemma read_rows_join:
  assumes "\<And>row r. row \<in> set rows \<Longrightarrow> rd (render row @ r) = Some (row, r)"
    and "rows \<noteq> []" and "length rows \<le> fuel"
  shows "read_rows rd fuel (join '', '' (map render rows)) = Some rows"
  using assms
proof (induction rows arbitrary: fuel)
  case Nil
  then show ?case by simp
next
  case (Cons row rows)
  from Cons.prems(3) obtain k where fuel: "fuel = Suc k" and k: "length rows \<le> k"
    by (cases fuel) auto
  show ?case
  proof (cases "rows = []")
    case True
    with Cons.prems(1) [of row "[]"] fuel show ?thesis by simp
  next
    case False
    have first: "rd (render row @ '', '' @ join '', '' (map render rows)) =
        Some (row, '', '' @ join '', '' (map render rows))"
      by (rule Cons.prems(1)) simp
    have others: "read_rows rd k (join '', '' (map render rows)) = Some rows"
      using Cons.prems(1) False k by (intro Cons.IH) simp_all
    have e: "expect '', '' ('', '' @ s) = Some s" for s
      by (rule expect_append)
    from False have j: "join '', '' (map render (row # rows)) =
        render row @ '', '' @ join '', '' (map render rows)"
      by (simp add: join_Cons)
    show ?thesis
      unfolding j fuel read_rows.simps first
      by (simp add: e [simplified] others)
  qed
qed

lemma tables_ext_values_comment:
  assumes "quote_free a" "quote_free b" "quote_free (tbl_name tbl)" "quote_free d"
  shows "tables_ext_values (comment_values a b tbl d) = Some [((a, b, tbl_name tbl), d)]"
proof -
  have "comment_values a b tbl d \<noteq> []"
    by (simp add: comment_values_def)
  then obtain k where k: "length (comment_values a b tbl d) = Suc k"
    by (cases "comment_values a b tbl d") simp_all
  from read_tables_ext_row_values [OF assms, of "[]"] show ?thesis
    by (simp add: tables_ext_values_def k)
qed

lemma columns_ext_values_lengths:
  assumes "quote_free a" "quote_free b" "quote_free (tbl_name tbl)"
    and "\<And>col n. (col, n) \<in> set lengths \<Longrightarrow> quote_free col" and "lengths \<noteq> []"
  shows "columns_ext_values (length_values a b tbl lengths) =
     Some (map (\<lambda>(col_name, size). ((a, b, tbl_name tbl, col_name), size, min (size * 4) 16777216)) lengths)"
proof -
  let ?row = "\<lambda>(col_name, size). ((a, b, tbl_name tbl, col_name), size, min (size * 4) 16777216)"
  let ?render = "\<lambda>((a, b, c, d), m, n :: int).
      ''('' @ quoted a @ '', '' @ quoted b @ '', '' @ quoted c @ '', '' @
          quoted d @ '', '' @ format_int m @ '', '' @ format_int n @ '')''"
  have v: "length_values a b tbl lengths = join '', '' (map ?render (map ?row lengths))"
    by (simp add: length_values_def comp_def case_prod_unfold)
  have rd: "read_columns_ext_row (?render row @ r) = Some (row, r)" if "row \<in> set (map ?row lengths)" for row r
  proof -
    from that obtain col n where "(col, n) \<in> set lengths" and row: "row = ?row (col, n)"
      by auto
    with assms(4) have "quote_free col" by simp
    from read_columns_ext_row_values [OF assms(1,2,3) this, of n "min (n * 4) 16777216" r] row
    show ?thesis by simp
  qed
  have ne: "x \<noteq> []" if "x \<in> set (map ?render (map ?row lengths))" for x
    using that by auto
  have "length (map ?row lengths) \<le> length (join '', '' (map ?render (map ?row lengths)))"
    using length_join [of "map ?render (map ?row lengths)" "'', ''"] ne by simp
  with assms(5) rd show ?thesis
    unfolding columns_ext_values_def v
    by (intro read_rows_join) simp_all
qed

subsection \<open>Rows under a primary key\<close>

text \<open>
  \<^verbatim>\<open>ON CONFLICT ... DO UPDATE\<close> on a list of rows: the row of a key that is there is
  overwritten, the keys stay distinct, and the table read as a map is the old map with
  the new rows laid over it, the later over the earlier.
\<close>

lemma map_of_on_conflict_do_update:
  "map_of (on_conflict_do_update k v rows) = (map_of rows)(k \<mapsto> v)"
  by (induction rows) (auto simp: fun_eq_iff)

lemma keys_on_conflict_do_update:
  "set (map fst (on_conflict_do_update k v rows)) = insert k (set (map fst rows))"
proof (induction rows)
  case Nil
  show ?case by simp
next
  case (Cons row rows)
  obtain k' v' where row: "row = (k', v')" by (cases row)
  show ?case
  proof (cases "k' = k")
    case True
    with row show ?thesis by simp
  next
    case False
    with row Cons.IH show ?thesis by (simp add: insert_commute)
  qed
qed

lemma distinct_on_conflict_do_update:
  "distinct (map fst rows) \<Longrightarrow> distinct (map fst (on_conflict_do_update k v rows))"
proof (induction rows)
  case Nil
  show ?case by simp
next
  case (Cons row rows)
  obtain k' v' where row: "row = (k', v')" by (cases row)
  show ?case
  proof (cases "k' = k")
    case True
    with Cons.prems row show ?thesis by simp
  next
    case False
    have "k' \<notin> set (map fst (on_conflict_do_update k v rows))"
      using Cons.prems row False by (simp add: keys_on_conflict_do_update del: set_map)
    with Cons row False show ?thesis by simp
  qed
qed

lemma on_conflict_do_update_twice:
  "on_conflict_do_update k v (on_conflict_do_update k v' rows) = on_conflict_do_update k v rows"
  by (induction rows) auto

lemma foldl_on_conflict:
  "map_of (foldl (\<lambda>t (k, v). on_conflict_do_update k v t) rows new) = map_of rows ++ map_of (rev new)
   \<and> (distinct (map fst rows) \<longrightarrow>
        distinct (map fst (foldl (\<lambda>t (k, v). on_conflict_do_update k v t) rows new)))"
proof (induction new arbitrary: rows)
  case Nil
  show ?case by simp
next
  case (Cons row new)
  obtain k v where row: "row = (k, v)" by (cases row)
  have "map_of (on_conflict_do_update k v rows) ++ map_of (rev new) =
      map_of rows ++ ([k \<mapsto> v] ++ map_of (rev new))"
    by (auto simp: map_of_on_conflict_do_update fun_eq_iff map_add_def split: option.splits)
  with Cons.IH [of "on_conflict_do_update k v rows"] row show ?case
    by (simp add: distinct_on_conflict_do_update)
qed

lemma insert_on_conflict_Inr:
  assumes "insert_on_conflict new rows = Inr rows1"
  shows "distinct (map fst new)"
    and "map_of rows1 = map_of rows ++ map_of (rev new)"
    and "distinct (map fst rows) \<Longrightarrow> distinct (map fst rows1)"
  using assms foldl_on_conflict [of rows new]
  by (auto simp: insert_on_conflict_def split: if_splits)

lemma one_record_per_key:
  assumes "distinct (map fst rows)" and "map_of rows k = Some v"
  shows "filter (\<lambda>row. fst row = k) rows = [(k, v)]"
  using assms
proof (induction rows)
  case Nil
  then show ?case by simp
next
  case (Cons row rows)
  show ?case
  proof (cases "fst row = k")
    case True
    with Cons.prems have "row = (k, v)" by (cases row) simp
    moreover have "k \<notin> fst ` set rows"
      using Cons.prems(1) True by auto
    then have "filter (\<lambda>row. fst row = k) rows = []"
      by (auto simp: filter_empty_conv)
    ultimately show ?thesis by simp
  next
    case False
    with Cons show ?thesis by (cases row) auto
  qed
qed

subsection \<open>The relations of a catalog\<close>

lemma map_of_replace_relation:
  "map_of (replace_relation nm rel objs) nm' =
     (if nm' = nm then map_option (\<lambda>r. rel) (map_of objs nm) else map_of objs nm')"
  by (induction objs) (auto simp: replace_relation_def)

lemma names_replace_relation: "map fst (replace_relation nm rel objs) = map fst objs"
  by (induction objs) (auto simp: replace_relation_def)

lemma create_relation_Inr:
  "create_relation c nm rel eng = Inr eng1 \<longleftrightarrow>
     (\<exists>objs. catalogs eng c = Some objs \<and> nm \<notin> set (map fst objs)
        \<and> eng1 = eng\<lparr>catalogs := (catalogs eng)(c \<mapsto> objs @ [(nm, rel)])\<rparr>)"
  by (auto simp: create_relation_def split: option.splits)

text \<open>What the engine does with the five statements of the extension store.\<close>

lemma create_relation_taken:
  "catalogs eng c = Some objs \<Longrightarrow> nm \<in> set (map fst objs) \<Longrightarrow>
   create_relation c nm rel eng = Inl (CatalogException (''Table with name '' @ nm @ '' already exists!''))"
  by (simp add: create_relation_def)

lemma duck_execute_create:
  "duck_execute env dc (CreateTablesExt c) =
     (case create_relation c ''tables_ext'' (TablesExt []) (engine dc) of
        Inl err \<Rightarrow> (Some err, dc\<lparr>received := received dc @ [CreateTablesExt c]\<rparr>)
      | Inr eng \<Rightarrow> (None, dc\<lparr>received := received dc @ [CreateTablesExt c], engine := eng\<rparr>))"
  "duck_execute env dc (CreateColumnsExt c) =
     (case create_relation c ''columns_ext'' (ColumnsExt []) (engine dc) of
        Inl err \<Rightarrow> (Some err, dc\<lparr>received := received dc @ [CreateColumnsExt c]\<rparr>)
      | Inr eng \<Rightarrow> (None, dc\<lparr>received := received dc @ [CreateColumnsExt c], engine := eng\<rparr>))"
  "duck_execute env dc (CreateColumnsView c) =
     (case create_relation c ''columns_snowflake'' ColumnsView (engine dc) of
        Inl err \<Rightarrow> (Some err, dc\<lparr>received := received dc @ [CreateColumnsView c]\<rparr>)
      | Inr eng \<Rightarrow> (None, dc\<lparr>received := received dc @ [CreateColumnsView c], engine := eng\<rparr>))"
  by (simp_all add: duck_execute_def Let_def split: sum.splits)

lemma duck_execute_insert:
  "tables_ext_values values = Some rows \<Longrightarrow>
   duck_execute env dc (InsertTablesExt c values) =
     (case insert_tables_ext c rows (engine dc) of
        Inl err \<Rightarrow> (Some err, dc\<lparr>received := received dc @ [InsertTablesExt c values]\<rparr>)
      | Inr eng \<Rightarrow> (None, dc\<lparr>received := received dc @ [InsertTablesExt c values], engine := eng\<rparr>))"
  "columns_ext_values values = Some new \<Longrightarrow>
   duck_execute env dc (InsertColumnsExt c values) =
     (case insert_columns_ext c new (engine dc) of
        Inl err \<Rightarrow> (Some err, dc\<lparr>received := received dc @ [InsertColumnsExt c values]\<rparr>)
      | Inr eng \<Rightarrow> (None, dc\<lparr>received := received dc @ [InsertColumnsExt c values], engine := eng\<rparr>))"
  by (simp_all add: duck_execute_def Let_def split: sum.splits)

text \<open>An insert whose values are not rows of literals is the engine's own to run, as text.\<close>

lemma duck_execute_unread:
  "tables_ext_values values = None \<Longrightarrow>
   duck_execute env dc (InsertTablesExt c values) =
     (case run_statement env (engine dc) (tables_ext_insert c values) NoParams of
        (r, eng) \<Rightarrow> (r, dc\<lparr>received := received dc @ [InsertTablesExt c values], engine := eng\<rparr>))"
  "columns_ext_values values = None \<Longrightarrow>
   duck_execute env dc (InsertColumnsExt c values) =
     (case run_statement env (engine dc) (columns_ext_insert c values) NoParams of
        (r, eng) \<Rightarrow> (r, dc\<lparr>received := received dc @ [InsertColumnsExt c values], engine := eng\<rparr>))"
  by (simp_all add: duck_execute_def Let_def)

lemma create_info_schema_ext_returns:
  assumes "create_info_schema_ext env dc c = (None, dc1)"
  shows "\<exists>objs. catalogs (engine dc) c = Some objs
           \<and> ''tables_ext'' \<notin> set (map fst objs)
           \<and> ''columns_ext'' \<notin> set (map fst objs)
           \<and> ''columns_snowflake'' \<notin> set (map fst objs)
           \<and> engine dc1 = (engine dc)\<lparr>catalogs := (catalogs (engine dc))
                 (c \<mapsto> objs @ [(''tables_ext'', TablesExt []), (''columns_ext'', ColumnsExt []),
                                (''columns_snowflake'', ColumnsView)])\<rparr>
           \<and> received dc1 = received dc @ [CreateTablesExt c, CreateColumnsExt c, CreateColumnsView c]"
proof -
  from assms obtain e1 where r1: "create_relation c ''tables_ext'' (TablesExt []) (engine dc) = Inr e1"
    by (cases "create_relation c ''tables_ext'' (TablesExt []) (engine dc)")
       (simp_all add: create_info_schema_ext_def duck_execute_create)
  with assms obtain e2 where r2: "create_relation c ''columns_ext'' (ColumnsExt []) e1 = Inr e2"
    by (cases "create_relation c ''columns_ext'' (ColumnsExt []) e1")
       (simp_all add: create_info_schema_ext_def duck_execute_create)
  with assms r1 obtain e3 where r3: "create_relation c ''columns_snowflake'' ColumnsView e2 = Inr e3"
    by (cases "create_relation c ''columns_snowflake'' ColumnsView e2")
       (simp_all add: create_info_schema_ext_def duck_execute_create)
  from assms r1 r2 r3 have dc1: "dc1 = dc\<lparr>received := received dc @
      [CreateTablesExt c, CreateColumnsExt c, CreateColumnsView c], engine := e3\<rparr>"
    by (simp add: create_info_schema_ext_def duck_execute_create)
  from r1 obtain objs where o: "catalogs (engine dc) c = Some objs"
      "''tables_ext'' \<notin> set (map fst objs)"
      "e1 = (engine dc)\<lparr>catalogs := (catalogs (engine dc))(c \<mapsto> objs @ [(''tables_ext'', TablesExt [])])\<rparr>"
    unfolding create_relation_Inr by blast
  from r2 o have e2: "''columns_ext'' \<notin> set (map fst objs)"
      "e2 = (engine dc)\<lparr>catalogs := (catalogs (engine dc))
          (c \<mapsto> objs @ [(''tables_ext'', TablesExt []), (''columns_ext'', ColumnsExt [])])\<rparr>"
    unfolding create_relation_Inr by auto
  from r3 o e2 have e3: "''columns_snowflake'' \<notin> set (map fst objs)"
      "e3 = (engine dc)\<lparr>catalogs := (catalogs (engine dc))
          (c \<mapsto> objs @ [(''tables_ext'', TablesExt []), (''columns_ext'', ColumnsExt []),
                         (''columns_snowflake'', ColumnsView)])\<rparr>"
    unfolding create_relation_Inr by auto
  from o e2 e3 dc1 show ?thesis by simp
qed

lemma create_info_schema_ext_again:
  assumes "catalogs (engine dc) c = Some objs" and "''tables_ext'' \<in> set (map fst objs)"
  shows "create_info_schema_ext env dc c =
     (Some (DuckDBError (CatalogException ''Table with name tables_ext already exists!'')),
      dc\<lparr>received := received dc @ [CreateTablesExt c]\<rparr>)"
  using create_relation_taken [OF assms, of "TablesExt []"]
  by (simp add: create_info_schema_ext_def duck_execute_create)

lemma count_relations_created:
  assumes "catalogs eng c = Some (objs @ [(''tables_ext'', TablesExt []), (''columns_ext'', ColumnsExt []),
                                (''columns_snowflake'', ColumnsView)])"
    and "''tables_ext'' \<notin> set (map fst objs)"
    and "''columns_ext'' \<notin> set (map fst objs)"
    and "''columns_snowflake'' \<notin> set (map fst objs)"
  shows "count_relations eng c ''tables_ext'' = 1"
    and "count_relations eng c ''columns_ext'' = 1"
    and "count_relations eng c ''columns_snowflake'' = 1"
    and "tables_ext_rows eng c = Some []"
    and "columns_ext_rows eng c = Some []"
proof -
  have none: "filter (\<lambda>(n, r). n = nm) objs = []" if "nm \<notin> set (map fst objs)" for nm
    using that by (force simp: filter_empty_conv)
  have absent: "map_of objs nm = None" if "nm \<notin> set (map fst objs)" for nm
    using that by (simp add: map_of_eq_None_iff)
  show "count_relations eng c ''tables_ext'' = 1"
    "count_relations eng c ''columns_ext'' = 1"
    "count_relations eng c ''columns_snowflake'' = 1"
    using assms by (simp_all add: count_relations_def none)
  show "tables_ext_rows eng c = Some []" "columns_ext_rows eng c = Some []"
    using assms by (simp_all add: tables_ext_rows_def columns_ext_rows_def map_add_def absent)
qed

lemma example_create_info_schema_ext:
  "create_info_schema_ext example_env fresh_duck ''DB1'' =
     (None, ready_duck\<lparr>received := [CreateTablesExt ''DB1'', CreateColumnsExt ''DB1'',
                                     CreateColumnsView ''DB1'']\<rparr>)"
  by (simp add: create_info_schema_ext_def duck_execute_create create_relation_def fresh_duck_def
      ready_duck_def fun_eq_iff)

lemma catalogs_ready_duck:
  "catalogs (engine (ready_duck\<lparr>received := sts\<rparr>)) ''DB1'' =
     Some [(''tables_ext'', TablesExt []), (''columns_ext'', ColumnsExt []),
           (''columns_snowflake'', ColumnsView)]"
  by (simp add: ready_duck_def)

subsection \<open>Upserts\<close>

text \<open>
  An upsert that the engine accepts changes the rows of its own table in its own catalog
  and nothing else of the extension store.
\<close>

lemma insert_tables_ext_Inr:
  assumes "insert_tables_ext c new eng = Inr eng1"
  shows "\<exists>rows rows1. tables_ext_rows eng c = Some rows
           \<and> insert_on_conflict new rows = Inr rows1
           \<and> tables_ext_rows eng1 c = Some rows1"
    and "columns_ext_rows eng1 c = columns_ext_rows eng c"
proof -
  from assms obtain objs where objs: "catalogs eng c = Some objs"
    by (cases "catalogs eng c") (simp_all add: insert_tables_ext_def)
  from assms objs obtain rows where rows: "map_of objs ''tables_ext'' = Some (TablesExt rows)"
    by (auto simp: insert_tables_ext_def split: option.splits relation.splits)
  from assms objs rows obtain rows1 where rows1: "insert_on_conflict new rows = Inr rows1"
    and eng1: "eng1 = eng\<lparr>catalogs := (catalogs eng)
      (c \<mapsto> replace_relation ''tables_ext'' (TablesExt rows1) objs)\<rparr>"
    by (auto simp: insert_tables_ext_def split: sum.splits)
  show "\<exists>rows rows1. tables_ext_rows eng c = Some rows
           \<and> insert_on_conflict new rows = Inr rows1
           \<and> tables_ext_rows eng1 c = Some rows1"
    using objs rows rows1 eng1 by (simp add: tables_ext_rows_def map_of_replace_relation)
  show "columns_ext_rows eng1 c = columns_ext_rows eng c"
    using objs eng1 by (simp add: columns_ext_rows_def map_of_replace_relation)
qed

lemma insert_tables_ext_elsewhere:
  assumes "insert_tables_ext c new eng = Inr eng1" and "c' \<noteq> c"
  shows "tables_ext_rows eng1 c' = tables_ext_rows eng c'"
    and "columns_ext_rows eng1 c' = columns_ext_rows eng c'"
  using assms
  by (auto simp: insert_tables_ext_def tables_ext_rows_def columns_ext_rows_def
      split: option.splits relation.splits sum.splits)

lemma insert_columns_ext_Inr:
  assumes "insert_columns_ext c new eng = Inr eng1"
  shows "\<exists>rows rows1. columns_ext_rows eng c = Some rows
           \<and> insert_on_conflict new rows = Inr rows1
           \<and> columns_ext_rows eng1 c = Some rows1"
    and "tables_ext_rows eng1 c = tables_ext_rows eng c"
proof -
  from assms obtain objs where objs: "catalogs eng c = Some objs"
    by (cases "catalogs eng c") (simp_all add: insert_columns_ext_def)
  from assms objs obtain rows where rows: "map_of objs ''columns_ext'' = Some (ColumnsExt rows)"
    by (auto simp: insert_columns_ext_def split: option.splits relation.splits)
  from assms objs rows obtain rows1 where rows1: "insert_on_conflict new rows = Inr rows1"
    and eng1: "eng1 = eng\<lparr>catalogs := (catalogs eng)
      (c \<mapsto> replace_relation ''columns_ext'' (ColumnsExt rows1) objs)\<rparr>"
    by (auto simp: insert_columns_ext_def split: if_splits sum.splits)
  show "\<exists>rows rows1. columns_ext_rows eng c = Some rows
           \<and> insert_on_conflict new rows = Inr rows1
           \<and> columns_ext_rows eng1 c = Some rows1"
    using objs rows rows1 eng1 by (simp add: columns_ext_rows_def map_of_replace_relation)
  show "tables_ext_rows eng1 c = tables_ext_rows eng c"
    using objs eng1 by (simp add: tables_ext_rows_def map_of_replace_relation)
qed

lemma insert_columns_ext_elsewhere:
  assumes "insert_columns_ext c new eng = Inr eng1" and "c' \<noteq> c"
  shows "tables_ext_rows eng1 c' = tables_ext_rows eng c'"
    and "columns_ext_rows eng1 c' = columns_ext_rows eng c'"
  using assms
  by (auto simp: insert_columns_ext_def tables_ext_rows_def columns_ext_rows_def
      split: option.splits relation.splits sum.splits if_splits)

text \<open>
  The two tables of a catalog \<open>c\<close> after an insert into the catalog \<open>c'\<close>: the rows are laid
  over the table when the two catalogs are the same one.
\<close>

lemma insert_tables_ext_step:
  assumes "insert_tables_ext c' new eng = Inr eng1"
    and "tables_ext_rows eng c = Some t" and "columns_ext_rows eng c = Some u"
  shows "\<exists>t1. tables_ext_rows eng1 c = Some t1 \<and> columns_ext_rows eng1 c = Some u
       \<and> map_of t1 = map_of t ++ map_of (rev (if c' = c then new else []))
       \<and> (distinct (map fst t) \<longrightarrow> distinct (map fst t1))"
proof (cases "c' = c")
  case True
  from insert_tables_ext_Inr [OF assms(1)] True assms(2,3) obtain t1 where
    t1: "insert_on_conflict new t = Inr t1" "tables_ext_rows eng1 c = Some t1"
    and u1: "columns_ext_rows eng1 c = Some u"
    by auto
  from insert_on_conflict_Inr [OF t1(1)] t1(2) u1 True show ?thesis
    by simp
next
  case False
  then have "c \<noteq> c'" by simp
  from insert_tables_ext_elsewhere [OF assms(1) this] assms(2,3) False show ?thesis
    by simp
qed

lemma insert_columns_ext_step:
  assumes "insert_columns_ext c' new eng = Inr eng1"
    and "tables_ext_rows eng c = Some t" and "columns_ext_rows eng c = Some u"
  shows "\<exists>u1. tables_ext_rows eng1 c = Some t \<and> columns_ext_rows eng1 c = Some u1
       \<and> map_of u1 = map_of u ++ map_of (rev (if c' = c then new else []))
       \<and> (distinct (map fst u) \<longrightarrow> distinct (map fst u1))"
proof (cases "c' = c")
  case True
  from insert_columns_ext_Inr [OF assms(1)] True assms(2,3) obtain u1 where
    u1: "insert_on_conflict new u = Inr u1" "columns_ext_rows eng1 c = Some u1"
    and t1: "tables_ext_rows eng1 c = Some t"
    by auto
  from insert_on_conflict_Inr [OF u1(1)] u1(2) t1 True show ?thesis
    by simp
next
  case False
  then have "c \<noteq> c'" by simp
  from insert_columns_ext_elsewhere [OF assms(1) this] assms(2,3) False show ?thesis
    by simp
qed

text \<open>The two tables of a catalog are read from the relations of that catalog alone.\<close>

lemma rows_of_catalog:
  assumes "catalogs eng1 c = catalogs eng c"
  shows "tables_ext_rows eng1 c = tables_ext_rows eng c"
    and "columns_ext_rows eng1 c = columns_ext_rows eng c"
  using assms by (simp_all add: tables_ext_rows_def columns_ext_rows_def)

text \<open>
  The writes that follow the emitted statement. Creating the extension objects of a new
  catalog leaves a catalog that has them already as it is; the comment and the text
  lengths, when no name or text of theirs holds a single quote, are upserts of the rows
  that \<open>table_key\<close> and \<open>text_length_rows\<close> give.
\<close>

lemma after_create_database_keeps:
  assumes "after_create_database env transformed dc = (None, dc1)"
    and "tables_ext_rows (engine dc) c = Some t"
  shows "catalogs (engine dc1) c = catalogs (engine dc) c"
proof (cases "create_db_name env transformed")
  case None
  with assms(1) show ?thesis by (simp add: after_create_database_def)
next
  case (Some n)
  show ?thesis
  proof (cases "n = []")
    case True
    with Some assms(1) show ?thesis by (simp add: after_create_database_def)
  next
    case False
    with Some assms(1) have "create_info_schema_ext env dc n = (None, dc1)"
      by (simp add: after_create_database_def)
    from create_info_schema_ext_returns [OF this] obtain objs where
      objs: "catalogs (engine dc) n = Some objs" "''tables_ext'' \<notin> set (map fst objs)"
      and eng: "engine dc1 = (engine dc)\<lparr>catalogs := (catalogs (engine dc))
                 (n \<mapsto> objs @ [(''tables_ext'', TablesExt []), (''columns_ext'', ColumnsExt []),
                                (''columns_snowflake'', ColumnsView)])\<rparr>"
      by blast
    have "n \<noteq> c"
    proof
      assume "n = c"
      with objs(1) assms(2) have "map_of objs ''tables_ext'' \<noteq> None"
        by (auto simp: tables_ext_rows_def split: option.splits)
      with objs(2) show False
        by (simp add: map_of_eq_None_iff)
    qed
    with eng show ?thesis by simp
  qed
qed

lemma record_table_comment_step:
  assumes "record_table_comment env transformed cn dc = (None, dc1)"
    and "table_comment env transformed = Some (tbl, comment)"
    and "comment_quote_free (table_key cn tbl, comment)"
  shows "insert_tables_ext (fst (table_key cn tbl)) [(table_key cn tbl, comment)] (engine dc) =
           Inr (engine dc1)"
proof -
  from assms(3) have "tables_ext_values
      (comment_values (format_str (py_or (catalog tbl) (database cn)))
         (format_str (py_or (db tbl) (schema cn))) tbl comment) = Some [(table_key cn tbl, comment)]"
    by (simp add: table_key_def tables_ext_values_comment)
  note sent = duck_execute_insert(1) [OF this]
  from assms(1,2) show ?thesis
    by (auto simp: record_table_comment_def Let_def table_key_def sent split: sum.splits)
qed

lemma record_text_lengths_step:
  assumes "record_text_lengths env transformed cn dc = (None, dc1)"
    and "text_lengths env transformed = Some lengths" and "lengths \<noteq> []"
    and "find_table env transformed = Some tbl"
    and "list_all length_quote_free (text_length_rows cn tbl lengths)"
  shows "insert_columns_ext (fst (table_key cn tbl)) (text_length_rows cn tbl lengths) (engine dc) =
           Inr (engine dc1)"
proof -
  obtain col n others where lengths: "lengths = (col, n) # others"
    using assms(3) by (cases lengths) auto
  with assms(5) have names: "quote_free (format_str (py_or (catalog tbl) (database cn)))"
      "quote_free (format_str (py_or (db tbl) (schema cn)))" "quote_free (tbl_name tbl)"
    by (simp_all add: text_length_rows_def table_key_def)
  have cols: "quote_free c" if "(c, m) \<in> set lengths" for c m
    using assms(5) that by (force simp: text_length_rows_def list_all_iff)
  from columns_ext_values_lengths [OF names cols assms(3)]
  have "columns_ext_values
      (length_values (format_str (py_or (catalog tbl) (database cn)))
         (format_str (py_or (db tbl) (schema cn))) tbl lengths) = Some (text_length_rows cn tbl lengths)"
    by (simp add: text_length_rows_def table_key_def)
  note sent = duck_execute_insert(2) [OF this]
  from assms(1,2,3,4) show ?thesis
    by (auto simp: record_text_lengths_def Let_def table_key_def sent split: sum.splits)
qed

text \<open>
  When \<^verbatim>\<open>execute\<close> returns, the engine has accepted the emitted statement and the three
  writes that follow it have returned, each on what the one before left, with the session
  context the call leaves.
\<close>

lemma execute_returns:
  assumes "execute env s command ps = (None, s1)"
    and "expression_of env (conn s) command ps = Inr e"
  shows "conn s1 = use_statement env e (conn s)"
    and "\<exists>eng dc1 dc2. engine_result env s e ps = (None, eng)
           \<and> after_create_database env (apply_transforms env (database (conn s)) e)
               ((duck_conn s)\<lparr>received := received (duck_conn s) @
                   [Statement (to_sql env (apply_transforms env (database (conn s)) e)) ps],
                 engine := eng\<rparr>) = (None, dc1)
           \<and> record_table_comment env (apply_transforms env (database (conn s)) e) (conn s1) dc1 =
               (None, dc2)
           \<and> record_text_lengths env (apply_transforms env (database (conn s)) e) (conn s1) dc2 =
               (None, duck_conn s1)"
proof -
  have check: "session_check (conn s) (key_command env e) (is_unqualified_table_expression env e) = None"
  proof (cases "session_check (conn s) (key_command env e) (is_unqualified_table_expression env e)")
    case (Some err)
    from execute_session_check [OF assms(2) Some] assms(1) show ?thesis by simp
  qed simp
  obtain r eng where res: "engine_result env s e ps = (r, eng)"
    by (cases "engine_result env s e ps")
  have "r = None"
  proof (cases r)
    case (Some err)
    with res have "engine_result env s e ps = (Some err, eng)" by simp
    from fst_execute_engine_error [OF assms(2) check this] assms(1) show ?thesis
      by simp
  qed simp
  with res have accepted: "engine_result env s e ps = (None, eng)" by simp
  note run = execute_accepted [OF assms(2) check accepted]
  from assms(1) show c: "conn s1 = use_statement env e (conn s)"
    unfolding run by (auto simp: Let_def split: prod.splits option.splits)
  from assms(1) accepted show "\<exists>eng dc1 dc2. engine_result env s e ps = (None, eng)
           \<and> after_create_database env (apply_transforms env (database (conn s)) e)
               ((duck_conn s)\<lparr>received := received (duck_conn s) @
                   [Statement (to_sql env (apply_transforms env (database (conn s)) e)) ps],
                 engine := eng\<rparr>) = (None, dc1)
           \<and> record_table_comment env (apply_transforms env (database (conn s)) e) (conn s1) dc1 =
               (None, dc2)
           \<and> record_text_lengths env (apply_transforms env (database (conn s)) e) (conn s1) dc2 =
               (None, duck_conn s1)"
    unfolding run c by (auto simp: Let_def split: prod.splits option.splits)
qed

lemma execute_raises_unparsed:
  "expression_of env (conn s) command ps = Inl err \<Longrightarrow> fst (execute env s command ps) = Some err"
  by (simp add: execute_def)

text \<open>
  One call of \<^verbatim>\<open>execute\<close> that returns, seen from a catalog that has the two tables: the
  emitted statement leaving the catalog alone and no supplied name or text holding a
  single quote, the tables afterwards are the tables before with the rows of the call laid
  over them. A sequence of calls follows by induction.
\<close>

lemma in_catalog_one: "in_catalog c [(k, v)] = (if fst k = c then [(k, v)] else [])"
  by (simp add: in_catalog_def)

lemma in_catalog_append: "in_catalog c (xs @ ys) = in_catalog c xs @ in_catalog c ys"
  by (simp add: in_catalog_def)

lemma in_catalog_text_length_rows:
  "in_catalog c (text_length_rows cn tbl lengths) =
     (if fst (table_key cn tbl) = c then text_length_rows cn tbl lengths else [])"
  by (induction lengths) (auto simp: in_catalog_def text_length_rows_def)

lemma execute_upserts:
  assumes ex: "execute env s command ps = (None, s1)"
    and keep: "statement_keeps env c s command ps"
    and qc: "list_all comment_quote_free (call_comment env s command ps)"
    and ql: "list_all length_quote_free (call_lengths env s command ps)"
    and t: "tables_ext_rows (engine (duck_conn s)) c = Some t"
    and u: "columns_ext_rows (engine (duck_conn s)) c = Some u"
  shows "\<exists>t1 u1. tables_ext_rows (engine (duck_conn s1)) c = Some t1
       \<and> columns_ext_rows (engine (duck_conn s1)) c = Some u1
       \<and> map_of t1 = map_of t ++ map_of (rev (in_catalog c (call_comment env s command ps)))
       \<and> map_of u1 = map_of u ++ map_of (rev (in_catalog c (call_lengths env s command ps)))
       \<and> (distinct (map fst t) \<longrightarrow> distinct (map fst t1))
       \<and> (distinct (map fst u) \<longrightarrow> distinct (map fst u1))"
proof -
  obtain e where e: "expression_of env (conn s) command ps = Inr e"
  proof (cases "expression_of env (conn s) command ps")
    case (Inl err)
    from execute_raises_unparsed [OF this] ex show ?thesis by simp
  qed
  define tr where "tr = apply_transforms env (database (conn s)) e"
  note c1 = execute_returns(1) [OF ex e]
  from execute_returns(2) [OF ex e] obtain eng dc1 dc2 where
    run: "engine_result env s e ps = (None, eng)"
    and a: "after_create_database env tr
               ((duck_conn s)\<lparr>received := received (duck_conn s) @ [Statement (to_sql env tr) ps],
                 engine := eng\<rparr>) = (None, dc1)"
    and b: "record_table_comment env tr (conn s1) dc1 = (None, dc2)"
    and l: "record_text_lengths env tr (conn s1) dc2 = (None, duck_conn s1)"
    unfolding tr_def by (elim exE conjE)
  from keep e run have "catalogs eng c = catalogs (engine (duck_conn s)) c"
    by (simp add: statement_keeps_def)
  from rows_of_catalog [OF this] t u
  have t0: "tables_ext_rows eng c = Some t" and u0: "columns_ext_rows eng c = Some u"
    by simp_all
  from t0 have "tables_ext_rows (engine ((duck_conn s)\<lparr>received := received (duck_conn s) @
      [Statement (to_sql env tr) ps], engine := eng\<rparr>)) c = Some t"
    by simp
  from after_create_database_keeps [OF a this] have "catalogs (engine dc1) c = catalogs eng c"
    by simp
  from rows_of_catalog [OF this] t0 u0
  have t1: "tables_ext_rows (engine dc1) c = Some t" and u1: "columns_ext_rows (engine dc1) c = Some u"
    by simp_all
  have "\<exists>t2. tables_ext_rows (engine dc2) c = Some t2 \<and> columns_ext_rows (engine dc2) c = Some u
       \<and> map_of t2 = map_of t ++ map_of (rev (in_catalog c (call_comment env s command ps)))
       \<and> (distinct (map fst t) \<longrightarrow> distinct (map fst t2))"
  proof (cases "table_comment env tr")
    case None
    with b have "dc2 = dc1" by (simp add: record_table_comment_def)
    moreover from None e have "call_comment env s command ps = []"
      by (simp add: call_comment_def tr_def)
    ultimately show ?thesis using t1 u1 by (simp add: in_catalog_def)
  next
    case (Some p)
    obtain tbl comment where p: "p = (tbl, comment)" by (cases p)
    with Some e c1 have call: "call_comment env s command ps = [(table_key (conn s1) tbl, comment)]"
      by (simp add: call_comment_def tr_def)
    with qc have "comment_quote_free (table_key (conn s1) tbl, comment)" by simp
    from record_table_comment_step [OF b Some [unfolded p] this]
    have "insert_tables_ext (fst (table_key (conn s1) tbl)) [(table_key (conn s1) tbl, comment)]
        (engine dc1) = Inr (engine dc2)" .
    from insert_tables_ext_step [OF this t1 u1] show ?thesis
      unfolding call in_catalog_one by (cases "fst (table_key (conn s1) tbl) = c") simp_all
  qed
  then obtain t2 where t2: "tables_ext_rows (engine dc2) c = Some t2"
    and u2: "columns_ext_rows (engine dc2) c = Some u"
    and m2: "map_of t2 = map_of t ++ map_of (rev (in_catalog c (call_comment env s command ps)))"
    and d2: "distinct (map fst t) \<longrightarrow> distinct (map fst t2)"
    by (elim exE conjE)
  have "\<exists>u3. tables_ext_rows (engine (duck_conn s1)) c = Some t2
       \<and> columns_ext_rows (engine (duck_conn s1)) c = Some u3
       \<and> map_of u3 = map_of u ++ map_of (rev (in_catalog c (call_lengths env s command ps)))
       \<and> (distinct (map fst u) \<longrightarrow> distinct (map fst u3))"
  proof (cases "text_lengths env tr")
    case None
    with l have "duck_conn s1 = dc2" by (simp add: record_text_lengths_def)
    moreover from None e have "call_lengths env s command ps = []"
      by (simp add: call_lengths_def tr_def)
    ultimately show ?thesis using t2 u2 by (simp add: in_catalog_def)
  next
    case (Some lengths)
    show ?thesis
    proof (cases "lengths = [] \<or> find_table env tr = None")
      case True
      with Some l have "duck_conn s1 = dc2"
        by (auto simp: record_text_lengths_def split: if_splits)
      moreover from True Some e have "call_lengths env s command ps = []"
        by (auto simp: call_lengths_def tr_def text_length_rows_def split: option.splits)
      ultimately show ?thesis using t2 u2 by (simp add: in_catalog_def)
    next
      case False
      then obtain tbl where tbl: "find_table env tr = Some tbl" and ne: "lengths \<noteq> []"
        by auto
      with Some e c1 have call: "call_lengths env s command ps = text_length_rows (conn s1) tbl lengths"
        by (simp add: call_lengths_def tr_def)
      with ql have "list_all length_quote_free (text_length_rows (conn s1) tbl lengths)" by simp
      from record_text_lengths_step [OF l Some ne tbl this]
      have "insert_columns_ext (fst (table_key (conn s1) tbl)) (text_length_rows (conn s1) tbl lengths)
          (engine dc2) = Inr (engine (duck_conn s1))" .
      from insert_columns_ext_step [OF this t2 u2] show ?thesis
        unfolding call in_catalog_text_length_rows
        by (cases "fst (table_key (conn s1) tbl) = c") simp_all
    qed
  qed
  with m2 d2 show ?thesis
    by (elim exE conjE) (intro exI conjI)
qed

lemma upserts_all:
  assumes "execute_all env s calls = (None, s1)"
    and "statements_keep env c s calls"
    and "list_all comment_quote_free (supplied_comments env s calls)"
    and "list_all length_quote_free (supplied_lengths env s calls)"
    and "tables_ext_rows (engine (duck_conn s)) c = Some t"
    and "columns_ext_rows (engine (duck_conn s)) c = Some u"
  shows "\<exists>t1 u1. tables_ext_rows (engine (duck_conn s1)) c = Some t1
       \<and> columns_ext_rows (engine (duck_conn s1)) c = Some u1
       \<and> map_of t1 = map_of t ++ map_of (rev (in_catalog c (supplied_comments env s calls)))
       \<and> map_of u1 = map_of u ++ map_of (rev (in_catalog c (supplied_lengths env s calls)))
       \<and> (distinct (map fst t) \<longrightarrow> distinct (map fst t1))
       \<and> (distinct (map fst u) \<longrightarrow> distinct (map fst u1))"
  using assms
proof (induction calls arbitrary: s t u)
  case Nil
  then show ?case by (simp add: in_catalog_def)
next
  case (Cons call calls)
  obtain command ps where call: "call = (command, ps)" by (cases call)
  from Cons.prems(1) call obtain s2 where first: "execute env s command ps = (None, s2)"
    and others: "execute_all env s2 calls = (None, s1)"
    by (auto split: prod.splits option.splits)
  from first have s2: "snd (execute env s command ps) = s2" by simp
  from Cons.prems(2,3,4) call s2 have
    keep: "statement_keeps env c s command ps" "statements_keep env c s2 calls"
    and qc: "list_all comment_quote_free (call_comment env s command ps)"
      "list_all comment_quote_free (supplied_comments env s2 calls)"
    and ql: "list_all length_quote_free (call_lengths env s command ps)"
      "list_all length_quote_free (supplied_lengths env s2 calls)"
    by simp_all
  from execute_upserts [OF first keep(1) qc(1) ql(1) Cons.prems(5,6)] obtain t2 u2 where
    step: "tables_ext_rows (engine (duck_conn s2)) c = Some t2"
      "columns_ext_rows (engine (duck_conn s2)) c = Some u2"
      "map_of t2 = map_of t ++ map_of (rev (in_catalog c (call_comment env s command ps)))"
      "map_of u2 = map_of u ++ map_of (rev (in_catalog c (call_lengths env s command ps)))"
      "distinct (map fst t) \<longrightarrow> distinct (map fst t2)"
      "distinct (map fst u) \<longrightarrow> distinct (map fst u2)"
    by (elim exE conjE)
  from Cons.IH [OF others keep(2) qc(2) ql(2) step(1,2)] obtain t1 u1 where
    fin: "tables_ext_rows (engine (duck_conn s1)) c = Some t1"
      "columns_ext_rows (engine (duck_conn s1)) c = Some u1"
      "map_of t1 = map_of t2 ++ map_of (rev (in_catalog c (supplied_comments env s2 calls)))"
      "map_of u1 = map_of u2 ++ map_of (rev (in_catalog c (supplied_lengths env s2 calls)))"
      "distinct (map fst t2) \<longrightarrow> distinct (map fst t1)"
      "distinct (map fst u2) \<longrightarrow> distinct (map fst u1)"
    by (elim exE conjE)
  have "map_of t1 = map_of t ++ map_of (rev (in_catalog c (supplied_comments env s (call # calls))))"
    unfolding fin(3) step(3) call by (simp add: s2 in_catalog_append)
  moreover have "map_of u1 = map_of u ++ map_of (rev (in_catalog c (supplied_lengths env s (call # calls))))"
    unfolding fin(4) step(4) call by (simp add: s2 in_catalog_append)
  moreover have "distinct (map fst t) \<longrightarrow> distinct (map fst t1)"
    using step(5) fin(5) by simp
  moreover have "distinct (map fst u) \<longrightarrow> distinct (map fst u1)"
    using step(6) fin(6) by simp
  ultimately show ?case
    using fin(1,2) by (intro exI conjI)
qed

lemma execute_all_one: "execute_all env s [(command, ps)] = execute env s command ps"
  by (simp split: prod.splits option.splits)

lemma text_length_rows_member:
  "(col, n) \<in> set lengths \<Longrightarrow>
   ((fst (table_key c tbl), fst (snd (table_key c tbl)), tbl_name tbl, col), n, min (n * 4) 16777216)
     \<in> set (text_length_rows c tbl lengths)"
  by (force simp: text_length_rows_def)

lemma columns_snowflake_one:
  assumes "distinct (map fst rows)" and "map_of rows (columns_key r) = Some (a, b)"
  shows "map (\<lambda>v. (character_maximum_length v, character_octet_length v)) (columns_snowflake [r] rows) =
           [(Some a, Some b)]"
proof -
  have "filter (\<lambda>(k, a, b). k = columns_key r) rows = filter (\<lambda>row. fst row = columns_key r) rows"
    by (rule filter_cong) auto
  also have "\<dots> = [(columns_key r, a, b)]"
    by (rule one_record_per_key [OF assms])
  finally have "filter (\<lambda>(k, a, b). k = columns_key r) rows = [(columns_key r, a, b)]" .
  then show ?thesis
    by (simp add: columns_snowflake_def Let_def)
qed

subsection \<open>The examples at work\<close>

text \<open>
  The example environment: the texts the cursor writes for the example statements, what
  the engine reads from them, and the calls of \<^verbatim>\<open>execute\<close> the examples are made of.
\<close>

lemma example_transforms: "apply_transforms example_env d e = e"
  by (simp add: apply_transforms_def example_env_def)

lemma example_values:
  "comment_values ''DB1'' ''JAFFLES'' \<lparr>catalog = [], db = [], tbl_name = ''PEOPLE''\<rparr> ''the people'' =
     ''('DB1', 'JAFFLES', 'PEOPLE', 'the people')''"
  "comment_values ''DB1'' ''JAFFLES'' \<lparr>catalog = [], db = [], tbl_name = ''PEOPLE''\<rparr> ''all the people'' =
     ''('DB1', 'JAFFLES', 'PEOPLE', 'all the people')''"
  "length_values ''DB1'' ''JAFFLES'' \<lparr>catalog = [], db = [], tbl_name = ''PEOPLE''\<rparr> [(''NAME'', 50)] =
     ''('DB1', 'JAFFLES', 'PEOPLE', 'NAME', 50, 200)''"
  by (simp_all add: comment_values_def length_values_def quoted_def quote_def format_int_def
      digits.simps digit_char_def)

lemma example_read_values:
  "tables_ext_values ''('DB1', 'JAFFLES', 'PEOPLE', 'the people')'' =
     Some [((''DB1'', ''JAFFLES'', ''PEOPLE''), ''the people'')]"
  "tables_ext_values ''('DB1', 'JAFFLES', 'PEOPLE', 'all the people')'' =
     Some [((''DB1'', ''JAFFLES'', ''PEOPLE''), ''all the people'')]"
  "columns_ext_values ''('DB1', 'JAFFLES', 'PEOPLE', 'NAME', 50, 200)'' =
     Some [((''DB1'', ''JAFFLES'', ''PEOPLE'', ''NAME''), 50, 200)]"
proof -
  have q: "quote_free ''DB1''" "quote_free ''JAFFLES''"
    "quote_free (tbl_name \<lparr>catalog = [], db = [], tbl_name = ''PEOPLE''\<rparr>)"
    "quote_free ''the people''" "quote_free ''all the people''"
    by (simp_all add: quote_free_def quote_def)
  show "tables_ext_values ''('DB1', 'JAFFLES', 'PEOPLE', 'the people')'' =
     Some [((''DB1'', ''JAFFLES'', ''PEOPLE''), ''the people'')]"
    using tables_ext_values_comment [OF q(1,2,3,4)] by (simp add: example_values)
  show "tables_ext_values ''('DB1', 'JAFFLES', 'PEOPLE', 'all the people')'' =
     Some [((''DB1'', ''JAFFLES'', ''PEOPLE''), ''all the people'')]"
    using tables_ext_values_comment [OF q(1,2,3,5)] by (simp add: example_values)
  have "quote_free col" if "(col, n) \<in> set [(''NAME'', 50 :: int)]" for col n
    using that by (simp add: quote_free_def quote_def)
  from columns_ext_values_lengths [OF q(1,2,3) this, of "[(''NAME'', 50)]"]
  show "columns_ext_values ''('DB1', 'JAFFLES', 'PEOPLE', 'NAME', 50, 200)'' =
     Some [((''DB1'', ''JAFFLES'', ''PEOPLE'', ''NAME''), 50, 200)]"
    by (simp add: example_values)
qed

lemma rows_ready_duck:
  "tables_ext_rows (engine ready_duck) ''DB1'' = Some []"
  "columns_ext_rows (engine ready_duck) ''DB1'' = Some []"
  by (simp_all add: tables_ext_rows_def columns_ext_rows_def ready_duck_def)

lemma rows_people_duck:
  "tables_ext_rows (engine people_duck) ''DB1'' =
     Some [((''DB1'', ''JAFFLES'', ''PEOPLE''), ''the people'')]"
  "columns_ext_rows (engine people_duck) ''DB1'' =
     Some [((''DB1'', ''JAFFLES'', ''PEOPLE'', ''NAME''), 50, 200)]"
  by (simp_all add: tables_ext_rows_def columns_ext_rows_def people_duck_def)

lemma rows_commented_duck:
  "tables_ext_rows (engine commented_duck) ''DB1'' =
     Some [((''DB1'', ''JAFFLES'', ''PEOPLE''), ''all the people'')]"
  "columns_ext_rows (engine commented_duck) ''DB1'' =
     Some [((''DB1'', ''JAFFLES'', ''PEOPLE'', ''NAME''), 50, 200)]"
  by (simp_all add: tables_ext_rows_def columns_ext_rows_def commented_duck_def)

lemma example_expression_of:
  "expression_of example_env c
      (CommandStr ''create table people (name varchar(50), age int) comment = $$the people$$'') NoParams =
      Inr create_people"
  "expression_of example_env c
      (CommandStr ''comment on table people is $$all the people$$'') NoParams = Inr comment_people"
  by (simp_all add: expression_of_def rewrite_params_def example_env_def example_parse_def)

lemma example_engine_result:
  "engine_result example_env s create_people NoParams = (None, engine (duck_conn s))"
  "engine_result example_env s comment_people NoParams = (None, engine (duck_conn s))"
  "engine_result example_env s comment_its NoParams = (None, engine (duck_conn s))"
  "engine_result example_env s create_notes NoParams = (None, engine (duck_conn s))"
  by (simp_all add: engine_result_def example_transforms)
     (simp_all add: example_env_def example_run_def create_people_def comment_people_def
        comment_its_def create_notes_def its_def)

lemma example_annotations:
  "table_comment example_env create_people =
     Some (\<lparr>catalog = [], db = [], tbl_name = ''PEOPLE''\<rparr>, ''the people'')"
  "table_comment example_env comment_people =
     Some (\<lparr>catalog = [], db = [], tbl_name = ''PEOPLE''\<rparr>, ''all the people'')"
  "text_lengths example_env create_people = Some [(''NAME'', 50)]"
  "text_lengths example_env comment_people = None"
  "find_table example_env create_people = Some \<lparr>catalog = [], db = [], tbl_name = ''PEOPLE''\<rparr>"
  "use_statement example_env create_people c = c"
  "use_statement example_env comment_people c = c"
  by (simp_all add: example_env_def create_people_def comment_people_def use_statement_def)

lemma example_table_key:
  "table_key (conn session_ready) \<lparr>catalog = [], db = [], tbl_name = n\<rparr> = (''DB1'', ''JAFFLES'', n)"
  by (simp add: table_key_def conn_session_ready py_or_def)

lemma example_call_comment:
  assumes "conn s = conn session_ready"
  shows "call_comment example_env s
      (CommandStr ''create table people (name varchar(50), age int) comment = $$the people$$'') NoParams =
      [((''DB1'', ''JAFFLES'', ''PEOPLE''), ''the people'')]"
    and "call_comment example_env s
      (CommandStr ''comment on table people is $$all the people$$'') NoParams =
      [((''DB1'', ''JAFFLES'', ''PEOPLE''), ''all the people'')]"
    and "call_lengths example_env s
      (CommandStr ''create table people (name varchar(50), age int) comment = $$the people$$'') NoParams =
      [((''DB1'', ''JAFFLES'', ''PEOPLE'', ''NAME''), 50, 200)]"
    and "call_lengths example_env s
      (CommandStr ''comment on table people is $$all the people$$'') NoParams = []"
  by (simp_all add: call_comment_def call_lengths_def example_expression_of example_transforms assms
        example_annotations example_table_key text_length_rows_def)

lemma example_create_people:
  "execute example_env session_ready
     (CommandStr ''create table people (name varchar(50), age int) comment = $$the people$$'') NoParams =
     (None, session_ready\<lparr>arrow_table := None,
        last_sql := Some ''CREATE TABLE PEOPLE (NAME TEXT, AGE BIGINT)'', last_params := NoParams,
        duck_conn := people_duck\<rparr>)"
proof -
  have h1: "expression_of example_env (conn session_ready)
      (CommandStr ''create table people (name varchar(50), age int) comment = $$the people$$'') NoParams =
      Inr create_people"
    by (simp add: expression_of_def rewrite_params_def example_env_def example_parse_def)
  have h2: "session_check (conn session_ready) (key_command example_env create_people)
        (is_unqualified_table_expression example_env create_people) = None"
    by (simp add: conn_session_ready session_check_def example_env_def create_people_def)
  have h3: "engine_result example_env session_ready create_people NoParams = (None, engine ready_duck)"
    by (simp add: engine_result_def example_transforms duck_conn_session_ready)
       (simp add: example_env_def example_run_def create_people_def)
  have u: "use_statement example_env create_people c = c" for c
    by (simp add: use_statement_def example_env_def create_people_def)
  have q: "to_sql example_env create_people = ''CREATE TABLE PEOPLE (NAME TEXT, AGE BIGINT)''"
    by (simp add: example_env_def create_people_def)
  have a: "after_create_database example_env create_people dc = (None, dc)"
    for dc :: "unit duck_connection"
    by (simp add: after_create_database_def example_env_def create_people_def)
  have b: "record_table_comment example_env create_people (conn session_ready)
      (ready_duck\<lparr>received := [Statement ''CREATE TABLE PEOPLE (NAME TEXT, AGE BIGINT)'' NoParams]\<rparr>) =
      (None, \<lparr>engine = \<lparr>catalogs = (\<lambda>c. if c = ''DB1''
                   then Some [(''tables_ext'', TablesExt [((''DB1'', ''JAFFLES'', ''PEOPLE''), ''the people'')]),
                              (''columns_ext'', ColumnsExt []),
                              (''columns_snowflake'', ColumnsView)]
                   else None), rest = ()\<rparr>,
         received = [Statement ''CREATE TABLE PEOPLE (NAME TEXT, AGE BIGINT)'' NoParams,
           InsertTablesExt ''DB1'' ''('DB1', 'JAFFLES', 'PEOPLE', 'the people')'']\<rparr>)"
    by (simp add: record_table_comment_def Let_def conn_session_ready py_or_def example_values
        duck_execute_insert(1) [OF example_read_values(1)]
        insert_tables_ext_def insert_on_conflict_def replace_relation_def example_env_def
        create_people_def ready_duck_def fun_eq_iff)
  have c: "record_text_lengths example_env create_people (conn session_ready)
      \<lparr>engine = \<lparr>catalogs = (\<lambda>c. if c = ''DB1''
                   then Some [(''tables_ext'', TablesExt [((''DB1'', ''JAFFLES'', ''PEOPLE''), ''the people'')]),
                              (''columns_ext'', ColumnsExt []),
                              (''columns_snowflake'', ColumnsView)]
                   else None), rest = ()\<rparr>,
         received = [Statement ''CREATE TABLE PEOPLE (NAME TEXT, AGE BIGINT)'' NoParams,
           InsertTablesExt ''DB1'' ''('DB1', 'JAFFLES', 'PEOPLE', 'the people')'']\<rparr> =
      (None, people_duck)"
    by (simp add: record_text_lengths_def Let_def conn_session_ready py_or_def example_values
        duck_execute_insert(2) [OF example_read_values(3)]
        insert_columns_ext_def insert_on_conflict_def replace_relation_def
        is_integer_def example_env_def create_people_def people_duck_def fun_eq_iff)
  show ?thesis
    by (simp add: execute_accepted [OF h1 h2 h3] example_transforms a u q duck_conn_session_ready)
       (simp add: ready_duck_def b [unfolded ready_duck_def, simplified] c)
qed

lemma example_comment_people:
  assumes "conn s = conn session_ready" and "duck_conn s = people_duck"
  shows "execute example_env s (CommandStr ''comment on table people is $$all the people$$'') NoParams =
     (None, s\<lparr>arrow_table := None,
        last_sql := Some ''COMMENT ON TABLE PEOPLE IS $$all the people$$'', last_params := NoParams,
        duck_conn := commented_duck\<rparr>)"
proof -
  have h1: "expression_of example_env (conn s)
      (CommandStr ''comment on table people is $$all the people$$'') NoParams = Inr comment_people"
    by (simp add: expression_of_def rewrite_params_def example_env_def example_parse_def)
  have h2: "session_check (conn s) (key_command example_env comment_people)
        (is_unqualified_table_expression example_env comment_people) = None"
    by (simp add: assms conn_session_ready session_check_def example_env_def comment_people_def)
  have h3: "engine_result example_env s comment_people NoParams = (None, engine people_duck)"
    by (simp add: engine_result_def example_transforms assms)
       (simp add: example_env_def example_run_def comment_people_def)
  have u: "use_statement example_env comment_people c = c" for c
    by (simp add: use_statement_def example_env_def comment_people_def)
  have q: "to_sql example_env comment_people = ''COMMENT ON TABLE PEOPLE IS $$all the people$$''"
    by (simp add: example_env_def comment_people_def)
  have a: "after_create_database example_env comment_people dc = (None, dc)"
    "record_text_lengths example_env comment_people c dc = (None, dc)"
    for c and dc :: "unit duck_connection"
    by (simp_all add: after_create_database_def record_text_lengths_def example_env_def
        comment_people_def)
  have b: "record_table_comment example_env comment_people (conn session_ready)
      (people_duck\<lparr>received := received people_duck @
         [Statement ''COMMENT ON TABLE PEOPLE IS $$all the people$$'' NoParams]\<rparr>) =
      (None, commented_duck)"
    by (simp add: record_table_comment_def Let_def conn_session_ready py_or_def example_values
        duck_execute_insert(1) [OF example_read_values(2)]
        insert_tables_ext_def insert_on_conflict_def replace_relation_def example_env_def
        comment_people_def people_duck_def commented_duck_def fun_eq_iff)
  show ?thesis
    by (simp add: execute_accepted [OF h1 h2 h3] example_transforms a u q assms b)
qed

lemma example_calls_run:
  "execute_all example_env session_ready example_calls =
     (None, session_ready\<lparr>arrow_table := None,
        last_sql := Some ''COMMENT ON TABLE PEOPLE IS $$all the people$$'', last_params := NoParams,
        duck_conn := commented_duck\<rparr>)"
  "statements_keep example_env ''DB1'' session_ready example_calls"
  "supplied_comments example_env session_ready example_calls =
     [((''DB1'', ''JAFFLES'', ''PEOPLE''), ''the people''),
      ((''DB1'', ''JAFFLES'', ''PEOPLE''), ''all the people'')]"
  "supplied_lengths example_env session_ready example_calls =
     [((''DB1'', ''JAFFLES'', ''PEOPLE'', ''NAME''), 50, 200)]"
proof -
  define s where "s = session_ready\<lparr>arrow_table := None,
        last_sql := Some ''CREATE TABLE PEOPLE (NAME TEXT, AGE BIGINT)'', last_params := NoParams,
        duck_conn := people_duck\<rparr>"
  have s: "conn s = conn session_ready" "duck_conn s = people_duck"
    by (simp_all add: s_def)
  note first = example_create_people [folded s_def]
  note second = example_comment_people [OF s]
  show "execute_all example_env session_ready example_calls =
     (None, session_ready\<lparr>arrow_table := None,
        last_sql := Some ''COMMENT ON TABLE PEOPLE IS $$all the people$$'', last_params := NoParams,
        duck_conn := commented_duck\<rparr>)"
    by (simp add: example_calls_def first second) (simp add: s_def)
  show "statements_keep example_env ''DB1'' session_ready example_calls"
    by (simp add: example_calls_def statement_keeps_def example_expression_of example_engine_result
        first second)
  show "supplied_comments example_env session_ready example_calls =
     [((''DB1'', ''JAFFLES'', ''PEOPLE''), ''the people''),
      ((''DB1'', ''JAFFLES'', ''PEOPLE''), ''all the people'')]"
    by (simp add: example_calls_def first second example_call_comment [OF refl]
        example_call_comment [OF s(1)])
  show "supplied_lengths example_env session_ready example_calls =
     [((''DB1'', ''JAFFLES'', ''PEOPLE'', ''NAME''), 50, 200)]"
    by (simp add: example_calls_def first second example_call_comment [OF refl]
        example_call_comment [OF s(1)])
qed

text \<open>
  A text with two single quotes between the quotes of a literal is read as a text with
  one, so the comment and the column name of the two last examples are stored as
  \<^verbatim>\<open>it's\<close>.
\<close>

lemma its_values:
  "tables_ext_values
     (comment_values ''DB1'' ''JAFFLES'' \<lparr>catalog = [], db = [], tbl_name = ''PEOPLE''\<rparr> its) =
     Some [((''DB1'', ''JAFFLES'', ''PEOPLE''), ''it's'')]"
  "columns_ext_values
     (length_values ''DB1'' ''JAFFLES'' \<lparr>catalog = [], db = [], tbl_name = ''NOTES''\<rparr> [(its, 50)]) =
     Some [((''DB1'', ''JAFFLES'', ''NOTES'', ''it's''), 50, 200)]"
  "its \<noteq> ''it's''"
  "\<not> quote_free its"
  by code_simp+

lemma example_insert_ready:
  "insert_tables_ext ''DB1'' [(k, v)] (engine ready_duck) =
     Inr ((engine ready_duck)\<lparr>catalogs := (catalogs (engine ready_duck))
       (''DB1'' \<mapsto> [(''tables_ext'', TablesExt [(k, v)]), (''columns_ext'', ColumnsExt []),
                      (''columns_snowflake'', ColumnsView)])\<rparr>)"
  "is_integer m \<Longrightarrow> is_integer n \<Longrightarrow>
   insert_columns_ext ''DB1'' [(k', m, n)] (engine ready_duck) =
     Inr ((engine ready_duck)\<lparr>catalogs := (catalogs (engine ready_duck))
       (''DB1'' \<mapsto> [(''tables_ext'', TablesExt []), (''columns_ext'', ColumnsExt [(k', m, n)]),
                      (''columns_snowflake'', ColumnsView)])\<rparr>)"
  by (simp_all add: insert_tables_ext_def insert_columns_ext_def insert_on_conflict_def
      replace_relation_def ready_duck_def)

lemma example_its_annotations:
  "table_comment example_env comment_its =
     Some (\<lparr>catalog = [], db = [], tbl_name = ''PEOPLE''\<rparr>, its)"
  "text_lengths example_env comment_its = None"
  "create_db_name example_env comment_its = None"
  "use_statement example_env comment_its c = c"
  "key_command example_env comment_its = ''COMMENT''"
  "is_unqualified_table_expression example_env comment_its = (True, True)"
  "table_comment example_env create_notes = None"
  "text_lengths example_env create_notes = Some [(its, 50)]"
  "find_table example_env create_notes = Some \<lparr>catalog = [], db = [], tbl_name = ''NOTES''\<rparr>"
  "create_db_name example_env create_notes = None"
  "use_statement example_env create_notes c = c"
  "key_command example_env create_notes = ''CREATE TABLE''"
  "is_unqualified_table_expression example_env create_notes = (True, True)"
  by (simp_all add: example_env_def comment_its_def create_notes_def use_statement_def)

lemma example_comment_its:
  "fst (execute example_env session_ready (CommandExpr comment_its) NoParams) = None"
  "tables_ext_rows (engine (duck_conn (snd (execute example_env session_ready (CommandExpr comment_its)
      NoParams)))) ''DB1'' = Some [((''DB1'', ''JAFFLES'', ''PEOPLE''), ''it's'')]"
proof -
  have h1: "expression_of example_env (conn session_ready) (CommandExpr comment_its) NoParams =
      Inr comment_its"
    by (simp add: expression_of_def)
  have h2: "session_check (conn session_ready) (key_command example_env comment_its)
        (is_unqualified_table_expression example_env comment_its) = None"
    by (simp add: conn_session_ready session_check_def example_its_annotations)
  have h3: "engine_result example_env session_ready comment_its NoParams = (None, engine ready_duck)"
    by (simp add: example_engine_result duck_conn_session_ready)
  have a: "after_create_database example_env comment_its dc = (None, dc)"
    "record_text_lengths example_env comment_its c dc = (None, dc)"
    for c and dc :: "unit duck_connection"
    by (simp_all add: after_create_database_def record_text_lengths_def example_its_annotations)
  have b: "record_table_comment example_env comment_its (conn session_ready) dc =
      (case insert_tables_ext ''DB1'' [((''DB1'', ''JAFFLES'', ''PEOPLE''), ''it's'')] (engine dc) of
         Inl err \<Rightarrow> (Some (DuckDBError err), dc\<lparr>received := received dc @ [InsertTablesExt ''DB1''
           (comment_values ''DB1'' ''JAFFLES'' \<lparr>catalog = [], db = [], tbl_name = ''PEOPLE''\<rparr> its)]\<rparr>)
       | Inr eng \<Rightarrow> (None, dc\<lparr>received := received dc @ [InsertTablesExt ''DB1''
           (comment_values ''DB1'' ''JAFFLES'' \<lparr>catalog = [], db = [], tbl_name = ''PEOPLE''\<rparr> its)],
           engine := eng\<rparr>))"
    for dc :: "unit duck_connection"
    by (simp add: record_table_comment_def Let_def conn_session_ready py_or_def example_its_annotations
        duck_execute_insert(1) [OF its_values(1)] split: sum.splits)
  note run = execute_accepted [OF h1 h2 h3]
  show "fst (execute example_env session_ready (CommandExpr comment_its) NoParams) = None"
    by (simp add: run example_transforms a b example_its_annotations duck_conn_session_ready
        example_insert_ready)
  show "tables_ext_rows (engine (duck_conn (snd (execute example_env session_ready (CommandExpr comment_its)
      NoParams)))) ''DB1'' = Some [((''DB1'', ''JAFFLES'', ''PEOPLE''), ''it's'')]"
    by (simp add: run example_transforms a b example_its_annotations duck_conn_session_ready
        example_insert_ready tables_ext_rows_def)
qed

lemma example_create_notes:
  "fst (execute example_env session_ready (CommandExpr create_notes) NoParams) = None"
  "columns_ext_rows (engine (duck_conn (snd (execute example_env session_ready (CommandExpr create_notes)
      NoParams)))) ''DB1'' = Some [((''DB1'', ''JAFFLES'', ''NOTES'', ''it's''), 50, 200)]"
proof -
  have h1: "expression_of example_env (conn session_ready) (CommandExpr create_notes) NoParams =
      Inr create_notes"
    by (simp add: expression_of_def)
  have h2: "session_check (conn session_ready) (key_command example_env create_notes)
        (is_unqualified_table_expression example_env create_notes) = None"
    by (simp add: conn_session_ready session_check_def example_its_annotations)
  have h3: "engine_result example_env session_ready create_notes NoParams = (None, engine ready_duck)"
    by (simp add: example_engine_result duck_conn_session_ready)
  have a: "after_create_database example_env create_notes dc = (None, dc)"
    "record_table_comment example_env create_notes c dc = (None, dc)"
    for c and dc :: "unit duck_connection"
    by (simp_all add: after_create_database_def record_table_comment_def example_its_annotations)
  have b: "record_text_lengths example_env create_notes (conn session_ready) dc =
      (case insert_columns_ext ''DB1'' [((''DB1'', ''JAFFLES'', ''NOTES'', ''it's''), 50, 200)] (engine dc) of
         Inl err \<Rightarrow> (Some (DuckDBError err), dc\<lparr>received := received dc @ [InsertColumnsExt ''DB1''
           (length_values ''DB1'' ''JAFFLES'' \<lparr>catalog = [], db = [], tbl_name = ''NOTES''\<rparr> [(its, 50)])]\<rparr>)
       | Inr eng \<Rightarrow> (None, dc\<lparr>received := received dc @ [InsertColumnsExt ''DB1''
           (length_values ''DB1'' ''JAFFLES'' \<lparr>catalog = [], db = [], tbl_name = ''NOTES''\<rparr> [(its, 50)])],
           engine := eng\<rparr>))"
    for dc :: "unit duck_connection"
    by (simp add: record_text_lengths_def Let_def conn_session_ready py_or_def example_its_annotations
        duck_execute_insert(2) [OF its_values(2)] split: sum.splits)
  note run = execute_accepted [OF h1 h2 h3]
  show "fst (execute example_env session_ready (CommandExpr create_notes) NoParams) = None"
    by (simp add: run example_transforms a b example_its_annotations duck_conn_session_ready
        example_insert_ready is_integer_def)
  show "columns_ext_rows (engine (duck_conn (snd (execute example_env session_ready (CommandExpr create_notes)
      NoParams)))) ''DB1'' = Some [((''DB1'', ''JAFFLES'', ''NOTES'', ''it's''), 50, 200)]"
    by (simp add: run example_transforms a b example_its_annotations duck_conn_session_ready
        example_insert_ready is_integer_def columns_ext_rows_def)
qed

text \<open>
  A comment with one single quote, \<^verbatim>\<open>it's ours\<close>: what the cursor sends is no insert of rows
  of literals, the example engine raises on it, and \<^verbatim>\<open>execute\<close> ends with the engine's
  exception before the text length is recorded.
\<close>

lemma example_run_insert:
  "example_run eng (tables_ext_insert c values) ps = (Some (ParserException ''Parser Error: syntax error''), eng)"
  "example_run eng (columns_ext_insert c values) ps = (Some (ParserException ''Parser Error: syntax error''), eng)"
proof -
  have "startswith (tables_ext_insert c values) ''\<newline>                INSERT INTO ''"
    "startswith (columns_ext_insert c values) ''\<newline>                INSERT INTO ''"
    unfolding tables_ext_insert_def columns_ext_insert_def by (rule startswith_append)+
  moreover have "tables_ext_insert c values \<noteq> ''SELECT * FROM MISSING''"
    "tables_ext_insert c values \<noteq> ''SELECT AGE FROM PEOPLE''"
    "columns_ext_insert c values \<noteq> ''SELECT * FROM MISSING''"
    "columns_ext_insert c values \<noteq> ''SELECT AGE FROM PEOPLE''"
    by (simp_all add: tables_ext_insert_def columns_ext_insert_def)
  ultimately show
    "example_run eng (tables_ext_insert c values) ps = (Some (ParserException ''Parser Error: syntax error''), eng)"
    "example_run eng (columns_ext_insert c values) ps = (Some (ParserException ''Parser Error: syntax error''), eng)"
    by (simp_all add: example_run_def)
qed

lemma ours_values:
  "tables_ext_values
     (comment_values ''DB1'' ''JAFFLES'' \<lparr>catalog = [], db = [], tbl_name = ''TEAM''\<rparr> ''it's ours'') = None"
  by code_simp

lemma example_create_team:
  "fst (execute example_env session_ready (CommandExpr create_team) NoParams) =
     Some (DuckDBError (ParserException ''Parser Error: syntax error''))"
  "tables_ext_rows (engine (duck_conn (snd (execute example_env session_ready (CommandExpr create_team)
      NoParams)))) ''DB1'' = Some []"
  "columns_ext_rows (engine (duck_conn (snd (execute example_env session_ready (CommandExpr create_team)
      NoParams)))) ''DB1'' = Some []"
proof -
  have h1: "expression_of example_env (conn session_ready) (CommandExpr create_team) NoParams =
      Inr create_team"
    by (simp add: expression_of_def)
  have n: "table_comment example_env create_team =
      Some (\<lparr>catalog = [], db = [], tbl_name = ''TEAM''\<rparr>, ''it's ours'')"
    "create_db_name example_env create_team = None"
    "use_statement example_env create_team c = c"
    "key_command example_env create_team = ''CREATE TABLE''"
    "is_unqualified_table_expression example_env create_team = (True, True)"
    "to_sql example_env create_team = ''CREATE TABLE TEAM (NAME TEXT)''" for c
    by (simp_all add: example_env_def create_team_def use_statement_def)
  have h2: "session_check (conn session_ready) (key_command example_env create_team)
        (is_unqualified_table_expression example_env create_team) = None"
    by (simp add: conn_session_ready session_check_def n)
  have h3: "engine_result example_env session_ready create_team NoParams = (None, engine ready_duck)"
    by (simp add: engine_result_def example_transforms n duck_conn_session_ready)
       (simp add: example_env_def example_run_def)
  have a: "after_create_database example_env create_team dc = (None, dc)"
    for dc :: "unit duck_connection"
    by (simp add: after_create_database_def n)
  have r: "run_statement example_env = example_run"
    by (simp add: example_env_def)
  have b: "record_table_comment example_env create_team (conn session_ready) dc =
      (Some (DuckDBError (ParserException ''Parser Error: syntax error'')),
       dc\<lparr>received := received dc @ [InsertTablesExt ''DB1''
           (comment_values ''DB1'' ''JAFFLES'' \<lparr>catalog = [], db = [], tbl_name = ''TEAM''\<rparr> ''it's ours'')]\<rparr>)"
    for dc :: "unit duck_connection"
    by (simp add: record_table_comment_def Let_def conn_session_ready py_or_def n
        duck_execute_unread(1) [OF ours_values] r example_run_insert)
  note run = execute_accepted [OF h1 h2 h3]
  show "fst (execute example_env session_ready (CommandExpr create_team) NoParams) =
     Some (DuckDBError (ParserException ''Parser Error: syntax error''))"
    by (simp add: run example_transforms a b n)
  show "tables_ext_rows (engine (duck_conn (snd (execute example_env session_ready (CommandExpr create_team)
      NoParams)))) ''DB1'' = Some []"
    by (simp add: run example_transforms a b n duck_conn_session_ready rows_ready_duck)
  show "columns_ext_rows (engine (duck_conn (snd (execute example_env session_ready (CommandExpr create_team)
      NoParams)))) ''DB1'' = Some []"
    by (simp add: run example_transforms a b n duck_conn_session_ready rows_ready_duck)
qed

subsection \<open>Session context errors\<close>

text \<open>
  C1. When the parsed tree of the statement refers to a table that needs a database
  (\<^verbatim>\<open>no_database\<close> of \<^verbatim>\<open>is_unqualified_table_expression\<close>) and \<^verbatim>\<open>database_set\<close> is false,
  \<^verbatim>\<open>execute\<close> raises \<^verbatim>\<open>ProgrammingError\<close> with errno 90105 and sqlstate 22000. The state
  it leaves is the state it found but for the cleared arrow table: the engine and the list
  of statements sent to it are the same, so no SQL was emitted or run, and so is the
  session context.
\<close>

theorem execute_without_database:
  assumes "expression_of env (conn s) command ps = Inr e"
    and "fst (is_unqualified_table_expression env e)"
    and "\<not> database_set (conn s)"
  shows "execute env s command ps =
     (Some (ProgrammingError
        (''Cannot perform '' @ key_command env e @ ''. This session does not have a current database. Call 'USE DATABASE', or use a qualified name.'')
        90105 ''22000''), s\<lparr>arrow_table := None\<rparr>)
   \<and> duck_conn (snd (execute env s command ps)) = duck_conn s
   \<and> conn (snd (execute env s command ps)) = conn s"
proof -
  have "session_check (conn s) (key_command env e) (is_unqualified_table_expression env e) =
     Some (ProgrammingError
        (''Cannot perform '' @ key_command env e @ ''. This session does not have a current database. Call 'USE DATABASE', or use a qualified name.'')
        90105 ''22000'')"
    using assms(2,3) by (cases "is_unqualified_table_expression env e") (simp add: session_check_def)
  from execute_session_check [OF assms(1) this] show ?thesis by simp
qed


text \<open>
  A session opened without a database, and a query of the table \<^verbatim>\<open>people\<close>.
\<close>

theorem execute_without_database_witness:
  "expression_of example_env (conn session_unset) (CommandStr ''select * from people'') NoParams =
     Inr select_people
   \<and> fst (is_unqualified_table_expression example_env select_people)
   \<and> \<not> database_set (conn session_unset)
   \<and> fst (execute example_env session_unset (CommandStr ''select * from people'') NoParams) =
       Some (ProgrammingError
         ''Cannot perform SELECT. This session does not have a current database. Call 'USE DATABASE', or use a qualified name.''
         90105 ''22000'')
   \<and> received (duck_conn (snd (execute example_env session_unset
         (CommandStr ''select * from people'') NoParams))) = []"
proof -
  have h1: "expression_of example_env (conn session_unset) (CommandStr ''select * from people'') NoParams =
     Inr select_people"
    by (rule example_select_people)
  have h2: "fst (is_unqualified_table_expression example_env select_people)"
    by (simp add: example_env_def select_people_def)
  have h3: "\<not> database_set (conn session_unset)"
    by (simp add: session_unset_def cursor_def new_connection_def)
  have k: "key_command example_env select_people = ''SELECT''"
    by (simp add: example_env_def select_people_def)
  have r: "received (duck_conn session_unset) = []"
    by (simp add: session_unset_def cursor_def ready_duck_def)
  from execute_without_database [OF h1 h2 h3] h1 h2 h3 show ?thesis
    by (simp add: k r)
qed

text \<open>
  C2. When the parsed tree refers to a table that needs a schema (\<^verbatim>\<open>no_schema\<close>), the
  session has its database set and \<^verbatim>\<open>schema_set\<close> is false, \<^verbatim>\<open>execute\<close> raises
  \<^verbatim>\<open>ProgrammingError\<close> with errno 90106 and sqlstate 22000 and leaves the engine and the
  session context as they were; the exception is not one with errno 90105, whatever its
  message.
\<close>

theorem execute_without_schema:
  assumes "expression_of env (conn s) command ps = Inr e"
    and "snd (is_unqualified_table_expression env e)"
    and "database_set (conn s)"
    and "\<not> schema_set (conn s)"
  shows "execute env s command ps =
     (Some (ProgrammingError
        (''Cannot perform '' @ key_command env e @ ''. This session does not have a current schema. Call 'USE SCHEMA', or use a qualified name.'')
        90106 ''22000''), s\<lparr>arrow_table := None\<rparr>)
   \<and> duck_conn (snd (execute env s command ps)) = duck_conn s
   \<and> conn (snd (execute env s command ps)) = conn s
   \<and> fst (execute env s command ps) \<noteq> Some (ProgrammingError m 90105 st)"
proof -
  have "session_check (conn s) (key_command env e) (is_unqualified_table_expression env e) =
     Some (ProgrammingError
        (''Cannot perform '' @ key_command env e @ ''. This session does not have a current schema. Call 'USE SCHEMA', or use a qualified name.'')
        90106 ''22000'')"
    using assms(2,3,4) by (cases "is_unqualified_table_expression env e") (simp add: session_check_def)
  from execute_session_check [OF assms(1) this] show ?thesis by simp
qed

text \<open>The same query in a session whose database is in use and whose schema is not.\<close>

theorem execute_without_schema_witness:
  "expression_of example_env (conn session_database) (CommandStr ''select * from people'') NoParams =
     Inr select_people
   \<and> snd (is_unqualified_table_expression example_env select_people)
   \<and> database_set (conn session_database)
   \<and> \<not> schema_set (conn session_database)
   \<and> fst (execute example_env session_database (CommandStr ''select * from people'') NoParams) =
       Some (ProgrammingError
         ''Cannot perform SELECT. This session does not have a current schema. Call 'USE SCHEMA', or use a qualified name.''
         90106 ''22000'')
   \<and> received (duck_conn (snd (execute example_env session_database
         (CommandStr ''select * from people'') NoParams))) = []"
proof -
  have h1: "expression_of example_env (conn session_database) (CommandStr ''select * from people'') NoParams =
     Inr select_people"
    by (rule example_select_people)
  have h2: "snd (is_unqualified_table_expression example_env select_people)"
    by (simp add: example_env_def select_people_def)
  have h3: "database_set (conn session_database)"
    by (simp add: session_database_def cursor_def new_connection_def)
  have h4: "\<not> schema_set (conn session_database)"
    by (simp add: session_database_def cursor_def new_connection_def)
  have k: "key_command example_env select_people = ''SELECT''"
    by (simp add: example_env_def select_people_def)
  have r: "received (duck_conn session_database) = []"
    by (simp add: session_database_def cursor_def ready_duck_def)
  from execute_without_schema [OF h1 h2 h3 h4] h1 h2 h3 h4 show ?thesis
    by (simp add: k r)
qed

subsection \<open>The result metadata of a describe row\<close>

text \<open>
  The search finds the two groups of a type written \<^verbatim>\<open>DECIMAL(p,s)\<close>: no match starts at
  one of the letters, and the match at the bracket takes both runs of digits whole.
\<close>

lemma is_digit_simps: "\<not> is_digit (CHR '','')" "\<not> is_digit (CHR '')'')" "\<not> is_digit (CHR ''('')"
  by (simp_all add: is_digit_def)

lemma match_here_groups:
  assumes "g1 \<noteq> []" "list_all is_digit g1" "g2 \<noteq> []" "list_all is_digit g2"
  shows "match_here (CHR ''('' # g1 @ CHR '','' # g2 @ CHR '')'' # r) = Some (g1, g2)"
proof -
  have t1: "takeWhile is_digit (g1 @ CHR '','' # g2 @ CHR '')'' # r) = g1"
    using assms(2) by (simp add: list_all_iff takeWhile_append2 is_digit_simps)
  have d1: "dropWhile is_digit (g1 @ CHR '','' # g2 @ CHR '')'' # r) = CHR '','' # g2 @ CHR '')'' # r"
    using assms(2) by (simp add: list_all_iff dropWhile_append2 is_digit_simps)
  have t2: "takeWhile is_digit (g2 @ CHR '')'' # r) = g2"
    using assms(4) by (simp add: list_all_iff takeWhile_append2 is_digit_simps)
  have d2: "dropWhile is_digit (g2 @ CHR '')'' # r) = CHR '')'' # r"
    using assms(4) by (simp add: list_all_iff dropWhile_append2 is_digit_simps)
  show ?thesis
    using assms(1,3) by (simp add: match_here_def t1 d1 t2 d2)
qed

lemma match_here_not_bracket: "c \<noteq> CHR ''('' \<Longrightarrow> match_here (c # cs) = None"
  by (simp add: match_here_def)

lemma re_search_decimal:
  assumes "g1 \<noteq> []" "list_all is_digit g1" "g2 \<noteq> []" "list_all is_digit g2"
  shows "re_search (''DECIMAL('' @ g1 @ '','' @ g2 @ '')'') = Some (g1, g2)"
  using match_here_groups [OF assms, of "[]"]
  by (simp add: match_here_not_bracket)






lemma describe_as_result_metadata_iff:
  "describe_as_result_metadata rows = Inr ms \<longleftrightarrow>
     map (\<lambda>(n, ty, u). as_result_metadata n ty) rows = map Inr ms"
proof (induction rows arbitrary: ms)
  case Nil
  show ?case by auto
next
  case (Cons row rows)
  obtain n ty null k d x where row: "row = (n, ty, null, k, d, x)"
    by (cases row) auto
  show ?case
  proof (cases "as_result_metadata n ty")
    case (Inl err)
    then show ?thesis using row by (cases ms) auto
  next
    case (Inr m)
    show ?thesis
    proof (cases ms)
      case Nil
      then show ?thesis using row Inr by (simp split: sum.splits)
    next
      case (Cons m' ms')
      have "describe_as_result_metadata rows = Inr ms' \<longleftrightarrow>
              map (\<lambda>(n, ty, u). as_result_metadata n ty) rows = map Inr ms'"
        by (rule Cons.IH)
      then show ?thesis using row Inr Cons by (auto split: sum.splits)
    qed
  qed
qed



lemma as_result_metadata_decimal:
  assumes "g1 \<noteq> []" "list_all is_digit g1" "g2 \<noteq> []" "list_all is_digit g2"
  shows "as_result_metadata n (''DECIMAL('' @ g1 @ '','' @ g2 @ '')'') =
          Inr \<lparr>name = n, type_code = 0, display_size = None, internal_size = None,
               precision = Some (int_of_digits g1), scale = Some (int_of_digits g2),
               is_nullable = True\<rparr>"
  using re_search_decimal [OF assms] by (simp add: as_result_metadata_def)

lemma as_result_metadata_startswith_decimal:
  assumes "startswith ty ''DECIMAL''"
  shows "as_result_metadata n ty =
          Inr \<lparr>name = n, type_code = 0, display_size = None, internal_size = None,
               precision = map_option (int_of_digits \<circ> fst) (re_search ty),
               scale = map_option (int_of_digits \<circ> snd) (re_search ty), is_nullable = True\<rparr>"
proof -
  have "ty \<noteq> ''BIGINT''" using assms by auto
  then show ?thesis using assms
    by (cases "re_search ty") (auto simp: as_result_metadata_def)
qed

lemma as_result_metadata_other:
  assumes "\<not> startswith ty ''DECIMAL''"
    and "ty \<notin> {''BIGINT'', ''VARCHAR'', ''DOUBLE'', ''BOOLEAN'', ''DATE'', ''TIMESTAMP'', ''TIMESTAMP_NS''}"
  shows "as_result_metadata n ty = Inl (NotImplementedError (''for column type '' @ ty))"
  using assms by (simp add: as_result_metadata_def)

lemma as_result_metadata_fixed:
    "as_result_metadata n ''BIGINT'' =
      Inr \<lparr>name = n, type_code = 0, display_size = None, internal_size = None,
           precision = Some 38, scale = Some 0, is_nullable = True\<rparr>"
    "as_result_metadata n ''VARCHAR'' =
        Inr \<lparr>name = n, type_code = 2, display_size = None, internal_size = Some 16777216,
             precision = None, scale = None, is_nullable = True\<rparr>"
    "as_result_metadata n ''DOUBLE'' =
        Inr \<lparr>name = n, type_code = 1, display_size = None, internal_size = None,
             precision = None, scale = None, is_nullable = True\<rparr>"
    "as_result_metadata n ''BOOLEAN'' =
        Inr \<lparr>name = n, type_code = 13, display_size = None, internal_size = None,
             precision = None, scale = None, is_nullable = True\<rparr>"
    "as_result_metadata n ''DATE'' =
        Inr \<lparr>name = n, type_code = 3, display_size = None, internal_size = None,
             precision = None, scale = None, is_nullable = True\<rparr>"
    "as_result_metadata n ''TIMESTAMP'' =
        Inr \<lparr>name = n, type_code = 8, display_size = None, internal_size = None,
             precision = Some 0, scale = Some 9, is_nullable = True\<rparr>"
    "as_result_metadata n ''TIMESTAMP_NS'' =
        Inr \<lparr>name = n, type_code = 8, display_size = None, internal_size = None,
             precision = Some 0, scale = Some 9, is_nullable = True\<rparr>"
  by (simp_all add: as_result_metadata_def)


text \<open>
  C3, as amended. \<^verbatim>\<open>as_result_metadata\<close> maps \<^verbatim>\<open>BIGINT\<close> to type code 0 with precision 38 and
  scale 0; a type written \<^verbatim>\<open>DECIMAL(p,s)\<close> to type code 0 with the precision and scale that
  its digits denote; \<^verbatim>\<open>VARCHAR\<close> to type code 2 with internal size 16777216; \<^verbatim>\<open>DOUBLE\<close> to
  1, \<^verbatim>\<open>BOOLEAN\<close> to 13, \<^verbatim>\<open>DATE\<close> to 3, \<^verbatim>\<open>TIMESTAMP\<close> and \<^verbatim>\<open>TIMESTAMP_NS\<close> to 8 with
  precision 0 and scale 9. The decimal case is taken by every type string that starts
  with \<^verbatim>\<open>DECIMAL\<close>: it gives type code 0, with the precision and scale of the first group
  \<^verbatim>\<open>(digits,digits)\<close> in the string, and with neither when the string has no such group.
  Every type string that does not start with \<^verbatim>\<open>DECIMAL\<close> and is none of the seven other
  names raises \<^verbatim>\<open>NotImplementedError\<close>. A list of describe rows is mapped row by row, and
  gives a list of descriptors exactly when every row is mapped.
\<close>

theorem describe_result_metadata_table:
  "as_result_metadata n ''BIGINT'' =
      Inr \<lparr>name = n, type_code = 0, display_size = None, internal_size = None,
           precision = Some 38, scale = Some 0, is_nullable = True\<rparr>
   \<and> (g1 \<noteq> [] \<and> list_all is_digit g1 \<and> g2 \<noteq> [] \<and> list_all is_digit g2 \<longrightarrow>
        as_result_metadata n (''DECIMAL('' @ g1 @ '','' @ g2 @ '')'') =
          Inr \<lparr>name = n, type_code = 0, display_size = None, internal_size = None,
               precision = Some (int_of_digits g1), scale = Some (int_of_digits g2),
               is_nullable = True\<rparr>)
   \<and> (startswith ty ''DECIMAL'' \<longrightarrow>
        as_result_metadata n ty =
          Inr \<lparr>name = n, type_code = 0, display_size = None, internal_size = None,
               precision = map_option (int_of_digits \<circ> fst) (re_search ty),
               scale = map_option (int_of_digits \<circ> snd) (re_search ty), is_nullable = True\<rparr>)
   \<and> as_result_metadata n ''VARCHAR'' =
        Inr \<lparr>name = n, type_code = 2, display_size = None, internal_size = Some 16777216,
             precision = None, scale = None, is_nullable = True\<rparr>
   \<and> as_result_metadata n ''DOUBLE'' =
        Inr \<lparr>name = n, type_code = 1, display_size = None, internal_size = None,
             precision = None, scale = None, is_nullable = True\<rparr>
   \<and> as_result_metadata n ''BOOLEAN'' =
        Inr \<lparr>name = n, type_code = 13, display_size = None, internal_size = None,
             precision = None, scale = None, is_nullable = True\<rparr>
   \<and> as_result_metadata n ''DATE'' =
        Inr \<lparr>name = n, type_code = 3, display_size = None, internal_size = None,
             precision = None, scale = None, is_nullable = True\<rparr>
   \<and> as_result_metadata n ''TIMESTAMP'' =
        Inr \<lparr>name = n, type_code = 8, display_size = None, internal_size = None,
             precision = Some 0, scale = Some 9, is_nullable = True\<rparr>
   \<and> as_result_metadata n ''TIMESTAMP_NS'' =
        Inr \<lparr>name = n, type_code = 8, display_size = None, internal_size = None,
             precision = Some 0, scale = Some 9, is_nullable = True\<rparr>
   \<and> (\<not> startswith ty ''DECIMAL'' \<and>
        ty \<notin> {''BIGINT'', ''VARCHAR'', ''DOUBLE'', ''BOOLEAN'', ''DATE'', ''TIMESTAMP'', ''TIMESTAMP_NS''} \<longrightarrow>
        as_result_metadata n ty = Inl (NotImplementedError (''for column type '' @ ty)))
   \<and> (describe_as_result_metadata rows = Inr ms \<longleftrightarrow>
        map (\<lambda>(n, ty, u). as_result_metadata n ty) rows = map Inr ms)"
proof (intro conjI impI)
  show "describe_as_result_metadata rows = Inr ms \<longleftrightarrow>
        map (\<lambda>(n, ty, u). as_result_metadata n ty) rows = map Inr ms"
    by (rule describe_as_result_metadata_iff)
next
  assume digits: "g1 \<noteq> [] \<and> list_all is_digit g1 \<and> g2 \<noteq> [] \<and> list_all is_digit g2"
  show "as_result_metadata n (''DECIMAL('' @ g1 @ '','' @ g2 @ '')'') =
          Inr \<lparr>name = n, type_code = 0, display_size = None, internal_size = None,
               precision = Some (int_of_digits g1), scale = Some (int_of_digits g2),
               is_nullable = True\<rparr>"
    by (rule as_result_metadata_decimal) (simp_all add: digits)
next
  assume other: "\<not> startswith ty ''DECIMAL'' \<and>
        ty \<notin> {''BIGINT'', ''VARCHAR'', ''DOUBLE'', ''BOOLEAN'', ''DATE'', ''TIMESTAMP'', ''TIMESTAMP_NS''}"
  show "as_result_metadata n ty = Inl (NotImplementedError (''for column type '' @ ty))"
    by (rule as_result_metadata_other [OF other [THEN conjunct1] other [THEN conjunct2]])
qed (rule as_result_metadata_fixed as_result_metadata_startswith_decimal, assumption?)+

text \<open>
  The table at \<^verbatim>\<open>DECIMAL(18,3)\<close>, whose digits are read as 18 and 3, and at \<^verbatim>\<open>INTEGER\<close>,
  which is not mapped.
\<close>

theorem describe_result_metadata_table_witness:
  "as_result_metadata ''AMOUNT'' ''DECIMAL(18,3)'' =
      Inr \<lparr>name = ''AMOUNT'', type_code = 0, display_size = None, internal_size = None,
           precision = Some 18, scale = Some 3, is_nullable = True\<rparr>
   \<and> as_result_metadata ''AMOUNT'' ''INTEGER'' = Inl (NotImplementedError ''for column type INTEGER'')"
proof -
  note table = describe_result_metadata_table [where n = "''AMOUNT''" and ?g1.0 = "''18''"
      and ?g2.0 = "''3''" and ty = "''INTEGER''"]
  have digits: "''18'' \<noteq> [] \<and> list_all is_digit ''18'' \<and> ''3'' \<noteq> [] \<and> list_all is_digit ''3''"
    by (simp add: is_digit_def)
  have "as_result_metadata ''AMOUNT'' (''DECIMAL('' @ ''18'' @ '','' @ ''3'' @ '')'') =
          Inr \<lparr>name = ''AMOUNT'', type_code = 0, display_size = None, internal_size = None,
               precision = Some (int_of_digits ''18''), scale = Some (int_of_digits ''3''),
               is_nullable = True\<rparr>"
    using table [THEN conjunct2, THEN conjunct1] digits by (rule mp)
  moreover have "int_of_digits ''18'' = 18" "int_of_digits ''3'' = 3"
    by (simp_all add: int_of_digits_def digit_value_def)
  moreover have other: "\<not> startswith ''INTEGER'' ''DECIMAL'' \<and>
      ''INTEGER'' \<notin> {''BIGINT'', ''VARCHAR'', ''DOUBLE'', ''BOOLEAN'', ''DATE'', ''TIMESTAMP'', ''TIMESTAMP_NS''}"
    by simp
  have "as_result_metadata ''AMOUNT'' ''INTEGER'' =
      Inl (NotImplementedError (''for column type '' @ ''INTEGER''))"
    using table [THEN conjunct2, THEN conjunct2, THEN conjunct2, THEN conjunct2, THEN conjunct2,
        THEN conjunct2, THEN conjunct2, THEN conjunct2, THEN conjunct2, THEN conjunct1] other
    by (rule mp)
  ultimately show ?thesis by simp
qed

text \<open>
  C3 as it was stated fails at the type string \<^verbatim>\<open>DECIMAL\<close>: it is none of the entries of
  the table, having no precision and scale, and it is given a descriptor, not the
  exception.
\<close>

theorem bare_decimal_counterexample:
  "as_result_metadata ''AMOUNT'' ''DECIMAL'' =
      Inr \<lparr>name = ''AMOUNT'', type_code = 0, display_size = None, internal_size = None,
           precision = None, scale = None, is_nullable = True\<rparr>
   \<and> as_result_metadata ''AMOUNT'' ''DECIMAL'' \<noteq> Inl (NotImplementedError ''for column type DECIMAL'')"
  by (simp add: as_result_metadata_def match_here_def)

subsection \<open>One record per key\<close>

text \<open>
  C4, as amended. Take any sequence of calls of \<^verbatim>\<open>execute\<close> that all return, and a catalog
  whose \<^verbatim>\<open>tables_ext\<close> and \<^verbatim>\<open>columns_ext\<close> hold at most one record per key before the
  first call. The upserts are the writes of \<^verbatim>\<open>execute\<close> itself: the comment of a
  \<^verbatim>\<open>table_comment\<close> annotation and the lengths of a \<^verbatim>\<open>text_lengths\<close> annotation. If the
  statements emitted for the calls leave the relations of the catalog alone, and no
  catalog, schema, table or column name and no comment that a call supplies holds a
  single quote, then afterwards each of the two tables still holds at most one record per
  key (the keys of its rows are distinct), and read as a map from keys to values it is the
  table before with the supplied rows of this catalog laid over it in the order of the
  calls: a key that a call supplied has exactly one record, and its value is the value of
  the latest call that supplied the key.
\<close>

theorem upserts_one_record_per_key:
  assumes "execute_all env s calls = (None, s1)"
    and "statements_keep env catalog' s calls"
    and "list_all comment_quote_free (supplied_comments env s calls)"
    and "list_all length_quote_free (supplied_lengths env s calls)"
    and "tables_ext_rows (engine (duck_conn s)) catalog' = Some t" and "distinct (map fst t)"
    and "columns_ext_rows (engine (duck_conn s)) catalog' = Some u" and "distinct (map fst u)"
  shows "\<exists>t1 u1. tables_ext_rows (engine (duck_conn s1)) catalog' = Some t1
       \<and> columns_ext_rows (engine (duck_conn s1)) catalog' = Some u1
       \<and> distinct (map fst t1) \<and> distinct (map fst u1)
       \<and> map_of t1 = map_of t ++ map_of (rev (in_catalog catalog' (supplied_comments env s calls)))
       \<and> map_of u1 = map_of u ++ map_of (rev (in_catalog catalog' (supplied_lengths env s calls)))
       \<and> (\<forall>k v. map_of (rev (in_catalog catalog' (supplied_comments env s calls))) k = Some v \<longrightarrow>
             filter (\<lambda>row. fst row = k) t1 = [(k, v)])
       \<and> (\<forall>k v. map_of (rev (in_catalog catalog' (supplied_lengths env s calls))) k = Some v \<longrightarrow>
             filter (\<lambda>row. fst row = k) u1 = [(k, v)])"
proof -
  from upserts_all [OF assms(1,2,3,4,5,7)] assms(6,8) obtain t1 u1 where
    fin: "tables_ext_rows (engine (duck_conn s1)) catalog' = Some t1"
      "columns_ext_rows (engine (duck_conn s1)) catalog' = Some u1"
      "map_of t1 = map_of t ++ map_of (rev (in_catalog catalog' (supplied_comments env s calls)))"
      "map_of u1 = map_of u ++ map_of (rev (in_catalog catalog' (supplied_lengths env s calls)))"
      "distinct (map fst t1)" "distinct (map fst u1)"
    by (elim exE conjE) simp
  have "filter (\<lambda>row. fst row = k) t1 = [(k, v)]"
    if "map_of (rev (in_catalog catalog' (supplied_comments env s calls))) k = Some v" for k v
    using that by (intro one_record_per_key [OF fin(5)]) (simp add: fin(3))
  moreover have "filter (\<lambda>row. fst row = k) u1 = [(k, v)]"
    if "map_of (rev (in_catalog catalog' (supplied_lengths env s calls))) k = Some v" for k v
    using that by (intro one_record_per_key [OF fin(6)]) (simp add: fin(4))
  ultimately show ?thesis
    using fin by (intro exI [of _ t1] exI [of _ u1] conjI allI impI)
qed

text \<open>
  The table \<^verbatim>\<open>PEOPLE\<close> is created with a comment and a text length, and the comment is
  replaced by a second call: one record with the second comment is there.
\<close>

theorem upserts_one_record_per_key_witness:
  "execute_all example_env session_ready example_calls =
     (None, session_ready\<lparr>arrow_table := None,
        last_sql := Some ''COMMENT ON TABLE PEOPLE IS $$all the people$$'', last_params := NoParams,
        duck_conn := commented_duck\<rparr>)
   \<and> statements_keep example_env ''DB1'' session_ready example_calls
   \<and> supplied_comments example_env session_ready example_calls =
       [((''DB1'', ''JAFFLES'', ''PEOPLE''), ''the people''),
        ((''DB1'', ''JAFFLES'', ''PEOPLE''), ''all the people'')]
   \<and> supplied_lengths example_env session_ready example_calls =
       [((''DB1'', ''JAFFLES'', ''PEOPLE'', ''NAME''), 50, 200)]
   \<and> list_all comment_quote_free (supplied_comments example_env session_ready example_calls)
   \<and> list_all length_quote_free (supplied_lengths example_env session_ready example_calls)
   \<and> tables_ext_rows (engine (duck_conn session_ready)) ''DB1'' = Some []
   \<and> columns_ext_rows (engine (duck_conn session_ready)) ''DB1'' = Some []
   \<and> (\<exists>t1 u1. tables_ext_rows (engine commented_duck) ''DB1'' = Some t1
         \<and> columns_ext_rows (engine commented_duck) ''DB1'' = Some u1
         \<and> distinct (map fst t1) \<and> distinct (map fst u1)
         \<and> filter (\<lambda>row. fst row = (''DB1'', ''JAFFLES'', ''PEOPLE'')) t1 =
             [((''DB1'', ''JAFFLES'', ''PEOPLE''), ''all the people'')]
         \<and> filter (\<lambda>row. fst row = (''DB1'', ''JAFFLES'', ''PEOPLE'', ''NAME'')) u1 =
             [((''DB1'', ''JAFFLES'', ''PEOPLE'', ''NAME''), 50, 200)])"
proof -
  have qc: "list_all comment_quote_free (supplied_comments example_env session_ready example_calls)"
    by (simp add: example_calls_run(3) quote_free_def quote_def)
  have ql: "list_all length_quote_free (supplied_lengths example_env session_ready example_calls)"
    by (simp add: example_calls_run(4) quote_free_def quote_def)
  have t: "tables_ext_rows (engine (duck_conn session_ready)) ''DB1'' = Some []"
    and u: "columns_ext_rows (engine (duck_conn session_ready)) ''DB1'' = Some []"
    by (simp_all add: duck_conn_session_ready rows_ready_duck)
  have d: "distinct (map fst ([] :: tables_ext_row list))" "distinct (map fst ([] :: columns_ext_row list))"
    by simp_all
  have latest: "map_of (rev (in_catalog ''DB1'' (supplied_comments example_env session_ready example_calls)))
      (''DB1'', ''JAFFLES'', ''PEOPLE'') = Some ''all the people''"
    "map_of (rev (in_catalog ''DB1'' (supplied_lengths example_env session_ready example_calls)))
      (''DB1'', ''JAFFLES'', ''PEOPLE'', ''NAME'') = Some (50, 200)"
    by (simp_all add: example_calls_run(3,4) in_catalog_def)
  from upserts_one_record_per_key [OF example_calls_run(1,2) qc ql t d(1) u d(2)]
  obtain t1 u1 where fin: "tables_ext_rows (engine commented_duck) ''DB1'' = Some t1"
    "columns_ext_rows (engine commented_duck) ''DB1'' = Some u1"
    "distinct (map fst t1)" "distinct (map fst u1)"
    and one: "\<forall>k v. map_of (rev (in_catalog ''DB1'' (supplied_comments example_env session_ready
        example_calls))) k = Some v \<longrightarrow> filter (\<lambda>row. fst row = k) t1 = [(k, v)]"
      "\<forall>k v. map_of (rev (in_catalog ''DB1'' (supplied_lengths example_env session_ready
        example_calls))) k = Some v \<longrightarrow> filter (\<lambda>row. fst row = k) u1 = [(k, v)]"
    by (elim exE conjE) simp
  note recs = one(1) [THEN spec, THEN spec, THEN mp, OF latest(1)]
    one(2) [THEN spec, THEN spec, THEN mp, OF latest(2)]
  have "\<exists>t1 u1. tables_ext_rows (engine commented_duck) ''DB1'' = Some t1
         \<and> columns_ext_rows (engine commented_duck) ''DB1'' = Some u1
         \<and> distinct (map fst t1) \<and> distinct (map fst u1)
         \<and> filter (\<lambda>row. fst row = (''DB1'', ''JAFFLES'', ''PEOPLE'')) t1 =
             [((''DB1'', ''JAFFLES'', ''PEOPLE''), ''all the people'')]
         \<and> filter (\<lambda>row. fst row = (''DB1'', ''JAFFLES'', ''PEOPLE'', ''NAME'')) u1 =
             [((''DB1'', ''JAFFLES'', ''PEOPLE'', ''NAME''), 50, 200)]"
    using fin recs by (intro exI [of _ t1] exI [of _ u1] conjI)
  with example_calls_run qc ql t u show ?thesis by (intro conjI)
qed

text \<open>
  C4 as it was stated fails for a value that holds single quotes, because the cursor
  writes the values between single quotes as they are. The comment \<^verbatim>\<open>it''s\<close>, with two
  single quotes, is supplied by a call that returns, and the record of the table holds
  \<^verbatim>\<open>it's\<close>, with one.
\<close>

theorem doubled_quote_comment_counterexample:
  "fst (execute_all example_env session_ready [(CommandExpr comment_its, NoParams)]) = None
   \<and> statements_keep example_env ''DB1'' session_ready [(CommandExpr comment_its, NoParams)]
   \<and> tables_ext_rows (engine (duck_conn session_ready)) ''DB1'' = Some []
   \<and> supplied_comments example_env session_ready [(CommandExpr comment_its, NoParams)] =
       [((''DB1'', ''JAFFLES'', ''PEOPLE''), its)]
   \<and> tables_ext_rows (engine (duck_conn (snd (execute_all example_env session_ready
         [(CommandExpr comment_its, NoParams)])))) ''DB1'' =
       Some [((''DB1'', ''JAFFLES'', ''PEOPLE''), ''it's'')]
   \<and> its \<noteq> ''it's''"
proof -
  have h1: "expression_of example_env c (CommandExpr comment_its) NoParams = Inr comment_its" for c
    by (simp add: expression_of_def)
  have keep: "statements_keep example_env ''DB1'' session_ready [(CommandExpr comment_its, NoParams)]"
    by (simp add: statement_keeps_def h1 example_engine_result)
  have sup: "supplied_comments example_env session_ready [(CommandExpr comment_its, NoParams)] =
       [((''DB1'', ''JAFFLES'', ''PEOPLE''), its)]"
    by (simp add: call_comment_def h1 example_transforms example_its_annotations example_table_key)
  have t: "tables_ext_rows (engine (duck_conn session_ready)) ''DB1'' = Some []"
    by (simp add: duck_conn_session_ready rows_ready_duck)
  from example_comment_its keep sup t its_values(3) show ?thesis
    unfolding execute_all_one by (intro conjI)
qed

subsection \<open>Text lengths\<close>

text \<open>
  C5, as amended. When \<^verbatim>\<open>execute\<close> returns for a statement whose \<^verbatim>\<open>text_lengths\<close>
  annotation holds the pair \<^verbatim>\<open>(col, n)\<close>, and neither the catalog, the schema and the
  table name of the key nor a column name of the annotation holds a single quote, the
  \<^verbatim>\<open>columns_ext\<close> table of the table's catalog has, under the key of catalog, schema, table
  and column, the record with \<^verbatim>\<open>ext_character_maximum_length = n\<close> and
  \<^verbatim>\<open>ext_character_octet_length = min(n*4, 16777216)\<close>; and, the keys of the table being
  distinct, the view \<^verbatim>\<open>columns_snowflake\<close> reports for that column exactly one row, with
  these two numbers as \<^verbatim>\<open>character_maximum_length\<close> and \<^verbatim>\<open>character_octet_length\<close>.
\<close>

theorem text_length_recorded:
  assumes "execute env s command ps = (None, s1)"
    and "expression_of env (conn s) command ps = Inr e"
    and "text_lengths env (apply_transforms env (database (conn s)) e) = Some lengths"
    and "find_table env (apply_transforms env (database (conn s)) e) = Some tbl"
    and "(col, n) \<in> set lengths"
    and "key = (format_str (py_or (catalog tbl) (database (conn s1))),
                format_str (py_or (db tbl) (schema (conn s1))), tbl_name tbl, col)"
    and "quote_free (format_str (py_or (catalog tbl) (database (conn s1))))"
    and "quote_free (format_str (py_or (db tbl) (schema (conn s1))))"
    and "quote_free (tbl_name tbl)"
    and "list_all (\<lambda>(col_name, size). quote_free col_name) lengths"
  shows "\<exists>rows. columns_ext_rows (engine (duck_conn s1)) (fst key) = Some rows
       \<and> map_of rows key = Some (n, min (n * 4) 16777216)
       \<and> (distinct (map fst rows) \<longrightarrow>
            (\<forall>r :: 'a columns_row_scheme. columns_key r = key \<longrightarrow>
               map (\<lambda>v. (character_maximum_length v, character_octet_length v))
                 (columns_snowflake [r] rows) = [(Some n, Some (min (n * 4) 16777216))]))"
proof -
  from assms(5) have nonempty: "lengths \<noteq> []" by auto
  from execute_returns(2) [OF assms(1,2)] obtain dc where
    written: "record_text_lengths env (apply_transforms env (database (conn s)) e) (conn s1) dc =
       (None, duck_conn s1)"
    by (elim exE conjE)
  have free: "list_all length_quote_free (text_length_rows (conn s1) tbl lengths)"
    using assms(7,8,9,10)
    by (auto simp: text_length_rows_def table_key_def list_all_iff)
  have k: "fst (table_key (conn s1) tbl) = fst key"
    "(fst (table_key (conn s1) tbl), fst (snd (table_key (conn s1) tbl)), tbl_name tbl, col) = key"
    by (simp_all add: assms(6) table_key_def)
  from record_text_lengths_step [OF written assms(3) nonempty assms(4) free]
  have ins: "insert_columns_ext (fst key) (text_length_rows (conn s1) tbl lengths) (engine dc) =
      Inr (engine (duck_conn s1))"
    by (simp add: k(1))
  from insert_columns_ext_Inr(1) [OF ins] obtain rows0 rows where
    rows: "insert_on_conflict (text_length_rows (conn s1) tbl lengths) rows0 = Inr rows"
      "columns_ext_rows (engine (duck_conn s1)) (fst key) = Some rows"
    by (elim exE conjE)
  note new = insert_on_conflict_Inr(1,2) [OF rows(1)]
  have "(key, n, min (n * 4) 16777216) \<in> set (rev (text_length_rows (conn s1) tbl lengths))"
    using text_length_rows_member [OF assms(5), of "conn s1" tbl] by (simp add: k(2))
  moreover have "distinct (map fst (rev (text_length_rows (conn s1) tbl lengths)))"
    using new(1) by (simp add: rev_map [symmetric])
  ultimately have "map_of (rev (text_length_rows (conn s1) tbl lengths)) key =
      Some (n, min (n * 4) 16777216)"
    by (rule map_of_is_SomeI [rotated])
  then have stored: "map_of rows key = Some (n, min (n * 4) 16777216)"
    by (simp add: new(2))
  have "map (\<lambda>v. (character_maximum_length v, character_octet_length v)) (columns_snowflake [r] rows) =
      [(Some n, Some (min (n * 4) 16777216))]"
    if "distinct (map fst rows)" "columns_key r = key" for r :: "'a columns_row_scheme"
    using columns_snowflake_one [OF that(1), of r n "min (n * 4) 16777216"] stored that(2) by simp
  with rows(2) stored show ?thesis
    by (intro exI [of _ rows] conjI impI allI)
qed

text \<open>\<^verbatim>\<open>VARCHAR(50)\<close>: the view reports 50 and 200.\<close>

theorem text_length_recorded_witness:
  "execute example_env session_ready
     (CommandStr ''create table people (name varchar(50), age int) comment = $$the people$$'') NoParams =
     (None, session_ready\<lparr>arrow_table := None,
        last_sql := Some ''CREATE TABLE PEOPLE (NAME TEXT, AGE BIGINT)'', last_params := NoParams,
        duck_conn := people_duck\<rparr>)
   \<and> expression_of example_env (conn session_ready)
      (CommandStr ''create table people (name varchar(50), age int) comment = $$the people$$'') NoParams =
      Inr create_people
   \<and> text_lengths example_env (apply_transforms example_env (database (conn session_ready)) create_people) =
      Some [(''NAME'', 50)]
   \<and> find_table example_env (apply_transforms example_env (database (conn session_ready)) create_people) =
      Some \<lparr>catalog = [], db = [], tbl_name = ''PEOPLE''\<rparr>
   \<and> quote_free ''DB1'' \<and> quote_free ''JAFFLES'' \<and> quote_free ''PEOPLE'' \<and> quote_free ''NAME''
   \<and> columns_key name_column = (''DB1'', ''JAFFLES'', ''PEOPLE'', ''NAME'')
   \<and> (\<exists>rows. columns_ext_rows (engine people_duck) ''DB1'' = Some rows
         \<and> map_of rows (''DB1'', ''JAFFLES'', ''PEOPLE'', ''NAME'') = Some (50, 200)
         \<and> map (\<lambda>v. (character_maximum_length v, character_octet_length v))
              (columns_snowflake [name_column] rows) = [(Some 50, Some 200)])"
proof -
  have h3: "text_lengths example_env
      (apply_transforms example_env (database (conn session_ready)) create_people) = Some [(''NAME'', 50)]"
    by (simp add: example_transforms example_annotations)
  have h4: "find_table example_env
      (apply_transforms example_env (database (conn session_ready)) create_people) =
      Some \<lparr>catalog = [], db = [], tbl_name = ''PEOPLE''\<rparr>"
    by (simp add: example_transforms example_annotations)
  have h5: "(''NAME'', 50) \<in> set [(''NAME'', 50 :: int)]"
    by simp
  have c: "conn (session_ready\<lparr>arrow_table := None,
             last_sql := Some ''CREATE TABLE PEOPLE (NAME TEXT, AGE BIGINT)'', last_params := NoParams,
             duck_conn := people_duck\<rparr>) = conn session_ready"
    by simp
  have h6: "(''DB1'', ''JAFFLES'', ''PEOPLE'', ''NAME'') =
      (format_str (py_or (catalog \<lparr>catalog = [], db = [], tbl_name = ''PEOPLE''\<rparr>)
          (database (conn (session_ready\<lparr>arrow_table := None,
             last_sql := Some ''CREATE TABLE PEOPLE (NAME TEXT, AGE BIGINT)'', last_params := NoParams,
             duck_conn := people_duck\<rparr>)))),
       format_str (py_or (db \<lparr>catalog = [], db = [], tbl_name = ''PEOPLE''\<rparr>)
          (schema (conn (session_ready\<lparr>arrow_table := None,
             last_sql := Some ''CREATE TABLE PEOPLE (NAME TEXT, AGE BIGINT)'', last_params := NoParams,
             duck_conn := people_duck\<rparr>)))),
       tbl_name \<lparr>catalog = [], db = [], tbl_name = ''PEOPLE''\<rparr>, ''NAME'')"
    unfolding c by (simp add: conn_session_ready py_or_def)
  have q: "quote_free ''DB1''" "quote_free ''JAFFLES''" "quote_free ''PEOPLE''" "quote_free ''NAME''"
    by (simp_all add: quote_free_def quote_def)
  have h7: "quote_free (format_str (py_or (catalog \<lparr>catalog = [], db = [], tbl_name = ''PEOPLE''\<rparr>)
          (database (conn (session_ready\<lparr>arrow_table := None,
             last_sql := Some ''CREATE TABLE PEOPLE (NAME TEXT, AGE BIGINT)'', last_params := NoParams,
             duck_conn := people_duck\<rparr>)))))"
    unfolding c by (simp add: conn_session_ready py_or_def q)
  have h8: "quote_free (format_str (py_or (db \<lparr>catalog = [], db = [], tbl_name = ''PEOPLE''\<rparr>)
          (schema (conn (session_ready\<lparr>arrow_table := None,
             last_sql := Some ''CREATE TABLE PEOPLE (NAME TEXT, AGE BIGINT)'', last_params := NoParams,
             duck_conn := people_duck\<rparr>)))))"
    unfolding c by (simp add: conn_session_ready py_or_def q)
  have h9: "quote_free (tbl_name \<lparr>catalog = [], db = [], tbl_name = ''PEOPLE''\<rparr>)"
    by (simp add: q)
  have h10: "list_all (\<lambda>(col_name, size). quote_free col_name) [(''NAME'', 50 :: int)]"
    by (simp add: q)
  have k: "columns_key name_column = (''DB1'', ''JAFFLES'', ''PEOPLE'', ''NAME'')"
    by (simp add: columns_key_def name_column_def)
  from text_length_recorded [OF example_create_people example_expression_of(1) h3 h4 h5 h6 h7 h8 h9 h10]
  obtain rows where rows: "columns_ext_rows (engine people_duck) ''DB1'' = Some rows"
    "map_of rows (''DB1'', ''JAFFLES'', ''PEOPLE'', ''NAME'') = Some (50, 200)"
    "distinct (map fst rows) \<longrightarrow>
       (\<forall>r :: columns_row. columns_key r = (''DB1'', ''JAFFLES'', ''PEOPLE'', ''NAME'') \<longrightarrow>
          map (\<lambda>v. (character_maximum_length v, character_octet_length v))
            (columns_snowflake [r] rows) = [(Some 50, Some 200)])"
    by (elim exE conjE) simp
  from rows(1) have d: "distinct (map fst rows)"
    using rows_people_duck(2) by auto
  have view: "map (\<lambda>v. (character_maximum_length v, character_octet_length v))
              (columns_snowflake [name_column] rows) = [(Some 50, Some 200)]"
    by (rule rows(3) [THEN mp, OF d, THEN spec, THEN mp, OF k])
  have "\<exists>rows. columns_ext_rows (engine people_duck) ''DB1'' = Some rows
         \<and> map_of rows (''DB1'', ''JAFFLES'', ''PEOPLE'', ''NAME'') = Some (50, 200)
         \<and> map (\<lambda>v. (character_maximum_length v, character_octet_length v))
              (columns_snowflake [name_column] rows) = [(Some 50, Some 200)]"
    using rows(1,2) view by (intro exI [of _ rows] conjI)
  with example_create_people example_expression_of(1) h3 h4 q k show ?thesis by (intro conjI)
qed

text \<open>
  C5 as it was stated fails for a column whose name holds single quotes. The column
  \<^verbatim>\<open>"it''s"\<close> is declared with the length 50 in a statement for which \<^verbatim>\<open>execute\<close>
  returns; the record that is written has the column name \<^verbatim>\<open>it's\<close>, and there is no
  record under the name of the column.
\<close>

theorem doubled_quote_column_counterexample:
  "fst (execute example_env session_ready (CommandExpr create_notes) NoParams) = None
   \<and> text_lengths example_env
        (apply_transforms example_env (database (conn session_ready)) create_notes) = Some [(its, 50)]
   \<and> find_table example_env
        (apply_transforms example_env (database (conn session_ready)) create_notes) =
        Some \<lparr>catalog = [], db = [], tbl_name = ''NOTES''\<rparr>
   \<and> columns_ext_rows (engine (duck_conn (snd (execute example_env session_ready
         (CommandExpr create_notes) NoParams)))) ''DB1'' =
       Some [((''DB1'', ''JAFFLES'', ''NOTES'', ''it's''), 50, 200)]
   \<and> map_of [((''DB1'', ''JAFFLES'', ''NOTES'', ''it's''), (50 :: int, 200 :: int))]
        (''DB1'', ''JAFFLES'', ''NOTES'', its) = None"
proof -
  have h3: "text_lengths example_env
        (apply_transforms example_env (database (conn session_ready)) create_notes) = Some [(its, 50)]"
    by (simp add: example_transforms example_its_annotations)
  have h4: "find_table example_env
        (apply_transforms example_env (database (conn session_ready)) create_notes) =
        Some \<lparr>catalog = [], db = [], tbl_name = ''NOTES''\<rparr>"
    by (simp add: example_transforms example_its_annotations)
  have none: "map_of [((''DB1'', ''JAFFLES'', ''NOTES'', ''it's''), (50 :: int, 200 :: int))]
        (''DB1'', ''JAFFLES'', ''NOTES'', its) = None"
    using its_values(3) by simp
  from example_create_notes h3 h4 none show ?thesis by (intro conjI)
qed

subsection \<open>Exceptions of the engine\<close>

text \<open>
  The two \<^verbatim>\<open>except\<close> clauses as they are written. When the engine raises on the statement
  emitted for the command, a \<^verbatim>\<open>BinderException\<close> reaches the caller as
  \<^verbatim>\<open>ProgrammingError\<close> with errno 2043, sqlstate 02000 and the engine's message as it is,
  all lines of it; a \<^verbatim>\<open>CatalogException\<close> as \<^verbatim>\<open>ProgrammingError\<close> with errno 2003,
  sqlstate 42S02 and the first line of the engine's message, which is the text before the
  first line break, or all of it when it has none.
\<close>

lemma engine_exceptions_translated:
  assumes "expression_of env (conn s) command ps = Inr e"
    and "session_check (conn s) (key_command env e) (is_unqualified_table_expression env e) = None"
    and "engine_result env s e ps = (Some err, eng)"
  shows "(err = BinderException m \<longrightarrow>
            fst (execute env s command ps) = Some (ProgrammingError m 2043 ''02000''))
       \<and> (err = CatalogException m \<longrightarrow>
            fst (execute env s command ps) = Some (ProgrammingError (first_line m) 2003 ''42S02''))
       \<and> (CHR 0x0A \<notin> set a \<longrightarrow> first_line (a @ CHR 0x0A # b) = a \<and> first_line a = a)"
  using fst_execute_engine_error [OF assms] first_line_prefix [of a b] first_line_whole [of a]
  by simp

text \<open>
  C6. The caller is to receive the first line of the engine's message, for a
  \<^verbatim>\<open>BinderException\<close> as for a \<^verbatim>\<open>CatalogException\<close>. The clause for \<^verbatim>\<open>CatalogException\<close> does so: of the two lines the
  engine gives for a table it does not know, the caller receives the first. The clause for
  \<^verbatim>\<open>BinderException\<close> does not: of the two lines the engine gives for a column it does not
  know, the caller receives both, which is not the first line. Code and state are
  2043 and 02000, 2003 and 42S02.
\<close>

theorem binder_exception_message_whole:
  "engine_result example_env session_ready select_unknown_column NoParams =
     (Some (BinderException
        ''Binder Error: Referenced column AGE not found in FROM clause!\<newline>Candidate bindings: PEOPLE.NAME''),
      engine (duck_conn session_ready))
   \<and> fst (execute example_env session_ready (CommandStr ''select age from people'') NoParams) =
       Some (ProgrammingError
         ''Binder Error: Referenced column AGE not found in FROM clause!\<newline>Candidate bindings: PEOPLE.NAME''
         2043 ''02000'')
   \<and> first_line
        ''Binder Error: Referenced column AGE not found in FROM clause!\<newline>Candidate bindings: PEOPLE.NAME'' =
       ''Binder Error: Referenced column AGE not found in FROM clause!''
   \<and> fst (execute example_env session_ready (CommandStr ''select age from people'') NoParams) \<noteq>
       Some (ProgrammingError ''Binder Error: Referenced column AGE not found in FROM clause!'' 2043 ''02000'')
   \<and> engine_result example_env session_ready select_missing NoParams =
       (Some (CatalogException
          ''Catalog Error: Table with name MISSING does not exist!\<newline>Did you mean PEOPLE?''),
        engine (duck_conn session_ready))
   \<and> fst (execute example_env session_ready (CommandStr ''select * from missing'') NoParams) =
       Some (ProgrammingError ''Catalog Error: Table with name MISSING does not exist!'' 2003 ''42S02'')"
proof -
  have h1: "expression_of example_env (conn session_ready) (CommandStr ''select age from people'') NoParams =
     Inr select_unknown_column"
    by (simp add: expression_of_def rewrite_params_def example_env_def example_parse_def)
  have h2: "session_check (conn session_ready) (key_command example_env select_unknown_column)
        (is_unqualified_table_expression example_env select_unknown_column) = None"
    by (simp add: session_check_def example_defs)
  have h3: "engine_result example_env session_ready select_unknown_column NoParams =
     (Some (BinderException
        ''Binder Error: Referenced column AGE not found in FROM clause!\<newline>Candidate bindings: PEOPLE.NAME''),
      engine (duck_conn session_ready))"
    by (simp add: engine_result_def apply_transforms_def example_defs)
  have l: "first_line
        ''Binder Error: Referenced column AGE not found in FROM clause!\<newline>Candidate bindings: PEOPLE.NAME'' =
       ''Binder Error: Referenced column AGE not found in FROM clause!''"
    by (simp add: first_line_def)
  have k1: "expression_of example_env (conn session_ready) (CommandStr ''select * from missing'') NoParams =
     Inr select_missing"
    by (simp add: expression_of_def rewrite_params_def example_env_def example_parse_def)
  have k2: "session_check (conn session_ready) (key_command example_env select_missing)
        (is_unqualified_table_expression example_env select_missing) = None"
    by (simp add: session_check_def example_defs)
  have k3: "engine_result example_env session_ready select_missing NoParams =
       (Some (CatalogException
          ''Catalog Error: Table with name MISSING does not exist!\<newline>Did you mean PEOPLE?''),
        engine (duck_conn session_ready))"
    by (simp add: engine_result_def apply_transforms_def example_defs)
  have m: "first_line ''Catalog Error: Table with name MISSING does not exist!\<newline>Did you mean PEOPLE?'' =
      ''Catalog Error: Table with name MISSING does not exist!''"
    by (simp add: first_line_def)
  have whole: "fst (execute example_env session_ready (CommandStr ''select age from people'') NoParams) =
       Some (ProgrammingError
         ''Binder Error: Referenced column AGE not found in FROM clause!\<newline>Candidate bindings: PEOPLE.NAME''
         2043 ''02000'')"
    using fst_execute_engine_error [OF h1 h2 h3] by simp
  have other: "fst (execute example_env session_ready (CommandStr ''select age from people'') NoParams) \<noteq>
       Some (ProgrammingError ''Binder Error: Referenced column AGE not found in FROM clause!'' 2043 ''02000'')"
    unfolding whole by simp
  have catalog: "fst (execute example_env session_ready (CommandStr ''select * from missing'') NoParams) =
       Some (ProgrammingError ''Catalog Error: Table with name MISSING does not exist!'' 2003 ''42S02'')"
    using fst_execute_engine_error [OF k1 k2 k3] by (simp add: m)
  from h3 whole l other k3 catalog show ?thesis by (intro conjI)
qed

subsection \<open>Creating the extension objects\<close>

text \<open>
  C7, as amended. \<^verbatim>\<open>_create_info_schema_ext\<close> is not idempotent. A call that succeeds
  leaves exactly one \<^verbatim>\<open>tables_ext\<close> table, one \<^verbatim>\<open>columns_ext\<close> table and one
  \<^verbatim>\<open>columns_snowflake\<close> view in the catalog, both tables empty. A second call for the same
  catalog does not succeed: its first statement is refused by the engine because the name
  is taken, the engine's exception goes to the caller, and the engine is left as the first
  call left it, so there is still one of each. The method is written to be called once
  for a catalog that has just been created.
\<close>

theorem create_info_schema_ext_once:
  assumes "create_info_schema_ext env dc catalog' = (None, dc1)"
  shows "count_relations (engine dc1) catalog' ''tables_ext'' = 1
       \<and> count_relations (engine dc1) catalog' ''columns_ext'' = 1
       \<and> count_relations (engine dc1) catalog' ''columns_snowflake'' = 1
       \<and> tables_ext_rows (engine dc1) catalog' = Some []
       \<and> columns_ext_rows (engine dc1) catalog' = Some []
       \<and> create_info_schema_ext env dc1 catalog' =
           (Some (DuckDBError (CatalogException ''Table with name tables_ext already exists!'')),
            dc1\<lparr>received := received dc1 @ [CreateTablesExt catalog']\<rparr>)
       \<and> engine (snd (create_info_schema_ext env dc1 catalog')) = engine dc1"
proof -
  from create_info_schema_ext_returns [OF assms] obtain objs where
    absent: "''tables_ext'' \<notin> set (map fst objs)" "''columns_ext'' \<notin> set (map fst objs)"
      "''columns_snowflake'' \<notin> set (map fst objs)"
    and created: "catalogs (engine dc1) catalog' =
      Some (objs @ [(''tables_ext'', TablesExt []), (''columns_ext'', ColumnsExt []),
                    (''columns_snowflake'', ColumnsView)])"
    by auto
  have again: "create_info_schema_ext env dc1 catalog' =
           (Some (DuckDBError (CatalogException ''Table with name tables_ext already exists!'')),
            dc1\<lparr>received := received dc1 @ [CreateTablesExt catalog']\<rparr>)"
    by (rule create_info_schema_ext_again [OF created]) simp
  show ?thesis
    using count_relations_created [OF created absent] again by simp
qed

text \<open>The first call on a catalog that is attached and has nothing of the extension yet.\<close>

theorem create_info_schema_ext_once_witness:
  "create_info_schema_ext example_env fresh_duck ''DB1'' =
     (None, ready_duck\<lparr>received := [CreateTablesExt ''DB1'', CreateColumnsExt ''DB1'',
                                     CreateColumnsView ''DB1'']\<rparr>)
   \<and> count_relations (engine (ready_duck\<lparr>received := [CreateTablesExt ''DB1'', CreateColumnsExt ''DB1'',
           CreateColumnsView ''DB1'']\<rparr>)) ''DB1'' ''tables_ext'' = 1
   \<and> fst (create_info_schema_ext example_env
           (ready_duck\<lparr>received := [CreateTablesExt ''DB1'', CreateColumnsExt ''DB1'',
              CreateColumnsView ''DB1'']\<rparr>) ''DB1'') =
       Some (DuckDBError (CatalogException ''Table with name tables_ext already exists!''))"
  using create_info_schema_ext_once [OF example_create_info_schema_ext] example_create_info_schema_ext
  by simp

text \<open>
  C7 as it was stated fails on that catalog: the first call returns, the second raises.
\<close>

theorem create_info_schema_ext_twice_counterexample:
  "fst (create_info_schema_ext example_env fresh_duck ''DB1'') = None
   \<and> fst (create_info_schema_ext example_env
           (snd (create_info_schema_ext example_env fresh_duck ''DB1'')) ''DB1'') =
       Some (DuckDBError (CatalogException ''Table with name tables_ext already exists!''))"
  using create_info_schema_ext_again [where env = example_env, OF catalogs_ready_duck
      [of "[CreateTablesExt ''DB1'', CreateColumnsExt ''DB1'', CreateColumnsView ''DB1'']"]]
  by (simp add: example_create_info_schema_ext)

subsection \<open>\<^verbatim>\<open>executemany\<close>\<close>

text \<open>Once a call has raised, the calls that would follow are not made.\<close>

lemma sequential_after_exception:
  "foldl (\<lambda>(r, st) p. case r of None \<Rightarrow> execute env st (CommandStr command) p
                                | Some err \<Rightarrow> (Some err, st))
     (Some err, s) param_sets = (Some err, s)"
  by (induction param_sets) simp_all

lemma execute_each_sequential:
  "execute_each env s command param_sets = sequential_executes env s command param_sets"
proof (induction param_sets arbitrary: s)
  case Nil
  show ?case by (simp add: sequential_executes_def)
next
  case (Cons p param_sets)
  obtain r s1 where step: "execute env s (CommandStr command) p = (r, s1)"
    by (cases "execute env s (CommandStr command) p")
  show ?case
  proof (cases r)
    case None
    with step Cons.IH [of s1] show ?thesis by (simp add: sequential_executes_def)
  next
    case (Some err)
    with step show ?thesis by (simp add: sequential_executes_def sequential_after_exception)
  qed
qed


text \<open>
  C8. For a command and a sequence of parameter sets, \<^verbatim>\<open>executemany\<close> gives the result
  and leaves the state (session context, cursor and engine) of the calls of \<^verbatim>\<open>execute\<close>
  made one after the other, one per parameter set in the order of the sequence; the
  result \<open>None\<close> is the cursor returned. With the empty sequence the state is the one
  before the call and nothing is executed.
\<close>

theorem executemany_sequential:
  "executemany env s command (ManySeq param_sets) = sequential_executes env s command param_sets
   \<and> executemany env s command (ManySeq []) = (None, s)"
  by (simp add: executemany_def execute_each_sequential) (simp add: sequential_executes_def)

text \<open>Two rows inserted by one \<^verbatim>\<open>executemany\<close>: the engine is sent two statements.\<close>

theorem executemany_sequential_witness:
  "executemany example_env session_ready ''insert into people values (%s, %s)''
       (ManySeq [SeqParams [PyStr ''Ann'', PyInt 31], SeqParams [PyStr ''Bob'', PyInt 47]]) =
     sequential_executes example_env session_ready ''insert into people values (%s, %s)''
       [SeqParams [PyStr ''Ann'', PyInt 31], SeqParams [PyStr ''Bob'', PyInt 47]]
   \<and> fst (sequential_executes example_env session_ready ''insert into people values (%s, %s)''
       [SeqParams [PyStr ''Ann'', PyInt 31], SeqParams [PyStr ''Bob'', PyInt 47]]) = None
   \<and> received (duck_conn (snd (sequential_executes example_env session_ready
         ''insert into people values (%s, %s)''
         [SeqParams [PyStr ''Ann'', PyInt 31], SeqParams [PyStr ''Bob'', PyInt 47]]))) =
       [Statement ''INSERT INTO PEOPLE VALUES (?, ?)'' (SeqParams [PyStr ''Ann'', PyInt 31]),
        Statement ''INSERT INTO PEOPLE VALUES (?, ?)'' (SeqParams [PyStr ''Bob'', PyInt 47])]"
proof -
  have "sequential_executes example_env session_ready ''insert into people values (%s, %s)''
       [SeqParams [PyStr ''Ann'', PyInt 31], SeqParams [PyStr ''Bob'', PyInt 47]] =
     (None, session_ready\<lparr>arrow_table := None, last_sql := Some ''INSERT INTO PEOPLE VALUES (?, ?)'',
               last_params := SeqParams [PyStr ''Bob'', PyInt 47],
               duck_conn := ready_duck\<lparr>received :=
                 [Statement ''INSERT INTO PEOPLE VALUES (?, ?)'' (SeqParams [PyStr ''Ann'', PyInt 31]),
                  Statement ''INSERT INTO PEOPLE VALUES (?, ?)'' (SeqParams [PyStr ''Bob'', PyInt 47])]\<rparr>\<rparr>)"
    by (simp add: sequential_executes_def example_insert_people duck_conn_session_ready)
       (simp add: ready_duck_def)
  with executemany_sequential [of example_env session_ready "''insert into people values (%s, %s)''"
      "[SeqParams [PyStr ''Ann'', PyInt 31], SeqParams [PyStr ''Bob'', PyInt 47]]", THEN conjunct1]
  show ?thesis by simp
qed

subsection \<open>Dictionary parameters\<close>

text \<open>
  C9. \<^verbatim>\<open>execute\<close> with a string command and a dictionary of parameters, and
  \<^verbatim>\<open>executemany\<close> with a dictionary (or with a sequence whose first parameter set is a
  dictionary), raise \<^verbatim>\<open>NotImplementedError\<close>. The result is the same in every environment,
  whatever its parser, passes and engine are, and the state is the one before the call
  (but for the arrow table \<^verbatim>\<open>execute\<close> clears first): nothing was parsed, transformed or
  sent.
\<close>

theorem dict_params_not_implemented:
  "execute env s (CommandStr command) (DictParams kvs) =
     (Some (NotImplementedError ''dict params not supported yet''), s\<lparr>arrow_table := None\<rparr>)
   \<and> executemany env s command (ManyDict items) =
     (Some (NotImplementedError ''dict params not supported yet''), s)
   \<and> executemany env s command (ManySeq (DictParams kvs # others)) =
     (Some (NotImplementedError ''dict params not supported yet''), s\<lparr>arrow_table := None\<rparr>)"
  by (simp add: execute_def expression_of_def rewrite_params_def executemany_def)

text \<open>Both calls in a session that is ready to run statements.\<close>

theorem dict_params_not_implemented_witness:
  "execute example_env session_ready (CommandStr ''insert into people values (?, ?)'')
       (DictParams [(PyStr ''a'', PyInt 1)]) =
     (Some (NotImplementedError ''dict params not supported yet''), session_ready)
   \<and> executemany example_env session_ready ''insert into people values (?, ?)'' (ManyDict [(''a'', PyInt 1)]) =
     (Some (NotImplementedError ''dict params not supported yet''), session_ready)"
proof -
  have "session_ready\<lparr>arrow_table := None\<rparr> = session_ready"
    by (simp add: session_ready_def cursor_def)
  with dict_params_not_implemented [of example_env session_ready "''insert into people values (?, ?)''"
      "[(PyStr ''a'', PyInt 1)]" "[(''a'', PyInt 1)]" "[]"]
  show ?thesis by simp
qed

subsection \<open>The session context\<close>

text \<open>
  C10. \<^verbatim>\<open>execute\<close> changes the session context (\<^verbatim>\<open>database\<close>, \<^verbatim>\<open>schema\<close>,
  \<^verbatim>\<open>database_set\<close>, \<^verbatim>\<open>schema_set\<close>) only when the engine has executed the emitted
  statement without an exception and the command is \<^verbatim>\<open>USE DATABASE\<close> or \<^verbatim>\<open>USE SCHEMA\<close>. When
  the engine raises, whatever the exception, the four fields are what they were. When
  the engine accepts the statement, \<^verbatim>\<open>USE DATABASE\<close> with an identifier that is a string
  sets \<^verbatim>\<open>database\<close> to the identifier upper-cased, which is what Python's \<^verbatim>\<open>str.upper\<close>
  gives for it, and \<^verbatim>\<open>database_set\<close> to true, and \<^verbatim>\<open>USE SCHEMA\<close> does the same for
  \<^verbatim>\<open>schema\<close> and \<^verbatim>\<open>schema_set\<close>.
\<close>

theorem session_context_written_after_success:
  "(conn (snd (execute env s command ps)) \<noteq> conn s \<longrightarrow>
      (\<exists>e. expression_of env (conn s) command ps = Inr e
         \<and> session_check (conn s) (key_command env e) (is_unqualified_table_expression env e) = None
         \<and> fst (engine_result env s e ps) = None
         \<and> key_command env e \<in> {''USE DATABASE'', ''USE SCHEMA''}))
   \<and> (expression_of env (conn s) command ps = Inr e \<and> fst (engine_result env s e ps) = Some err \<longrightarrow>
        conn (snd (execute env s command ps)) = conn s)
   \<and> (expression_of env (conn s) command ps = Inr e
        \<and> session_check (conn s) (key_command env e) (is_unqualified_table_expression env e) = None
        \<and> fst (engine_result env s e ps) = None \<longrightarrow>
        conn (snd (execute env s command ps)) = use_statement env e (conn s)
        \<and> (key_command env e = ''USE DATABASE'' \<and> find_identifier env e = Some (ThisStr ident) \<longrightarrow>
             use_statement env e (conn s) =
               (conn s)\<lparr>database := Some (upper env ident), database_set := True\<rparr>)
        \<and> (key_command env e = ''USE SCHEMA'' \<and> find_identifier env e = Some (ThisStr ident) \<longrightarrow>
             use_statement env e (conn s) =
               (conn s)\<lparr>schema := Some (upper env ident), schema_set := True\<rparr>))"
proof (intro conjI impI)
  assume changed: "conn (snd (execute env s command ps)) \<noteq> conn s"
  show "\<exists>e. expression_of env (conn s) command ps = Inr e
         \<and> session_check (conn s) (key_command env e) (is_unqualified_table_expression env e) = None
         \<and> fst (engine_result env s e ps) = None
         \<and> key_command env e \<in> {''USE DATABASE'', ''USE SCHEMA''}"
  proof (cases "expression_of env (conn s) command ps")
    case (Inl x)
    with changed show ?thesis by (simp add: conn_execute)
  next
    case (Inr e')
    with changed have c: "session_check (conn s) (key_command env e')
        (is_unqualified_table_expression env e') = None"
      by (cases "session_check (conn s) (key_command env e') (is_unqualified_table_expression env e')")
         (simp_all add: conn_execute)
    with changed Inr have r: "fst (engine_result env s e' ps) = None"
      by (cases "fst (engine_result env s e' ps)") (simp_all add: conn_execute)
    with changed Inr c have "use_statement env e' (conn s) \<noteq> conn s"
      by (simp add: conn_execute)
    then have "key_command env e' \<in> {''USE DATABASE'', ''USE SCHEMA''}"
      using use_statement_other [of env e' "conn s"] by (rule contrapos_np)
    with Inr c r show ?thesis by (intro exI [of _ e'] conjI)
  qed
next
  assume "expression_of env (conn s) command ps = Inr e \<and> fst (engine_result env s e ps) = Some err"
  then show "conn (snd (execute env s command ps)) = conn s"
    by (simp add: conn_execute split: option.splits)
next
  assume "expression_of env (conn s) command ps = Inr e
        \<and> session_check (conn s) (key_command env e) (is_unqualified_table_expression env e) = None
        \<and> fst (engine_result env s e ps) = None"
  then show "conn (snd (execute env s command ps)) = use_statement env e (conn s)"
    by (simp add: conn_execute)
next
  assume "key_command env e = ''USE DATABASE'' \<and> find_identifier env e = Some (ThisStr ident)"
  then show "use_statement env e (conn s) =
               (conn s)\<lparr>database := Some (upper env ident), database_set := True\<rparr>"
    by (simp add: use_statement_database)
next
  assume "key_command env e = ''USE SCHEMA'' \<and> find_identifier env e = Some (ThisStr ident)"
  then show "use_statement env e (conn s) =
               (conn s)\<lparr>schema := Some (upper env ident), schema_set := True\<rparr>"
    by (simp add: use_statement_schema)
qed


text \<open>\<^verbatim>\<open>use database db1\<close> in a session opened without a database.\<close>

theorem session_context_written_after_success_witness:
  "expression_of example_env (conn session_unset) (CommandStr ''use database db1'') NoParams =
     Inr use_database_db1
   \<and> session_check (conn session_unset) (key_command example_env use_database_db1)
        (is_unqualified_table_expression example_env use_database_db1) = None
   \<and> fst (engine_result example_env session_unset use_database_db1 NoParams) = None
   \<and> key_command example_env use_database_db1 = ''USE DATABASE''
   \<and> find_identifier example_env use_database_db1 = Some (ThisStr ''db1'')
   \<and> upper example_env ''db1'' = ''DB1''
   \<and> conn session_unset =
       \<lparr>database = None, schema = None, database_set = False, schema_set = False,
        paramstyle = ''pyformat''\<rparr>
   \<and> conn (snd (execute example_env session_unset (CommandStr ''use database db1'') NoParams)) =
       \<lparr>database = Some ''DB1'', schema = None, database_set = True, schema_set = False,
        paramstyle = ''pyformat''\<rparr>"
proof -
  have h1: "expression_of example_env (conn session_unset) (CommandStr ''use database db1'') NoParams =
     Inr use_database_db1"
    by (simp add: expression_of_def rewrite_params_def example_env_def example_parse_def)
  have h2: "session_check (conn session_unset) (key_command example_env use_database_db1)
        (is_unqualified_table_expression example_env use_database_db1) = None"
    by (simp add: session_check_def example_defs)
  have h3: "fst (engine_result example_env session_unset use_database_db1 NoParams) = None"
    by (simp add: engine_result_def apply_transforms_def example_defs)
  have h4: "key_command example_env use_database_db1 = ''USE DATABASE''"
    by (simp add: example_defs)
  have h5: "find_identifier example_env use_database_db1 = Some (ThisStr ''db1'')"
    by (simp add: example_defs)
  have c: "conn session_unset =
       \<lparr>database = None, schema = None, database_set = False, schema_set = False,
        paramstyle = ''pyformat''\<rparr>"
    by (simp add: example_defs)
  have u: "upper example_env ''db1'' = ''DB1''"
    by (simp add: example_env_def example_upper_def upper_char_def)
  note written = session_context_written_after_success [of example_env session_unset
      "CommandStr ''use database db1''" NoParams use_database_db1 _ "''db1''",
      THEN conjunct2, THEN conjunct2, THEN mp, OF conjI [OF h1 conjI [OF h2 h3]]]
  have "conn (snd (execute example_env session_unset (CommandStr ''use database db1'') NoParams)) =
      (conn session_unset)\<lparr>database := Some (upper example_env ''db1''), database_set := True\<rparr>"
    using written [THEN conjunct1] written [THEN conjunct2, THEN conjunct1, THEN mp, OF conjI [OF h4 h5]]
    by (rule trans)
  then have "conn (snd (execute example_env session_unset (CommandStr ''use database db1'') NoParams)) =
       \<lparr>database = Some ''DB1'', schema = None, database_set = True, schema_set = False,
        paramstyle = ''pyformat''\<rparr>"
    by (simp add: c u)
  with h1 h2 h3 h4 h5 u c show ?thesis by (intro conjI)
qed

end
